(* ===== verification/Prelude.thy ===== *)
theory Prelude
  imports Main
begin

text \<open>
  Shared vocabulary of the model of \<^verbatim>\<open>src/news_bot.py\<close>: Python text as a list
  of Unicode code points, the decimal digits used by \<^verbatim>\<open>str(int)\<close> and by the JSON
  number scanner, the Python exceptions the bot can raise, and the generic lemmas on
  lists that the scanners and the pipeline share.  The collection \<open>len_facts\<close>
  gathers the "this step consumes input" facts of the scanners, \<open>pyval_simps\<close>
  the evaluation rules of the Python value model.
\<close>

named_theorems len_facts "length facts of the scanners: the rest is a suffix"

named_theorems pyval_simps "evaluation rules of the Python value model"

section \<open>Python text\<close>

text \<open>A Python \<^verbatim>\<open>str\<close> is a sequence of code points, modelled as a list of
  naturals.  \<open>pystr\<close> turns an ASCII literal of the source into such a sequence.\<close>

type_synonym ustr = "nat list"

definition pystr :: "string \<Rightarrow> ustr" where
  "pystr s = map of_char s"

definition starts_with :: "ustr \<Rightarrow> ustr \<Rightarrow> bool" where
  "starts_with p s \<longleftrightarrow> take (length p) s = p"

text \<open>\<^verbatim>\<open>sep.join(xs)\<close>.\<close>

fun join_with :: "ustr \<Rightarrow> ustr list \<Rightarrow> ustr" where
  "join_with sep [] = []"
| "join_with sep [x] = x"
| "join_with sep (x # y # zs) = x @ sep @ join_with sep (y # zs)"

section \<open>Decimal digits\<close>

definition is_digit :: "nat \<Rightarrow> bool" where
  "is_digit c \<longleftrightarrow> 48 \<le> c \<and> c \<le> 57"

text \<open>Value of a run of decimal digits, most significant first
  (\<^verbatim>\<open>int(s)\<close> on a digit string).\<close>

definition digit_val :: "ustr \<Rightarrow> nat" where
  "digit_val ds = foldl (\<lambda>a d. 10 * a + (d - 48)) 0 ds"

text \<open>\<^verbatim>\<open>str(n)\<close> for a natural number: its decimal digits.\<close>

fun decimal :: "nat \<Rightarrow> ustr" where
  "decimal n = (if n < 10 then [48 + n] else decimal (n div 10) @ [48 + n mod 10])"

declare decimal.simps [simp del]

text \<open>\<^verbatim>\<open>str(i)\<close> for a Python int.\<close>

definition py_str_int :: "int \<Rightarrow> ustr" where
  "py_str_int i = (if i < 0 then 45 # decimal (nat (- i)) else decimal (nat i))"

section \<open>Python exceptions raised by the bot\<close>

text \<open>
  Every exception that can leave a function of \<^verbatim>\<open>news_bot.py\<close> is a constructor:
  \<^item> \<open>JSONDecodeError\<close>: \<^verbatim>\<open>json.loads\<close> on text that is not JSON;
  \<^item> \<open>TypeError\<close>: \<^verbatim>\<open>json.loads(None)\<close> (a blocked model response has
    \<^verbatim>\<open>response.text = None\<close>), or subscripting a non-dict value;
  \<^item> \<open>AttributeError\<close>: \<^verbatim>\<open>.get\<close> on a parsed value that is not a dict;
  \<^item> \<open>KeyError k\<close>: \<^verbatim>\<open>d[k]\<close> on a dict without key \<open>k\<close>;
  \<^item> \<open>NewsClientError\<close>: a failure of the news client that is not an
    \<^verbatim>\<open>ApiException\<close> (connection errors, response validation), which
    \<^verbatim>\<open>fetch_random_news\<close> does not catch;
  \<^item> \<open>GenAIError\<close>: a failed \<^verbatim>\<open>client.models.generate_content\<close> call;
  \<^item> \<open>AuthFlowError\<close>: an exception of the interactive OAuth flow before the code
    exchange (a missing client-secret file, \<^verbatim>\<open>EOFError\<close> from
    \<^verbatim>\<open>input()\<close> without a console);
  \<^item> \<open>SystemExit\<close>: \<^verbatim>\<open>run_flow\<close> calls \<^verbatim>\<open>sys.exit\<close> when the exchange
    of the verification code fails; it is not an \<^verbatim>\<open>Exception\<close>;
  \<^item> \<open>HttpError\<close>: a failed Blogger API request (discovery, \<^verbatim>\<open>getByUrl\<close>,
    \<^verbatim>\<open>posts.insert\<close>);
  \<^item> \<open>TokenRefreshError\<close>: oauth2client could not refresh an expired access token
    (\<^verbatim>\<open>HttpAccessTokenRefreshError\<close>);
  \<^item> \<open>ValueError\<close>: \<^verbatim>\<open>json.loads\<close> meets an integer literal of more than 4300
    digits;
  \<^item> \<open>RecursionError\<close>: \<^verbatim>\<open>json.loads\<close> meets containers nested deeper than
    the interpreter's recursion room.
\<close>

datatype py_error =
    JSONDecodeError
  | TypeError
  | AttributeError
  | KeyError ustr
  | NewsClientError
  | GenAIError
  | AuthFlowError
  | HttpError
  | ValueError
  | RecursionError
  | SystemExit
  | TokenRefreshError

section \<open>Lists\<close>

text \<open>Whitespace skipping of the JSON scanner, \<^verbatim>\<open>[ \t\n\r]*\<close>.\<close>

definition is_ws :: "nat \<Rightarrow> bool" where
  "is_ws c \<longleftrightarrow> c = 32 \<or> c = 9 \<or> c = 10 \<or> c = 13"

definition skip_ws :: "ustr \<Rightarrow> ustr" where
  "skip_ws s = dropWhile is_ws s"

section \<open>Lemmas\<close>

subsection \<open>Python text\<close>

lemma pystr_simps [simp]:
  "pystr [] = []"
  "pystr (c # s) = of_char c # pystr s"
  "pystr (s @ t) = pystr s @ pystr t"
  "length (pystr s) = length s"
  by (simp_all add: pystr_def)

lemma replicate_numeral [simp]:
  "replicate (numeral k) x = x # replicate (pred_numeral k) x"
  by (simp add: numeral_eq_Suc)

lemma starts_with_append [simp]: "starts_with p (p @ s)"
  by (simp add: starts_with_def)

lemma starts_with_Cons [simp]:
  "starts_with (a # p) (b # s) \<longleftrightarrow> a = b \<and> starts_with p s"
  "starts_with [] s"
  "starts_with (a # p) [] = False"
  by (auto simp: starts_with_def)

subsection \<open>Decimal digits\<close>

lemma digit_val_append [simp]:
  "digit_val (ds @ [d]) = 10 * digit_val ds + (d - 48)"
  by (simp add: digit_val_def)

lemma digit_val_decimal [simp]: "digit_val (decimal n) = n"
proof (induction n rule: decimal.induct)
  case (1 n)
  show ?case
  proof (cases "n < 10")
    case True
    then show ?thesis by (simp add: decimal.simps [of n] digit_val_def)
  next
    case False
    then have "digit_val (decimal (n div 10)) = n div 10" by (rule "1.IH")
    with False show ?thesis by (simp add: decimal.simps [of n])
  qed
qed

lemma decimal_digits: "d \<in> set (decimal n) \<Longrightarrow> is_digit d"
proof (induction n arbitrary: d rule: decimal.induct)
  case (1 n)
  then show ?case
    by (cases "n < 10") (auto simp: decimal.simps [of n] is_digit_def)
qed

lemma decimal_not_Nil [simp]: "decimal n \<noteq> []"
  by (subst decimal.simps) simp

lemma decimal_inj:
  assumes "decimal m = decimal n"
  shows "m = n"
proof -
  have "digit_val (decimal m) = digit_val (decimal n)" using assms by simp
  then show ?thesis by simp
qed

lemma minus_not_in_decimal: "45 \<notin> set (decimal n)"
  using decimal_digits [of 45 n] by (auto simp: is_digit_def)

lemma py_str_int_inj:
  assumes "py_str_int i = py_str_int j"
  shows "i = j"
proof (cases "i < 0"; cases "j < 0")
  assume "i < 0" "j < 0"
  with assms show ?thesis by (auto simp: py_str_int_def dest!: decimal_inj)
next
  assume "\<not> i < 0" "\<not> j < 0"
  with assms show ?thesis by (auto simp: py_str_int_def dest!: decimal_inj)
next
  assume "i < 0" "\<not> j < 0"
  with assms have "45 # decimal (nat (- i)) = decimal (nat j)" by (simp add: py_str_int_def)
  then have "45 \<in> set (decimal (nat j))" by (metis list.set_intros(1))
  then show ?thesis using minus_not_in_decimal by blast
next
  assume "\<not> i < 0" "j < 0"
  with assms have "decimal (nat i) = 45 # decimal (nat (- j))" by (simp add: py_str_int_def)
  then have "45 \<in> set (decimal (nat i))" by (metis list.set_intros(1))
  then show ?thesis using minus_not_in_decimal by blast
qed

subsection \<open>Lists\<close>

lemma skip_ws_le [len_facts]: "length (skip_ws s) \<le> length s"
  by (simp add: skip_ws_def length_dropWhile_le)

lemma skip_ws_idem [simp]: "skip_ws (skip_ws s) = skip_ws s"
proof (induction s)
  case Nil
  then show ?case by (simp add: skip_ws_def)
next
  case (Cons c s)
  then show ?case by (simp add: skip_ws_def)
qed

lemma skip_ws_Cons_ws [simp]: "is_ws c \<Longrightarrow> skip_ws (c # s) = skip_ws s"
  and skip_ws_Cons_non_ws [simp]: "\<not> is_ws c \<Longrightarrow> skip_ws (c # s) = c # s"
  and skip_ws_Nil [simp]: "skip_ws [] = []"
  by (simp_all add: skip_ws_def)

lemma skip_ws_append_ws:
  "\<forall>c\<in>set w. is_ws c \<Longrightarrow> skip_ws (w @ s) = skip_ws s"
  by (induction w) simp_all

lemma skip_ws_Cons_length [len_facts]: "skip_ws s = c # r \<Longrightarrow> length r < length s"
  using skip_ws_le [of s] by simp

lemma skip_ws_hd: "skip_ws s = c # r \<Longrightarrow> \<not> is_ws c"
  by (metis hd_dropWhile list.distinct(1) list.sel(1) skip_ws_def)

lemma length_takeWhile_dropWhile [len_facts]:
  "length (dropWhile P s) \<le> length s"
  by (rule length_dropWhile_le)

end
