(* ===== verification/Json.thy ===== *)
theory Json
  imports Prelude
begin

text \<open>
  The Python values the bot handles: what \<^verbatim>\<open>json.loads\<close> returns, the article
  dicts built by \<^verbatim>\<open>fetch_random_news\<close> and the Blogger payload.  A dict is an
  association list in insertion order with distinct keys (\<^verbatim>\<open>dict(pairs)\<close> is
  \<open>dict_of_pairs\<close>); the operations the bot applies to these values are Python's
  truth test (\<open>truthy\<close>), \<^verbatim>\<open>d.get(k, default)\<close> (\<open>py_get\<close>), \<^verbatim>\<open>d[k]\<close>
  (\<open>py_getitem\<close>) and \<^verbatim>\<open>str(x) == str(y)\<close> on article ids (\<open>str_eq\<close>).

  A Python float is kept as the exact decimal \<open>(-1)^neg * m * 10^e\<close> with \<open>m\<close>
  free of trailing zeros (as \<open>norm_dec\<close> leaves it), plus NaN and the infinities.  This is
  the value of the double for every literal of at most 15 significant digits in the
  double range; rounding to 53 bits and overflow to infinity are not modelled.
\<close>

datatype pyfloat = Finite bool nat int | NaN | Infinity | NegInfinity

datatype json =
    JNull
  | JBool bool
  | JInt int
  | JFloat pyfloat
  | JString ustr
  | JArray "json list"
  | JObject "(ustr \<times> json) list"

section \<open>Floats\<close>

fun norm_dec :: "nat \<Rightarrow> int \<Rightarrow> nat \<times> int" where
  "norm_dec m e =
     (if m = 0 then (0, 0)
      else if m mod 10 = 0 then norm_dec (m div 10) (e + 1)
      else (m, e))"

declare norm_dec.simps [simp del]

text \<open>\<^verbatim>\<open>float(s)\<close> for a literal with sign \<open>neg\<close>, digits \<open>m\<close> and exponent \<open>e\<close>.\<close>

definition mk_float :: "bool \<Rightarrow> nat \<Rightarrow> int \<Rightarrow> pyfloat" where
  "mk_float neg m e = (case norm_dec m e of (m', e') \<Rightarrow> Finite neg m' e')"

text \<open>\<^verbatim>\<open>repr(x)\<close> of a finite float (\<^verbatim>\<open>float_repr_style = 'short'\<close>):
  the digits \<open>ds\<close> and the decimal point position \<open>dp\<close>
  (\<open>x = 0.ds * 10^dp\<close>) are printed in positional notation when
  \<open>-4 < dp \<le> 16\<close>, with \<^verbatim>\<open>.0\<close> added to whole numbers, and in exponent
  notation with at least two exponent digits otherwise.\<close>

definition float_digits :: "nat \<Rightarrow> int \<Rightarrow> ustr \<times> int" where
  "float_digits m e = (if m = 0 then ([48], 1) else (decimal m, int (length (decimal m)) + e))"

definition pad2 :: "ustr \<Rightarrow> ustr" where
  "pad2 ds = (if length ds < 2 then 48 # ds else ds)"

definition repr_finite :: "bool \<Rightarrow> nat \<Rightarrow> int \<Rightarrow> ustr" where
  "repr_finite neg m e =
     (case float_digits m e of
        (ds, dp) \<Rightarrow>
          (if neg then [45] else []) @
          (if dp \<le> -4 \<or> 16 < dp then
             [hd ds] @ (if 1 < length ds then 46 # tl ds else []) @ [101] @
             (if dp - 1 < 0 then [45] else [43]) @ pad2 (decimal (nat \<bar>dp - 1\<bar>))
           else if dp \<le> 0 then pystr ''0.'' @ replicate (nat (- dp)) 48 @ ds
           else if dp < int (length ds) then take (nat dp) ds @ 46 # drop (nat dp) ds
           else ds @ replicate (nat (dp - int (length ds))) 48 @ pystr ''.0''))"

text \<open>\<^verbatim>\<open>str(x)\<close> of a float.\<close>

fun py_str_float :: "pyfloat \<Rightarrow> ustr" where
  "py_str_float (Finite neg m e) = repr_finite neg m e"
| "py_str_float NaN = pystr ''nan''"
| "py_str_float Infinity = pystr ''inf''"
| "py_str_float NegInfinity = pystr ''-inf''"

section \<open>Truth values\<close>

text \<open>Python's \<^verbatim>\<open>bool(x)\<close>: \<^verbatim>\<open>None\<close>, \<^verbatim>\<open>False\<close>, zero, and empty strings,
  lists and dicts are false; NaN is true.\<close>

fun truthy :: "json \<Rightarrow> bool" where
  "truthy JNull \<longleftrightarrow> False"
| "truthy (JBool b) \<longleftrightarrow> b"
| "truthy (JInt i) \<longleftrightarrow> i \<noteq> 0"
| "truthy (JFloat (Finite neg m e)) \<longleftrightarrow> m \<noteq> 0"
| "truthy (JFloat _) \<longleftrightarrow> True"
| "truthy (JString s) \<longleftrightarrow> s \<noteq> []"
| "truthy (JArray vs) \<longleftrightarrow> vs \<noteq> []"
| "truthy (JObject ps) \<longleftrightarrow> ps \<noteq> []"

section \<open>Dicts\<close>

text \<open>\<^verbatim>\<open>d[k] = v\<close>: an existing key keeps its position, a new key goes last.\<close>

fun dict_set :: "('k \<times> 'v) list \<Rightarrow> 'k \<Rightarrow> 'v \<Rightarrow> ('k \<times> 'v) list" where
  "dict_set [] k v = [(k, v)]"
| "dict_set ((k', v') # ps) k v =
     (if k' = k then (k, v) # ps else (k', v') # dict_set ps k v)"

text \<open>\<^verbatim>\<open>dict(pairs)\<close>: later pairs overwrite earlier ones with the same key.\<close>

definition dict_of_pairs :: "('k \<times> 'v) list \<Rightarrow> ('k \<times> 'v) list" where
  "dict_of_pairs ps = fold (\<lambda>(k, v) d. dict_set d k v) ps []"

abbreviation dict_fold :: "('k \<times> 'v) list \<Rightarrow> ('k \<times> 'v) list \<Rightarrow> ('k \<times> 'v) list" where
  "dict_fold ps d \<equiv> fold (\<lambda>(k, v) d. dict_set d k v) ps d"

text \<open>\<^verbatim>\<open>x.get(k, default)\<close>: only dicts have \<^verbatim>\<open>get\<close>.\<close>

fun py_get :: "json \<Rightarrow> ustr \<Rightarrow> json \<Rightarrow> py_error + json" where
  "py_get (JObject ps) k dflt = Inr (case map_of ps k of Some v \<Rightarrow> v | None \<Rightarrow> dflt)"
| "py_get _ k dflt = Inl AttributeError"

text \<open>\<^verbatim>\<open>x[k]\<close> with a str key: \<^verbatim>\<open>KeyError\<close> on a dict without the key,
  \<^verbatim>\<open>TypeError\<close> on any other value (lists and strs need int indices, the rest is
  not subscriptable).\<close>

fun py_getitem :: "json \<Rightarrow> ustr \<Rightarrow> py_error + json" where
  "py_getitem (JObject ps) k = (case map_of ps k of Some v \<Rightarrow> Inr v | None \<Rightarrow> Inl (KeyError k))"
| "py_getitem _ k = Inl TypeError"

section \<open>str() of an id\<close>

text \<open>
  \<^verbatim>\<open>str(x)\<close> for the scalar values.  The text of a list starts with
  \<^verbatim>\<open>[\<close> and of a dict with \<^verbatim>\<open>{\<close>, so it equals no scalar's text; lists
  and dicts are left without text here, and \<open>str_eq aid x\<close>, which is
  \<^verbatim>\<open>str(aid) == str(x)\<close> for a scalar article id \<open>aid\<close>, is false for them.
\<close>

fun py_str_atom :: "json \<Rightarrow> ustr option" where
  "py_str_atom JNull = Some (pystr ''None'')"
| "py_str_atom (JBool b) = Some (if b then pystr ''True'' else pystr ''False'')"
| "py_str_atom (JInt i) = Some (py_str_int i)"
| "py_str_atom (JFloat f) = Some (py_str_float f)"
| "py_str_atom (JString s) = Some s"
| "py_str_atom (JArray vs) = None"
| "py_str_atom (JObject ps) = None"

definition str_eq :: "json \<Rightarrow> json \<Rightarrow> bool" where
  "str_eq aid x \<longleftrightarrow> py_str_atom aid \<noteq> None \<and> py_str_atom aid = py_str_atom x"

section \<open>Lemmas\<close>

subsection \<open>Dicts\<close>

lemma map_of_dict_set [simp]: "map_of (dict_set d k v) = (map_of d)(k \<mapsto> v)"
  by (induction d) (auto simp: fun_eq_iff)

lemma keys_dict_set [simp]:
  "map fst (dict_set d k v) = (if k \<in> set (map fst d) then map fst d else map fst d @ [k])"
  by (induction d) (auto simp: rev_image_eqI)

lemma distinct_dict_set [simp]: "distinct (map fst d) \<Longrightarrow> distinct (map fst (dict_set d k v))"
  by simp

lemma dict_fold_distinct: "distinct (map fst d) \<Longrightarrow> distinct (map fst (dict_fold ps d))"
proof (induction ps arbitrary: d)
  case Nil
  then show ?case by simp
next
  case (Cons p ps)
  then show ?case by (cases p) (simp del: keys_dict_set)
qed

lemma dict_fold_map_of: "map_of (dict_fold ps d) = map_of d ++ map_of (rev ps)"
proof (induction ps arbitrary: d)
  case Nil
  then show ?case by simp
next
  case (Cons p ps)
  obtain k v where p: "p = (k, v)" by (cases p)
  show ?case
    by (simp add: p Cons.IH map_add_def fun_eq_iff split: option.splits)
qed

lemma distinct_dict_of_pairs [simp]: "distinct (map fst (dict_of_pairs ps))"
  unfolding dict_of_pairs_def by (rule dict_fold_distinct) simp

lemma map_of_dict_of_pairs [simp]: "map_of (dict_of_pairs ps) = map_of (rev ps)"
  by (simp add: dict_of_pairs_def dict_fold_map_of)

subsection \<open>str() of an id\<close>

lemma str_eq_JInt [simp]: "str_eq (JInt i) (JInt j) \<longleftrightarrow> i = j"
  by (auto simp: str_eq_def dest: py_str_int_inj)

lemma str_eq_JInt_JString [simp]: "str_eq (JInt i) (JString s) \<longleftrightarrow> s = py_str_int i"
  by (auto simp: str_eq_def)

end
