(* ===== verification/News.thy ===== *)
theory News
  imports Json
begin

text \<open>
  The news fetcher, \<^verbatim>\<open>fetch_random_news\<close> (\<^verbatim>\<open>src/news_bot.py\<close>, lines
  60--97).  The WorldNews client is an oracle \<open>news\<close> from the search request to its
  outcome; the category drawn by \<^verbatim>\<open>random.choice\<close> is given by the draw
  \<open>r\<close> of \<^verbatim>\<open>_randbelow(len(categories))\<close>.  Each article of the response
  (the client's \<^verbatim>\<open>SearchNews200ResponseNewsInner\<close>, whose fields are all
  optional) is copied into a dict of twelve keys.  Only \<^verbatim>\<open>ApiException\<close> is
  caught and turned into an empty list; any other failure of the client, and a response
  whose \<^verbatim>\<open>news\<close> field is \<^verbatim>\<open>None\<close> (iterating it raises \<^verbatim>\<open>TypeError\<close>),
  propagates.
\<close>

record raw_article =
  art_id :: "int option"
  art_title :: "ustr option"
  art_text :: "ustr option"
  art_summary :: "ustr option"
  art_url :: "ustr option"
  art_image :: "ustr option"
  art_video :: "ustr option"
  art_publish_date :: "ustr option"
  art_authors :: "ustr list option"
  art_language :: "ustr option"
  art_source_country :: "ustr option"
  art_sentiment :: "(int + pyfloat) option"

text \<open>The keyword arguments of \<^verbatim>\<open>newsapi_instance.search_news\<close>.\<close>

record search_request =
  req_source_country :: ustr
  req_language :: ustr
  req_categories :: ustr
  req_sort :: ustr
  req_sort_direction :: ustr
  req_number :: int

text \<open>What the client call does: return a response with its \<^verbatim>\<open>news\<close> field,
  raise \<^verbatim>\<open>ApiException\<close>, or raise anything else.\<close>

datatype news_outcome =
    NewsResponse "raw_article list option"
  | NewsApiException
  | NewsOtherFailure

definition categories :: "ustr list" where
  "categories = map pystr
     [''politics'', ''sports'', ''business'', ''technology'', ''entertainment'',
      ''health'', ''science'', ''lifestyle'', ''travel'', ''culture'', ''education'', ''environment'']"

definition opt_json :: "('a \<Rightarrow> json) \<Rightarrow> 'a option \<Rightarrow> json" where
  "opt_json f x = (case x of None \<Rightarrow> JNull | Some y \<Rightarrow> f y)"

text \<open>The dict built for one article (lines 79--92), keys in source order.\<close>

definition article_dict :: "raw_article \<Rightarrow> json" where
  "article_dict a = JObject
     [(pystr ''id'', opt_json JInt (art_id a)),
      (pystr ''title'', opt_json JString (art_title a)),
      (pystr ''text'', opt_json JString (art_text a)),
      (pystr ''summary'', opt_json JString (art_summary a)),
      (pystr ''url'', opt_json JString (art_url a)),
      (pystr ''image'', opt_json JString (art_image a)),
      (pystr ''video'', opt_json JString (art_video a)),
      (pystr ''publish_date'', opt_json JString (art_publish_date a)),
      (pystr ''authors'', opt_json (\<lambda>xs. JArray (map JString xs)) (art_authors a)),
      (pystr ''language'', opt_json JString (art_language a)),
      (pystr ''source_country'', opt_json JString (art_source_country a)),
      (pystr ''sentiment'', opt_json (case_sum JInt JFloat) (art_sentiment a))]"

definition search_request_for :: "ustr \<Rightarrow> int \<Rightarrow> ustr \<Rightarrow> search_request" where
  "search_request_for category number country =
     \<lparr>req_source_country = country, req_language = pystr ''en'', req_categories = category,
      req_sort = pystr ''publish-time'', req_sort_direction = pystr ''desc'', req_number = number\<rparr>"

definition fetch_random_news ::
  "(search_request \<Rightarrow> news_outcome) \<Rightarrow> nat \<Rightarrow> int \<Rightarrow> ustr \<Rightarrow> py_error + json list" where
  "fetch_random_news news r number country =
     (let category = categories ! (r mod length categories)
      in case news (search_request_for category number country) of
           NewsApiException \<Rightarrow> Inr []
         | NewsOtherFailure \<Rightarrow> Inl NewsClientError
         | NewsResponse None \<Rightarrow> Inl TypeError
         | NewsResponse (Some arts) \<Rightarrow> Inr (map article_dict arts))"

text \<open>What a fetched article dict is: a dict whose \<^verbatim>\<open>id\<close> is an int or
  \<^verbatim>\<open>None\<close> and whose \<^verbatim>\<open>image\<close> is a str or \<^verbatim>\<open>None\<close>.\<close>

definition fetched_article :: "json \<Rightarrow> bool" where
  "fetched_article v \<longleftrightarrow>
     (case v of
        JObject ps \<Rightarrow>
          (case map_of ps (pystr ''id'') of Some (JInt _) \<Rightarrow> True | Some JNull \<Rightarrow> True | _ \<Rightarrow> False) \<and>
          (case map_of ps (pystr ''image'') of Some (JString _) \<Rightarrow> True | Some JNull \<Rightarrow> True | _ \<Rightarrow> False)
      | _ \<Rightarrow> False)"

section \<open>Lemmas\<close>

lemma length_categories [simp]: "length categories = 12"
  by (simp add: categories_def)

lemma article_dict_fetched: "fetched_article (article_dict a)"
  unfolding fetched_article_def article_dict_def
  by (cases "art_id a"; cases "art_image a") (simp_all add: opt_json_def)

lemma distinct_categories: "distinct categories"
  by (simp add: categories_def)

lemma fetch_random_news_cases:
  "fetch_random_news news r n c =
     (case news (search_request_for (categories ! (r mod 12)) n c) of
        NewsApiException \<Rightarrow> Inr []
      | NewsOtherFailure \<Rightarrow> Inl NewsClientError
      | NewsResponse None \<Rightarrow> Inl TypeError
      | NewsResponse (Some arts) \<Rightarrow> Inr (map article_dict arts))"
  by (simp add: fetch_random_news_def)

text \<open>
  C18. Only \<^verbatim>\<open>ApiException\<close> is swallowed by \<^verbatim>\<open>fetch_random_news\<close>: it
  fails exactly when the client raises any other exception, or returns a response whose
  \<^verbatim>\<open>news\<close> is \<^verbatim>\<open>None\<close> (then iterating it raises \<^verbatim>\<open>TypeError\<close>).
\<close>

theorem fetch_random_news_error:
  "fetch_random_news news r n c = Inl e \<longleftrightarrow>
   (news (search_request_for (categories ! (r mod 12)) n c) = NewsOtherFailure \<and> e = NewsClientError) \<or>
   (news (search_request_for (categories ! (r mod 12)) n c) = NewsResponse None \<and> e = TypeError)"
  by (auto simp: fetch_random_news_cases split: news_outcome.split option.split)

lemma draw_index_unique:
  assumes "cat \<in> set categories"
  shows "\<exists>r0. {r. r < 12 \<and> categories ! r = cat} = {r0}"
proof -
  from distinct_Ex1 [OF distinct_categories assms] obtain r0 where
      r0: "r0 < length categories \<and> categories ! r0 = cat"
      and u: "\<forall>r. r < length categories \<and> categories ! r = cat \<longrightarrow> r = r0"
    by (elim ex1E) blast
  have "{r. r < 12 \<and> categories ! r = cat} = {r0}"
  proof
    show "{r. r < 12 \<and> categories ! r = cat} \<subseteq> {r0}" using u by auto
    show "{r0} \<subseteq> {r. r < 12 \<and> categories ! r = cat}" using r0 by simp
  qed
  then show ?thesis ..
qed

text \<open>
  C22. \<^verbatim>\<open>random.choice(categories)\<close> draws an index below 12 uniformly, and for
  each of the twelve categories exactly one draw makes \<^verbatim>\<open>fetch_random_news\<close> ask the
  news service for that category: each category is fetched with probability 1/12.  (The
  service below answers only requests for \<open>cat\<close>; every other request fails.)
\<close>

theorem category_draw_uniform:
  assumes "cat \<in> set categories"
  shows "card {r. r < 12 \<and>
            fetch_random_news (\<lambda>q. if req_categories q = cat then NewsResponse (Some []) else NewsOtherFailure)
              r n c = Inr []} = 1"
proof -
  have "{r. r < 12 \<and>
           fetch_random_news (\<lambda>q. if req_categories q = cat then NewsResponse (Some []) else NewsOtherFailure)
             r n c = Inr []} = {r. r < 12 \<and> categories ! r = cat}"
    by (auto simp: fetch_random_news_cases search_request_for_def)
  moreover obtain r0 where "{r. r < 12 \<and> categories ! r = cat} = {r0}"
    using draw_index_unique [OF assms] ..
  ultimately show ?thesis by simp
qed

section \<open>Examples\<close>

theorem fetch_random_news_error_witness:
  "fetch_random_news (\<lambda>_. NewsOtherFailure) 5 30 (pystr ''in'') = Inl NewsClientError \<and>
   fetch_random_news (\<lambda>_. NewsResponse None) 5 30 (pystr ''in'') = Inl TypeError"
  using fetch_random_news_error [of "\<lambda>_. NewsOtherFailure" 5 30 "pystr ''in''" NewsClientError]
        fetch_random_news_error [of "\<lambda>_. NewsResponse None" 5 30 "pystr ''in''" TypeError]
  by simp

theorem category_draw_uniform_witness:
  "card {r. r < 12 \<and>
      fetch_random_news (\<lambda>q. if req_categories q = pystr ''sports'' then NewsResponse (Some []) else NewsOtherFailure)
        r 30 (pystr ''in'') = Inr []} = 1"
  by (rule category_draw_uniform) (simp add: categories_def)

end
