(* ===== verification/Json_Decode.thy ===== *)
theory Json_Decode
  imports Json
begin

text \<open>
  \<^verbatim>\<open>json.loads\<close> as the bot calls it (no hooks, \<^verbatim>\<open>strict=True\<close>), after
  CPython's \<^verbatim>\<open>json/decoder.py\<close> and its C accelerator \<^verbatim>\<open>_json.c\<close>: the
  string scanner \<open>scan_str\<close> (\<^verbatim>\<open>scanstring\<close>), the number matcher
  \<open>scan_number\<close> (\<^verbatim>\<open>_match_number_unicode\<close>), the value dispatcher
  \<open>scan_once\<close> (\<^verbatim>\<open>scan_once_unicode\<close>) with the object and array parsers
  \<open>parse_object\<close>/\<open>members\<close> (\<^verbatim>\<open>JSONObject\<close>) and
  \<open>parse_array\<close>/\<open>elements\<close> (\<^verbatim>\<open>JSONArray\<close>), and the top level
  \<open>json_loads\<close> (\<^verbatim>\<open>JSONDecoder.decode\<close>: skip whitespace, scan one value, skip
  whitespace, fail on extra data).

  Each scanner takes the remaining input and returns the value with the input left
  after it, or the error it raises, in the order the C scanner meets them:
  \<open>ScanFail\<close> is a \<^verbatim>\<open>JSONDecodeError\<close> (or the \<^verbatim>\<open>StopIteration\<close> that
  \<^verbatim>\<open>decode\<close> turns into one), \<open>IntTooLong\<close> the \<^verbatim>\<open>ValueError\<close> of
  \<^verbatim>\<open>PyLong_FromString\<close> for an integer literal of more than 4300 digits (the
  default \<^verbatim>\<open>sys.get_int_max_str_digits()\<close> of CPython 3.11 and later), and
  \<open>TooDeep\<close> the \<^verbatim>\<open>RecursionError\<close> of \<^verbatim>\<open>Py_EnterRecursiveCall\<close>, which
  \<^verbatim>\<open>scan_once_unicode\<close> calls on entering each object or array.  How many nested
  containers fit depends on the interpreter and on the stack depth of the caller, so the
  room \<open>d\<close> is a parameter.  The value parser also carries fuel, one unit per
  input character and one more; \<open>OutOfFuel\<close> is running out of it, which
  \<open>json_loads_fuel_sufficient\<close> shows never happens.
\<close>

section \<open>Strings\<close>

definition hex_digit :: "nat \<Rightarrow> nat option" where
  "hex_digit c =
     (if 48 \<le> c \<and> c \<le> 57 then Some (c - 48)
      else if 97 \<le> c \<and> c \<le> 102 then Some (c - 87)
      else if 65 \<le> c \<and> c \<le> 70 then Some (c - 55)
      else None)"

text \<open>The four hex digits of a \<^verbatim>\<open>\uXXXX\<close> escape.\<close>

fun hex4 :: "ustr \<Rightarrow> (nat \<times> ustr) option" where
  "hex4 (a # b # c # d # r) =
     (case (hex_digit a, hex_digit b, hex_digit c, hex_digit d) of
        (Some w, Some x, Some y, Some z) \<Rightarrow> Some (((w * 16 + x) * 16 + y) * 16 + z, r)
      | _ \<Rightarrow> None)"
| "hex4 _ = None"

text \<open>The one-character escapes \<^verbatim>\<open>\" \\ \/ \b \f \n \r \t\<close>.\<close>

definition esc_char :: "nat \<Rightarrow> nat option" where
  "esc_char e =
     (if e = 34 then Some 34 else if e = 92 then Some 92 else if e = 47 then Some 47
      else if e = 98 then Some 8 else if e = 102 then Some 12 else if e = 110 then Some 10
      else if e = 114 then Some 13 else if e = 116 then Some 9 else None)"

text \<open>
  A high surrogate \<open>u\<close> followed by the escape of a low surrogate is joined into
  one code point.  The C scanner reports a bad second escape at once; here it is left
  in place and fails as an escape of its own, with the same outcome.
\<close>

definition join_surrogate :: "nat \<Rightarrow> ustr \<Rightarrow> (nat \<times> ustr) option" where
  "join_surrogate u r =
     (if 55296 \<le> u \<and> u \<le> 56319 then
        (case r of
           b # v # r' \<Rightarrow>
             if b = 92 \<and> v = 117 then
               (case hex4 r' of
                  Some (u2, r'') \<Rightarrow>
                    if 56320 \<le> u2 \<and> u2 \<le> 57343
                    then Some (65536 + (u - 55296) * 1024 + (u2 - 56320), r'')
                    else None
                | None \<Rightarrow> None)
             else None
         | _ \<Rightarrow> None)
      else None)"

text \<open>\<^verbatim>\<open>scanstring(s, end)\<close>: \<open>s\<close> starts right after the opening quote; the
  decoded characters are accumulated in reverse in \<open>acc\<close>.  Control characters
  below U+0020 are rejected (\<^verbatim>\<open>strict=True\<close>).\<close>

function scan_str :: "ustr \<Rightarrow> ustr \<Rightarrow> (ustr \<times> ustr) option" where
  "scan_str [] acc = None"
| "scan_str (c # r) acc =
     (if c = 34 then Some (rev acc, r)
      else if c = 92 then
        (case r of
           [] \<Rightarrow> None
         | e # r1 \<Rightarrow>
             if e = 117 then
               (case hex4 r1 of
                  None \<Rightarrow> None
                | Some (u, r2) \<Rightarrow>
                    (case join_surrogate u r2 of
                       Some (u', r3) \<Rightarrow> scan_str r3 (u' # acc)
                     | None \<Rightarrow> scan_str r2 (u # acc)))
             else (case esc_char e of None \<Rightarrow> None | Some ch \<Rightarrow> scan_str r1 (ch # acc)))
      else if c < 32 then None
      else scan_str r (c # acc))"
  by pat_completeness auto
termination
  by (relation "measure (\<lambda>(s, acc). length s)")
     (auto simp: join_surrogate_def elim!: hex4.elims split: if_splits list.splits option.splits)

section \<open>Numbers\<close>

text \<open>The integer part \<^verbatim>\<open>0|[1-9][0-9]*\<close>.\<close>

definition scan_int_part :: "ustr \<Rightarrow> (ustr \<times> ustr) option" where
  "scan_int_part s =
     (case s of
        [] \<Rightarrow> None
      | d # r \<Rightarrow>
          if 49 \<le> d \<and> d \<le> 57 then Some (d # takeWhile is_digit r, dropWhile is_digit r)
          else if d = 48 then Some ([d], r)
          else None)"

text \<open>The fraction \<^verbatim>\<open>\.[0-9]+\<close>, read only when a digit follows the point.\<close>

definition scan_frac :: "ustr \<Rightarrow> ustr \<times> ustr" where
  "scan_frac s =
     (case s of
        c # d # r \<Rightarrow>
          if c = 46 \<and> is_digit d then (d # takeWhile is_digit r, dropWhile is_digit r)
          else ([], s)
      | _ \<Rightarrow> ([], s))"

text \<open>The exponent \<^verbatim>\<open>[eE][-+]?[0-9]+\<close>; without digits the scanner backtracks to
  before the \<^verbatim>\<open>e\<close> (\<open>None\<close>).  The result is the sign, the digits and the rest.\<close>

definition scan_exp :: "ustr \<Rightarrow> (bool \<times> ustr \<times> ustr) option" where
  "scan_exp s =
     (case s of
        [] \<Rightarrow> None
      | c # r \<Rightarrow>
          if c = 101 \<or> c = 69 then
            (let (eneg, r1) =
                   (case r of
                      x # r' \<Rightarrow> if x = 45 then (True, r') else if x = 43 then (False, r') else (False, r)
                    | [] \<Rightarrow> (False, r));
                 ds = takeWhile is_digit r1
             in if ds = [] then None else Some (eneg, ds, dropWhile is_digit r1))
          else None)"

text \<open>\<^verbatim>\<open>-?(0|[1-9][0-9]*)(\.[0-9]+)?([eE][-+]?[0-9]+)?\<close>: an \<^verbatim>\<open>int\<close> when
  there is neither fraction nor exponent, a \<^verbatim>\<open>float\<close> otherwise.\<close>

datatype scan_error = ScanFail | OutOfFuel | IntTooLong | TooDeep

definition scan_number :: "ustr \<Rightarrow> scan_error + (json \<times> ustr)" where
  "scan_number s =
     (let (neg, s1) = (case s of c # r \<Rightarrow> if c = 45 then (True, r) else (False, s) | [] \<Rightarrow> (False, s))
      in case scan_int_part s1 of
           None \<Rightarrow> Inl ScanFail
         | Some (ip, s2) \<Rightarrow>
             (let (fr, s3) = scan_frac s2
              in case scan_exp s3 of
                   None \<Rightarrow>
                     if fr = [] then
                       (if 4300 < length ip then Inl IntTooLong
                        else Inr (JInt (if neg then - int (digit_val ip) else int (digit_val ip)), s3))
                     else Inr (JFloat (mk_float neg (digit_val (ip @ fr)) (- int (length fr))), s3)
                 | Some (eneg, ed, s4) \<Rightarrow>
                     Inr (JFloat (mk_float neg (digit_val (ip @ fr))
                             ((if eneg then - int (digit_val ed) else int (digit_val ed)) - int (length fr))),
                          s4)))"

section \<open>Values\<close>

text \<open>
  \<open>scan_once n d s\<close> dispatches on the first character as
  \<^verbatim>\<open>scan_once_unicode\<close> does, with fuel \<open>n\<close> and room \<open>d\<close> for nested
  containers; \<open>parse_object\<close> and \<open>parse_array\<close> start right after the opening
  bracket, \<open>members\<close> right after the opening quote of a key, and the accumulators
  hold the pairs and elements read so far, in reverse.  The pairs of an object become a
  dict as \<^verbatim>\<open>dict(pairs)\<close> makes it.
\<close>

function scan_once :: "nat \<Rightarrow> nat \<Rightarrow> ustr \<Rightarrow> scan_error + (json \<times> ustr)"
and parse_object :: "nat \<Rightarrow> nat \<Rightarrow> ustr \<Rightarrow> scan_error + (json \<times> ustr)"
and members :: "nat \<Rightarrow> nat \<Rightarrow> ustr \<Rightarrow> (ustr \<times> json) list \<Rightarrow> scan_error + (json \<times> ustr)"
and parse_array :: "nat \<Rightarrow> nat \<Rightarrow> ustr \<Rightarrow> scan_error + (json \<times> ustr)"
and elements :: "nat \<Rightarrow> nat \<Rightarrow> ustr \<Rightarrow> json list \<Rightarrow> scan_error + (json \<times> ustr)"
where
  "scan_once 0 d s = Inl OutOfFuel"
| "scan_once (Suc n) d s =
     (case s of
        [] \<Rightarrow> Inl ScanFail
      | c # r \<Rightarrow>
          if c = 34 then
            (case scan_str r [] of None \<Rightarrow> Inl ScanFail | Some (str, r') \<Rightarrow> Inr (JString str, r'))
          else if c = 123 then (if d = 0 then Inl TooDeep else parse_object n (d - 1) r)
          else if c = 91 then (if d = 0 then Inl TooDeep else parse_array n (d - 1) r)
          else if starts_with (pystr ''null'') s then Inr (JNull, drop 4 s)
          else if starts_with (pystr ''true'') s then Inr (JBool True, drop 4 s)
          else if starts_with (pystr ''false'') s then Inr (JBool False, drop 5 s)
          else if starts_with (pystr ''NaN'') s then Inr (JFloat NaN, drop 3 s)
          else if starts_with (pystr ''Infinity'') s then Inr (JFloat Infinity, drop 8 s)
          else if starts_with (pystr ''-Infinity'') s then Inr (JFloat NegInfinity, drop 9 s)
          else scan_number s)"
| "parse_object n d s =
     (case skip_ws s of
        [] \<Rightarrow> Inl ScanFail
      | c # r \<Rightarrow>
          if c = 125 then Inr (JObject [], r)
          else if c = 34 then members n d r []
          else Inl ScanFail)"
| "members 0 d s acc = Inl OutOfFuel"
| "members (Suc n) d s acc =
     (case scan_str s [] of
        None \<Rightarrow> Inl ScanFail
      | Some (k, r) \<Rightarrow>
          (case skip_ws r of
             [] \<Rightarrow> Inl ScanFail
           | c # r1 \<Rightarrow>
               if c \<noteq> 58 then Inl ScanFail
               else
                 (case scan_once (Suc n) d (skip_ws r1) of
                    Inl e \<Rightarrow> Inl e
                  | Inr (v, r2) \<Rightarrow>
                      (case skip_ws r2 of
                         [] \<Rightarrow> Inl ScanFail
                       | c2 # r3 \<Rightarrow>
                           if c2 = 125 then Inr (JObject (dict_of_pairs (rev ((k, v) # acc))), r3)
                           else if c2 = 44 then
                             (case skip_ws r3 of
                                [] \<Rightarrow> Inl ScanFail
                              | c3 # r4 \<Rightarrow>
                                  if c3 = 34 then members n d r4 ((k, v) # acc) else Inl ScanFail)
                           else Inl ScanFail))))"
| "parse_array n d s =
     (case skip_ws s of
        [] \<Rightarrow> elements n d [] []
      | c # r \<Rightarrow> if c = 93 then Inr (JArray [], r) else elements n d (c # r) [])"
| "elements 0 d s acc = Inl OutOfFuel"
| "elements (Suc n) d s acc =
     (case scan_once (Suc n) d s of
        Inl e \<Rightarrow> Inl e
      | Inr (v, r) \<Rightarrow>
          (case skip_ws r of
             [] \<Rightarrow> Inl ScanFail
           | c # r1 \<Rightarrow>
               if c = 93 then Inr (JArray (rev (v # acc)), r1)
               else if c = 44 then elements n d (skip_ws r1) (v # acc)
               else Inl ScanFail))"
  by pat_completeness auto
termination
  by (relation "measure (\<lambda>x. case x of
       Inl (Inl (n, d, s)) \<Rightarrow> 3 * n
     | Inl (Inr (n, d, s)) \<Rightarrow> 3 * n + 2
     | Inr (Inl (n, d, s, acc)) \<Rightarrow> 3 * n + 1
     | Inr (Inr (Inl (n, d, s))) \<Rightarrow> 3 * n + 2
     | Inr (Inr (Inr (n, d, s, acc))) \<Rightarrow> 3 * n + 1)") auto

text \<open>\<^verbatim>\<open>json.loads(s)\<close> with recursion room \<open>d\<close>: each error of the scanner
  becomes the exception \<^verbatim>\<open>decode\<close> lets through.\<close>

fun loads_error :: "scan_error \<Rightarrow> py_error" where
  "loads_error ScanFail = JSONDecodeError"
| "loads_error OutOfFuel = JSONDecodeError"
| "loads_error IntTooLong = ValueError"
| "loads_error TooDeep = RecursionError"

definition json_loads :: "nat \<Rightarrow> ustr \<Rightarrow> py_error + json" where
  "json_loads d s =
     (case scan_once (Suc (length s)) d (skip_ws s) of
        Inl e \<Rightarrow> Inl (loads_error e)
      | Inr (v, r) \<Rightarrow> if skip_ws r = [] then Inr v else Inl JSONDecodeError)"

section \<open>Consumption and fuel\<close>

section \<open>Consumption and fuel\<close>

lemma hex4_length [len_facts]: "hex4 s = Some (u, r) \<Longrightarrow> length r < length s"
  by (induction s rule: hex4.induct) (auto split: option.splits)

lemma join_surrogate_length [len_facts]:
  "join_surrogate u s = Some (u', r) \<Longrightarrow> length r < length s"
  by (auto simp: join_surrogate_def split: if_splits list.splits option.splits
           dest!: hex4_length)

lemma scan_str_step:
  assumes "scan_str (c # r) acc = Some res"
  shows "c = 34 \<and> res = (rev acc, r) \<or> (\<exists>s' acc'. length s' < Suc (length r) \<and> scan_str s' acc' = Some res)"
proof (cases "c = 34")
  case True
  with assms show ?thesis by simp
next
  case c34: False
  show ?thesis
  proof (cases "c = 92")
    case False
    with assms c34 have "scan_str r (c # acc) = Some res" by (simp split: if_splits)
    then show ?thesis by auto
  next
    case c92: True
    with assms c34 obtain e r1 where r: "r = e # r1" by (cases r) auto
    show ?thesis
    proof (cases "e = 117")
      case False
      with assms c34 c92 r obtain ch where "scan_str r1 (ch # acc) = Some res"
        by (auto split: option.splits)
      with r show ?thesis by force
    next
      case True
      with assms c34 c92 r obtain u r2 where h: "hex4 r1 = Some (u, r2)"
        by (auto split: option.splits)
      from h have l2: "length r2 < length r1" by (rule hex4_length)
      show ?thesis
      proof (cases "join_surrogate u r2")
        case None
        with assms c34 c92 r True h have "scan_str r2 (u # acc) = Some res" by simp
        with r l2 show ?thesis by force
      next
        case (Some p)
        obtain u' r3 where p: "p = (u', r3)" by (cases p)
        with Some have "length r3 < length r2" by (auto dest: join_surrogate_length)
        moreover from Some p assms c34 c92 r True h have "scan_str r3 (u' # acc) = Some res" by simp
        ultimately show ?thesis using r l2 by force
      qed
    qed
  qed
qed

lemma scan_str_length [len_facts]: "scan_str s acc = Some (x, rest) \<Longrightarrow> length rest < length s"
proof (induction s arbitrary: acc rule: length_induct)
  case (1 s)
  show ?case
  proof (cases s)
    case Nil
    with "1.prems" show ?thesis by simp
  next
    case (Cons c r)
    with "1.prems" have "c = 34 \<and> (x, rest) = (rev acc, r) \<or>
        (\<exists>s' acc'. length s' < Suc (length r) \<and> scan_str s' acc' = Some (x, rest))"
      by (intro scan_str_step) simp
    with Cons "1.IH" show ?thesis by force
  qed
qed

lemma scan_int_part_length [len_facts]: "scan_int_part s = Some (ip, r) \<Longrightarrow> length r < length s"
  by (auto simp: scan_int_part_def split: list.splits if_splits intro: le_imp_less_Suc length_dropWhile_le)

lemma scan_frac_length [len_facts]: "scan_frac s = (fr, r) \<Longrightarrow> length r \<le> length s"
  by (auto simp: scan_frac_def split: list.splits if_splits intro: le_SucI length_dropWhile_le)

lemma scan_exp_length [len_facts]: "scan_exp s = Some (eneg, ds, r) \<Longrightarrow> length r < length s"
proof -
  assume a: "scan_exp s = Some (eneg, ds, r)"
  have "length (dropWhile is_digit t) \<le> length t" for t :: ustr by (rule length_dropWhile_le)
  with a show ?thesis
    by (auto simp: scan_exp_def Let_def split: list.splits if_splits prod.splits intro: le_imp_less_Suc le_SucI)
qed


lemma scan_number_length [len_facts]: "scan_number s = Inr (v, r) \<Longrightarrow> length r < length s"
  by (fastforce simp: scan_number_def Let_def split: list.splits if_splits prod.splits option.splits
      dest!: scan_int_part_length scan_frac_length scan_exp_length)

lemma scan_consumes:
  "scan_once n d s = Inr (v, rest) \<Longrightarrow> length rest < length s"
  "parse_object n d s = Inr (v, rest) \<Longrightarrow> length rest < length s"
  "members n d s acc = Inr (v, rest) \<Longrightarrow> length rest < length s"
  "parse_array n d s = Inr (v, rest) \<Longrightarrow> length rest < length s"
  "elements n d s accs = Inr (v, rest) \<Longrightarrow> length rest < length s"
proof (induction n d s and n d s and n d s acc and n d s and n d s accs arbitrary: v rest and v rest and v rest and v rest and v rest
    rule: scan_once_parse_object_members_parse_array_elements.induct)
  case (1 d s)
  then show ?case by simp
next
  case (2 n d s)
  show ?case
  proof (cases s)
    case Nil
    with "2.prems" show ?thesis by simp
  next
    case (Cons c r)
    consider "c = 34" | "c = 123" | "c = 91" | "c \<noteq> 34" "c \<noteq> 123" "c \<noteq> 91" by blast
    then show ?thesis
    proof cases
      case 1
      with "2.prems" Cons show ?thesis by (auto split: option.splits dest: scan_str_length)
    next
      case 2
      with "2.prems" Cons have d: "d \<noteq> 0" and p: "parse_object n (d - 1) r = Inr (v, rest)"
        by (simp_all split: if_splits)
      with "2.IH"(1) Cons 2 have "length rest < length r" by simp
      with Cons show ?thesis by simp
    next
      case 3
      with "2.prems" Cons have d: "d \<noteq> 0" and p: "parse_array n (d - 1) r = Inr (v, rest)"
        by (simp_all split: if_splits)
      with "2.IH"(2) Cons 3 have "length rest < length r" by simp
      with Cons show ?thesis by simp
    next
      case 4
      with "2.prems" Cons show ?thesis
        by (auto split: if_splits option.splits dest: scan_number_length)
    qed
  qed
next
  case (3 n d s)
  show ?case
  proof (cases "skip_ws s")
    case Nil
    with "3.prems" show ?thesis by simp
  next
    case (Cons c r)
    then have l: "length r < length s" by (rule skip_ws_Cons_length)
    show ?thesis
    proof (cases "c = 125")
      case True
      with "3.prems" Cons l show ?thesis by simp
    next
      case False
      with "3.prems" Cons have "c = 34" and m: "members n d r [] = Inr (v, rest)"
        by (simp_all split: if_splits)
      with "3.IH" Cons False have "length rest < length r" by simp
      with l show ?thesis by simp
    qed
  qed
next
  case (4 d s acc)
  then show ?case by simp
next
  case (5 n d s acc)
  from "5.prems" obtain k r c r1 where
      ks: "scan_str s [] = Some (k, r)" and c: "skip_ws r = c # r1" and c58: "c = 58"
    by (auto split: option.splits list.splits if_splits)
  from "5.prems" ks c c58 obtain v0 r2 where
      sv: "scan_once (Suc n) d (skip_ws r1) = Inr (v0, r2)"
    by (auto split: sum.splits)
  have l1: "length r1 < length s"
    using scan_str_length [OF ks] skip_ws_Cons_length [OF c] by simp
  have c58': "\<not> c \<noteq> 58" using c58 by simp
  have l2: "length r2 < length s"
    using "5.IH"(1) [OF ks refl c c58' sv] skip_ws_le [of r1] l1 by simp
  from "5.prems" ks c c58 sv obtain c2 r3 where c2: "skip_ws r2 = c2 # r3"
    by (auto split: list.splits)
  have l3: "length r3 < length s" using skip_ws_Cons_length [OF c2] l2 by simp
  show ?case
  proof (cases "c2 = 125")
    case True
    with "5.prems" ks c c58 sv c2 l3 show ?thesis by simp
  next
    case False
    with "5.prems" ks c c58 sv c2 obtain r4 where
        c44: "c2 = 44" and q: "skip_ws r3 = 34 # r4" and m: "members n d r4 ((k, v0) # acc) = Inr (v, rest)"
      by (auto split: if_splits list.splits)
    have "length rest < length r4"
      using "5.IH"(2) [OF ks refl c c58' sv refl c2 False c44 q refl m] .
    with skip_ws_Cons_length [OF q] l3 show ?thesis by simp
  qed
next
  case (6 n d s)
  show ?case
  proof (cases "skip_ws s")
    case Nil
    with "6.prems" "6.IH"(1) show ?thesis by simp
  next
    case (Cons c r)
    then have l: "length r < length s" by (rule skip_ws_Cons_length)
    show ?thesis
    proof (cases "c = 93")
      case True
      with "6.prems" Cons l show ?thesis by simp
    next
      case False
      with "6.prems" Cons have "elements n d (c # r) [] = Inr (v, rest)" by simp
      with "6.IH"(2) Cons False have "length rest < length (c # r)" by simp
      with Cons skip_ws_le [of s] show ?thesis by simp
    qed
  qed
next
  case (7 d s acc)
  then show ?case by simp
next
  case (8 n d s acc)
  from "8.prems" obtain v0 r where sv: "scan_once (Suc n) d s = Inr (v0, r)"
    by (auto split: sum.splits)
  have l0: "length r < length s" using "8.IH"(1) [OF sv] .
  from "8.prems" sv obtain c r1 where c: "skip_ws r = c # r1"
    by (auto split: list.splits)
  have l1: "length r1 < length s" using skip_ws_Cons_length [OF c] l0 by simp
  show ?case
  proof (cases "c = 93")
    case True
    with "8.prems" sv c l1 show ?thesis by simp
  next
    case False
    with "8.prems" sv c have c44: "c = 44" and m: "elements n d (skip_ws r1) (v0 # acc) = Inr (v, rest)"
      by (auto split: if_splits)
    have "length rest < length (skip_ws r1)"
      using "8.IH"(2) [OF sv refl c False c44 m] .
    with skip_ws_le [of r1] l1 show ?thesis by simp
  qed
qed

lemma scan_fuel_enough:
  "length s < n \<Longrightarrow> scan_once n d s \<noteq> Inl OutOfFuel"
  "length s < n \<Longrightarrow> parse_object n d s \<noteq> Inl OutOfFuel"
  "length s < n \<Longrightarrow> members n d s acc \<noteq> Inl OutOfFuel"
  "length s < n \<Longrightarrow> parse_array n d s \<noteq> Inl OutOfFuel"
  "length s < n \<Longrightarrow> elements n d s accs \<noteq> Inl OutOfFuel"
proof (induction n d s and n d s and n d s acc and n d s and n d s accs
    rule: scan_once_parse_object_members_parse_array_elements.induct)
  case (1 d s)
  then show ?case by simp
next
  case (2 n d s)
  show ?case
  proof (cases s)
    case Nil
    then show ?thesis by simp
  next
    case (Cons c r)
    with "2.prems" have l: "length r < n" by simp
    consider "c = 123" | "c = 91" | "c \<noteq> 123" "c \<noteq> 91" by blast
    then show ?thesis
    proof cases
      case 1
      with "2.IH"(1) [OF Cons] l Cons show ?thesis by simp
    next
      case 2
      with "2.IH"(2) [OF Cons] l Cons show ?thesis by simp
    qed (auto simp: Cons scan_number_def Let_def split: option.splits prod.splits)
  qed
next
  case (3 n d s)
  show ?case
  proof (cases "skip_ws s")
    case Nil
    then show ?thesis by simp
  next
    case (Cons c r)
    with "3.prems" have "length r < n" using skip_ws_Cons_length [OF Cons] by simp
    with "3.IH" [OF Cons] Cons show ?thesis by simp
  qed
next
  case (4 d s acc)
  then show ?case by simp
next
  case (5 n d s acc)
  show ?case
  proof (cases "scan_str s []")
    case None
    then show ?thesis by simp
  next
    case (Some p)
    obtain k r where p: "p = (k, r)" by (cases p)
    note ks = Some [unfolded p]
    show ?thesis
    proof (cases "skip_ws r")
      case Nil
      with ks show ?thesis by simp
    next
      case (Cons c r1)
      note c = Cons
      show ?thesis
      proof (cases "c = 58")
        case False
        with ks c show ?thesis by simp
      next
        case True
        have c58': "\<not> c \<noteq> 58" using True by simp
        have l1: "length (skip_ws r1) < Suc n"
          using scan_str_length [OF ks] skip_ws_Cons_length [OF c] skip_ws_le [of r1] "5.prems" by simp
        have nf: "scan_once (Suc n) d (skip_ws r1) \<noteq> Inl OutOfFuel"
          using "5.IH"(1) [OF ks refl c c58' l1] .
        show ?thesis
        proof (cases "scan_once (Suc n) d (skip_ws r1)")
          case (Inl e)
          with ks c True nf show ?thesis by simp
        next
          case (Inr b)
          obtain v0 r2 where b: "b = (v0, r2)" by (cases b)
          note sv = Inr [unfolded b]
          have l2: "length r2 < Suc n"
            using scan_consumes(1) [OF sv] l1 by simp
          show ?thesis
          proof (cases "skip_ws r2")
            case Nil
            with ks c True sv show ?thesis by simp
          next
            case (Cons c2 r3)
            note c2 = Cons
            have l3: "length r3 < n" using skip_ws_Cons_length [OF c2] l2 by simp
            consider "c2 = 125" | "c2 \<noteq> 125" "c2 = 44" "skip_ws r3 = []"
              | r4 where "c2 \<noteq> 125" "c2 = 44" "skip_ws r3 = 34 # r4"
              | c3 r4 where "c2 \<noteq> 125" "c2 = 44" "skip_ws r3 = c3 # r4" "c3 \<noteq> 34"
              | "c2 \<noteq> 125" "c2 \<noteq> 44"
              by (cases "skip_ws r3") auto
            then show ?thesis
            proof cases
              case (3 r4)
              have "length r4 < n" using skip_ws_Cons_length [OF 3(3)] l3 by simp
              then have "members n d r4 ((k, v0) # acc) \<noteq> Inl OutOfFuel"
                using "5.IH"(2) [OF ks refl c c58' sv refl c2 3(1) 3(2) 3(3) refl] by simp
              with ks c True sv c2 3 show ?thesis by simp
            qed (use ks c True sv c2 in simp_all)
          qed
        qed
      qed
    qed
  qed
next
  case (6 n d s)
  show ?case
  proof (cases "skip_ws s")
    case Nil
    with "6.IH"(1) [OF Nil] "6.prems" show ?thesis by simp
  next
    case (Cons c r)
    have "length (c # r) < n" using "6.prems" skip_ws_le [of s] Cons by simp
    with "6.IH"(2) [OF Cons] Cons show ?thesis by simp
  qed
next
  case (7 d s acc)
  then show ?case by simp
next
  case (8 n d s acc)
  have nf: "scan_once (Suc n) d s \<noteq> Inl OutOfFuel" using "8.IH"(1) "8.prems" .
  show ?case
  proof (cases "scan_once (Suc n) d s")
    case (Inl e)
    with nf show ?thesis by simp
  next
    case (Inr b)
    obtain v0 r where b: "b = (v0, r)" by (cases b)
    note sv = Inr [unfolded b]
    have l0: "length r < length s" using scan_consumes(1) [OF sv] .
    show ?thesis
    proof (cases "skip_ws r")
      case Nil
      with sv show ?thesis by simp
    next
      case (Cons c r1)
      have l1: "length (skip_ws r1) < n"
        using skip_ws_Cons_length [OF Cons] skip_ws_le [of r1] l0 "8.prems" by simp
      show ?thesis
      proof (cases "c = 93 \<or> c \<noteq> 44")
        case True
        with sv Cons show ?thesis by auto
      next
        case False
        then have "c \<noteq> 93" "c = 44" by simp_all
        with "8.IH"(2) [OF sv refl Cons this l1] sv Cons show ?thesis by simp
      qed
    qed
  qed
qed


section \<open>Properties of json.loads\<close>

text \<open>The fuel \<open>json_loads\<close> gives the scanner never runs out, so each error it
  reports is one the C scanner raises.\<close>

lemma json_loads_fuel_sufficient:
  "scan_once (Suc (length s)) d (skip_ws s) \<noteq> Inl OutOfFuel"
  by (rule scan_fuel_enough(1)) (use skip_ws_le [of s] in simp)

lemma loads_error_range:
  "loads_error x = JSONDecodeError \<or> loads_error x = ValueError \<or> loads_error x = RecursionError"
  by (cases x) simp_all

lemma json_loads_errors:
  "json_loads d s = Inl e \<Longrightarrow> e = JSONDecodeError \<or> e = ValueError \<or> e = RecursionError"
  using loads_error_range
  by (auto simp: json_loads_def simp del: scan_once.simps split: sum.splits if_splits)

text \<open>Evaluation aids for long concrete inputs: a run of digits, and the scanner's
  equations with the fuel written as a numeral.\<close>

lemma digits_replicate:
  "\<not> is_digit c \<Longrightarrow> takeWhile is_digit (replicate k 49 @ c # r) = replicate k 49 \<and>
   dropWhile is_digit (replicate k 49 @ c # r) = c # r"
  by (induction k) (simp_all add: is_digit_def)

lemmas scan_numeral_simps =
  scan_once.simps(2) [where n = "pred_numeral k" for k, unfolded numeral_eq_Suc [symmetric]]
  members.simps(2) [where n = "pred_numeral k" for k, unfolded numeral_eq_Suc [symmetric]]
  elements.simps(2) [where n = "pred_numeral k" for k, unfolded numeral_eq_Suc [symmetric]]

end
