(* ===== verification/Json_Encode.thy ===== *)
theory Json_Encode
  imports Json
begin

text \<open>
  \<^verbatim>\<open>json.dumps(obj, indent=ind)\<close> as \<^verbatim>\<open>generate_post\<close> calls it (line 105,
  \<^verbatim>\<open>indent=2\<close>, \<^verbatim>\<open>ensure_ascii=True\<close>, \<^verbatim>\<open>allow_nan=True\<close>, no key sorting):
  with an indent, CPython uses the Python encoder \<^verbatim>\<open>_make_iterencode\<close> with the
  separators \<^verbatim>\<open>','\<close> and \<^verbatim>\<open>': '\<close>; strings go through
  \<^verbatim>\<open>encode_basestring_ascii\<close>, floats through \<^verbatim>\<open>float.__repr__\<close>.
\<close>

definition hex_char :: "nat \<Rightarrow> nat" where
  "hex_char d = (if d < 10 then 48 + d else 87 + d)"

text \<open>\<^verbatim>\<open>'%04x' % u\<close> (lower-case, as \<^verbatim>\<open>ascii_escape_unichar\<close> writes it).\<close>

definition hex4_lower :: "nat \<Rightarrow> ustr" where
  "hex4_lower u = map (\<lambda>k. hex_char (u div 16 ^ k mod 16)) [3, 2, 1, 0]"

text \<open>One character of \<^verbatim>\<open>encode_basestring_ascii\<close>: printable ASCII other than
  \<^verbatim>\<open>\\<close> and \<^verbatim>\<open>"\<close> as itself, the short escapes, and \<^verbatim>\<open>\uXXXX\<close>
  otherwise, as a surrogate pair above U+FFFF.\<close>

definition escape_char :: "nat \<Rightarrow> ustr" where
  "escape_char c =
     (if c = 92 then [92, 92]
      else if c = 34 then [92, 34]
      else if 32 \<le> c \<and> c \<le> 126 then [c]
      else if c = 8 then [92, 98]
      else if c = 12 then [92, 102]
      else if c = 10 then [92, 110]
      else if c = 13 then [92, 114]
      else if c = 9 then [92, 116]
      else if 65536 \<le> c then
        (let v = c - 65536
         in [92, 117] @ hex4_lower (55296 + v div 1024 mod 1024) @
            [92, 117] @ hex4_lower (56320 + v mod 1024))
      else [92, 117] @ hex4_lower c)"

definition encode_str :: "ustr \<Rightarrow> ustr" where
  "encode_str s = [34] @ concat (map escape_char s) @ [34]"

text \<open>\<^verbatim>\<open>_floatstr\<close>: NaN and the infinities by name, \<^verbatim>\<open>repr\<close> otherwise.\<close>

fun float_json :: "pyfloat \<Rightarrow> ustr" where
  "float_json (Finite neg m e) = repr_finite neg m e"
| "float_json NaN = pystr ''NaN''"
| "float_json Infinity = pystr ''Infinity''"
| "float_json NegInfinity = pystr ''-Infinity''"

definition newline_indent :: "nat \<Rightarrow> nat \<Rightarrow> ustr" where
  "newline_indent ind lvl = 10 # replicate (ind * lvl) 32"

text \<open>\<^verbatim>\<open>_iterencode\<close> at nesting level \<open>lvl\<close>: an empty list or dict is
  \<^verbatim>\<open>[]\<close> or \<^verbatim>\<open>{}\<close>; otherwise each item goes on its own line, one level
  deeper, items separated by \<^verbatim>\<open>,\<close>, and the closing bracket on a line of the
  outer level.\<close>

fun dumps_at :: "nat \<Rightarrow> nat \<Rightarrow> json \<Rightarrow> ustr" where
  "dumps_at ind lvl JNull = pystr ''null''"
| "dumps_at ind lvl (JBool b) = (if b then pystr ''true'' else pystr ''false'')"
| "dumps_at ind lvl (JInt i) = py_str_int i"
| "dumps_at ind lvl (JFloat f) = float_json f"
| "dumps_at ind lvl (JString s) = encode_str s"
| "dumps_at ind lvl (JArray vs) =
     (if vs = [] then pystr ''[]''
      else [91] @ newline_indent ind (Suc lvl) @
           join_with (44 # newline_indent ind (Suc lvl)) (map (dumps_at ind (Suc lvl)) vs) @
           newline_indent ind lvl @ [93])"
| "dumps_at ind lvl (JObject ps) =
     (if ps = [] then pystr ''{}''
      else [123] @ newline_indent ind (Suc lvl) @
           join_with (44 # newline_indent ind (Suc lvl))
             (map (\<lambda>(k, v). encode_str k @ pystr '': '' @ dumps_at ind (Suc lvl) v) ps) @
           newline_indent ind lvl @ [125])"

definition json_dumps :: "nat \<Rightarrow> json \<Rightarrow> ustr" where
  "json_dumps ind v = dumps_at ind 0 v"

section \<open>The encoder's output is ASCII\<close>

lemma join_with_subset:
  "set sep \<subseteq> A \<Longrightarrow> (\<And>x. x \<in> set xs \<Longrightarrow> set x \<subseteq> A) \<Longrightarrow> set (join_with sep xs) \<subseteq> A"
  by (induction sep xs rule: join_with.induct) auto

lemma decimal_ascii: "set (decimal n) \<subseteq> {..<128}"
  using decimal_digits by (fastforce simp: is_digit_def)

lemma hex_char_ascii: "d < 16 \<Longrightarrow> hex_char d < 128"
  by (simp add: hex_char_def)

lemma hex4_lower_ascii: "set (hex4_lower u) \<subseteq> {..<128}"
  by (auto simp: hex4_lower_def intro!: hex_char_ascii)

lemma newline_indent_ascii: "set (newline_indent ind lvl) \<subseteq> {..<128}"
  by (auto simp: newline_indent_def)

lemma escape_char_ascii: "set (escape_char c) \<subseteq> {..<128}"
  using hex4_lower_ascii by (auto simp: escape_char_def Let_def)

lemma float_digits_ascii: "float_digits m e = (ds, dp) \<Longrightarrow> set ds \<subseteq> {..<128} \<and> ds \<noteq> []"
  using decimal_ascii [of m] decimal_not_Nil [of m] by (auto simp: float_digits_def split: if_splits)

lemma repr_finite_ascii: "set (repr_finite neg m e) \<subseteq> {..<128}"
proof -
  obtain ds dp where fd: "float_digits m e = (ds, dp)" by fastforce
  with float_digits_ascii have ds: "set ds \<subseteq> {..<128}" "ds \<noteq> []" by blast+
  then have "hd ds < 128" using hd_in_set by blast
  moreover have "set (tl ds) \<subseteq> {..<128}" "set (take k ds) \<subseteq> {..<128}" "set (drop k ds) \<subseteq> {..<128}" for k
    using ds(1) list.set_sel(2) [of ds] set_take_subset [of k ds] set_drop_subset [of k ds]
    by (cases ds; auto)+
  moreover have "set (pad2 (decimal k)) \<subseteq> {..<128}" for k
    using decimal_ascii [of k] by (auto simp: pad2_def)
  ultimately show ?thesis using ds(1) fd by (auto simp: repr_finite_def)
qed

lemma py_str_int_ascii: "set (py_str_int i) \<subseteq> {..<128}"
  using decimal_ascii by (auto simp: py_str_int_def)

lemma encode_str_ascii: "set (encode_str s) \<subseteq> {..<128}"
  using escape_char_ascii by (fastforce simp: encode_str_def)

lemma float_json_ascii: "set (float_json f) \<subseteq> {..<128}"
  using repr_finite_ascii by (cases f) auto

lemmas encode_ascii = decimal_ascii py_str_int_ascii encode_str_ascii float_json_ascii

lemma dumps_at_ascii: "set (dumps_at ind lvl v) \<subseteq> {..<128}"
proof (induction ind lvl v rule: dumps_at.induct)
  case (6 ind lvl vs)
  have "set (join_with (44 # newline_indent ind (Suc lvl)) (map (dumps_at ind (Suc lvl)) vs)) \<subseteq> {..<128}"
  proof (rule join_with_subset)
    fix x assume "x \<in> set (map (dumps_at ind (Suc lvl)) vs)"
    then obtain v where v: "v \<in> set vs" and x: "x = dumps_at ind (Suc lvl) v" by auto
    from v have "vs \<noteq> []" by auto
    with "6" v x show "set x \<subseteq> {..<128}" by blast
  qed (use newline_indent_ascii in auto)
  then show ?case using newline_indent_ascii by auto
next
  case (7 ind lvl ps)
  have "set (join_with (44 # newline_indent ind (Suc lvl))
               (map (\<lambda>(k, v). encode_str k @ pystr '': '' @ dumps_at ind (Suc lvl) v) ps)) \<subseteq> {..<128}"
  proof (rule join_with_subset)
    fix x assume "x \<in> set (map (\<lambda>(k, v). encode_str k @ pystr '': '' @ dumps_at ind (Suc lvl) v) ps)"
    then obtain k v where kv: "(k, v) \<in> set ps"
        and x: "x = encode_str k @ pystr '': '' @ dumps_at ind (Suc lvl) v"
      by auto
    from kv have "ps \<noteq> []" by auto
    with "7" kv have "set (dumps_at ind (Suc lvl) v) \<subseteq> {..<128}" by blast
    with x encode_str_ascii [of k] show "set x \<subseteq> {..<128}" by auto
  qed (use newline_indent_ascii in auto)
  then show ?case using newline_indent_ascii by auto
qed (simp_all add: encode_ascii)

end
