(* ===== verification/Regex.thy ===== *)
theory Regex
  imports Prelude
begin

text \<open>
  The fallback of \<^verbatim>\<open>generate_post\<close> (\<^verbatim>\<open>src/news_bot.py\<close>, line 127):
  \<^verbatim>\<open>re.search(r"\{.*\}", response.text, re.DOTALL)\<close> and \<^verbatim>\<open>match.group(0)\<close>.
  The regex engine tries each start position from the left (\<open>re_search\<close>); at a
  position holding \<^verbatim>\<open>{\<close> the greedy \<^verbatim>\<open>.*\<close> (which with \<^verbatim>\<open>DOTALL\<close>
  also crosses newlines) first takes the whole rest and then gives back one character
  at a time until \<^verbatim>\<open>}\<close> matches (\<open>try_close\<close>).  The theorems show that this
  selects the text from the first \<^verbatim>\<open>{\<close> that has a \<^verbatim>\<open>}\<close> after it to the
  last \<^verbatim>\<open>}\<close> of the input, that is, the leftmost-longest match, and not the first
  balanced \<^verbatim>\<open>{...}\<close> object.
\<close>

text \<open>Backtracking of \<^verbatim>\<open>.*\}\<close>: with \<open>k\<close> characters left to \<^verbatim>\<open>.*\<close>,
  \<^verbatim>\<open>\}\<close> must match \<open>r ! k\<close>; \<open>k\<close> runs down from the whole rest.\<close>

fun try_close :: "ustr \<Rightarrow> nat \<Rightarrow> nat option" where
  "try_close r 0 = None"
| "try_close r (Suc k) = (if r ! k = 125 then Some k else try_close r k)"

text \<open>A match of \<^verbatim>\<open>\{.*\}\<close> anchored at the start of \<open>s\<close>: the matched text.\<close>

definition match_brace :: "ustr \<Rightarrow> ustr option" where
  "match_brace s =
     (case s of
        [] \<Rightarrow> None
      | c # r \<Rightarrow>
          if c = 123 then
            (case try_close r (length r) of
               Some k \<Rightarrow> Some (c # take (Suc k) r)
             | None \<Rightarrow> None)
          else None)"

text \<open>\<^verbatim>\<open>re.search\<close>: the first start position where the pattern matches.\<close>

fun re_search :: "ustr \<Rightarrow> ustr option" where
  "re_search [] = None"
| "re_search (c # r) = (case match_brace (c # r) of Some m \<Rightarrow> Some m | None \<Rightarrow> re_search r)"

text \<open>The reference semantics: a match of the pattern spans positions \<open>i\<close> to
  \<open>j\<close> when \<open>s ! i\<close> is \<^verbatim>\<open>{\<close> and \<open>s ! j\<close> is \<^verbatim>\<open>}\<close>; Python's
  \<^verbatim>\<open>search\<close> reports the leftmost start and, for a greedy pattern, the longest
  match from there.\<close>

definition brace_span :: "ustr \<Rightarrow> nat \<Rightarrow> nat \<Rightarrow> bool" where
  "brace_span s i j \<longleftrightarrow> i < j \<and> j < length s \<and> s ! i = 123 \<and> s ! j = 125"

definition leftmost_longest :: "ustr \<Rightarrow> nat \<Rightarrow> nat \<Rightarrow> bool" where
  "leftmost_longest s i j \<longleftrightarrow>
     brace_span s i j \<and> (\<forall>i' j'. brace_span s i' j' \<longrightarrow> i \<le> i') \<and> (\<forall>j'. brace_span s i j' \<longrightarrow> j' \<le> j)"

section \<open>Lemmas\<close>

lemma try_close_Some:
  "n \<le> length r \<Longrightarrow>
   try_close r n = Some k \<longleftrightarrow> k < n \<and> r ! k = 125 \<and> (\<forall>j. k < j \<and> j < n \<longrightarrow> r ! j \<noteq> 125)"
proof (induction n)
  case 0
  then show ?case by simp
next
  case (Suc n)
  then show ?case by (auto simp: less_Suc_eq)
qed

lemma try_close_None:
  "n \<le> length r \<Longrightarrow> try_close r n = None \<longleftrightarrow> (\<forall>j<n. r ! j \<noteq> 125)"
proof (induction n)
  case 0
  then show ?case by simp
next
  case (Suc n)
  then show ?case by (auto simp: less_Suc_eq)
qed

lemma last_index_split:
  assumes "k < length r" "r ! k = 125" "\<forall>j. k < j \<and> j < length r \<longrightarrow> r ! j \<noteq> 125"
  shows "r = take k r @ 125 # drop (Suc k) r \<and> 125 \<notin> set (drop (Suc k) r)"
proof
  show "r = take k r @ 125 # drop (Suc k) r"
    using assms(1,2) by (metis Cons_nth_drop_Suc append_take_drop_id)
  show "125 \<notin> set (drop (Suc k) r)"
    using assms(3) by (auto simp: in_set_conv_nth)
qed

lemma match_brace_iff:
  "match_brace s = Some m \<longleftrightarrow>
   (\<exists>mid post. s = 123 # mid @ 125 # post \<and> 125 \<notin> set post \<and> m = 123 # mid @ [125])"
proof
  assume a: "match_brace s = Some m"
  then obtain r k where s: "s = 123 # r" and tc: "try_close r (length r) = Some k"
      and m: "m = 123 # take (Suc k) r"
    by (auto simp: match_brace_def split: list.splits if_splits option.splits)
  from tc have k: "k < length r" "r ! k = 125" "\<forall>j. k < j \<and> j < length r \<longrightarrow> r ! j \<noteq> 125"
    by (simp_all add: try_close_Some)
  then have r: "r = take k r @ 125 # drop (Suc k) r" and np: "125 \<notin> set (drop (Suc k) r)"
    using last_index_split by blast+
  have "take (Suc k) r = take k r @ [125]"
    using k by (simp add: take_Suc_conv_app_nth)
  with s r np m show "\<exists>mid post. s = 123 # mid @ 125 # post \<and> 125 \<notin> set post \<and> m = 123 # mid @ [125]"
    by auto
next
  assume "\<exists>mid post. s = 123 # mid @ 125 # post \<and> 125 \<notin> set post \<and> m = 123 # mid @ [125]"
  then obtain mid post where s: "s = 123 # mid @ 125 # post" and np: "125 \<notin> set post"
      and m: "m = 123 # mid @ [125]"
    by blast
  let ?r = "mid @ 125 # post"
  have "try_close ?r (length ?r) = Some (length mid)"
  proof (subst try_close_Some)
    show "length ?r \<le> length ?r" by simp
    show "length mid < length ?r \<and> ?r ! length mid = 125 \<and>
          (\<forall>j. length mid < j \<and> j < length ?r \<longrightarrow> ?r ! j \<noteq> 125)"
      using np by (auto simp: nth_append in_set_conv_nth split: nat.splits)
  qed
  with s m show "match_brace s = Some m" by (simp add: match_brace_def)
qed

lemma match_brace_None:
  "match_brace s = None \<longleftrightarrow> \<not> (\<exists>r. s = 123 # r \<and> 125 \<in> set r)"
  by (auto simp: match_brace_def try_close_None try_close_Some in_set_conv_nth
           split: list.splits option.splits)

lemma re_search_split:
  "re_search s = Some m \<longleftrightarrow>
   (\<exists>pre mid post. s = pre @ 123 # mid @ 125 # post \<and> 123 \<notin> set pre \<and> 125 \<notin> set post
      \<and> m = 123 # mid @ [125])"
proof (induction s)
  case Nil
  then show ?case by simp
next
  case (Cons c r)
  show ?case
  proof
    assume a: "re_search (c # r) = Some m"
    show "\<exists>pre mid post. c # r = pre @ 123 # mid @ 125 # post \<and> 123 \<notin> set pre \<and> 125 \<notin> set post
          \<and> m = 123 # mid @ [125]"
    proof (cases "match_brace (c # r)")
      case (Some m')
      with a have "match_brace (c # r) = Some m" by simp
      then obtain mid post where "c # r = 123 # mid @ 125 # post" "125 \<notin> set post" "m = 123 # mid @ [125]"
        by (auto simp: match_brace_iff)
      then show ?thesis by (intro exI [of _ "[]"] exI [of _ mid] exI [of _ post]) simp
    next
      case None
      with a have "re_search r = Some m" by simp
      with Cons.IH obtain pre mid post where
          r: "r = pre @ 123 # mid @ 125 # post" "123 \<notin> set pre" "125 \<notin> set post" "m = 123 # mid @ [125]"
        by blast
      have "c \<noteq> 123" using None r(1) by (auto simp: match_brace_None)
      with r show ?thesis by (intro exI [of _ "c # pre"] exI [of _ mid] exI [of _ post]) simp
    qed
  next
    assume "\<exists>pre mid post. c # r = pre @ 123 # mid @ 125 # post \<and> 123 \<notin> set pre \<and> 125 \<notin> set post
          \<and> m = 123 # mid @ [125]"
    then obtain pre mid post where
        d: "c # r = pre @ 123 # mid @ 125 # post" "123 \<notin> set pre" "125 \<notin> set post" "m = 123 # mid @ [125]"
      by blast
    show "re_search (c # r) = Some m"
    proof (cases pre)
      case Nil
      with d have "match_brace (c # r) = Some m" by (auto simp: match_brace_iff)
      then show ?thesis by simp
    next
      case (Cons c' pre')
      with d have c: "c \<noteq> 123" and r: "r = pre' @ 123 # mid @ 125 # post" "123 \<notin> set pre'" by auto
      from c have "match_brace (c # r) = None" by (simp add: match_brace_def)
      moreover from r d Cons.IH have "re_search r = Some m" by blast
      ultimately show ?thesis by simp
    qed
  qed
qed

lemma re_search_None_split:
  "re_search s = None \<longleftrightarrow> \<not> (\<exists>pre mid post. s = pre @ 123 # mid @ 125 # post)"
proof (induction s)
  case Nil
  then show ?case by simp
next
  case (Cons c r)
  show ?case
  proof (cases "match_brace (c # r)")
    case None
    then have "c = 123 \<longrightarrow> 125 \<notin> set r" by (auto simp: match_brace_None)
    then have "(\<exists>pre mid post. c # r = pre @ 123 # mid @ 125 # post) \<longleftrightarrow>
               (\<exists>pre mid post. r = pre @ 123 # mid @ 125 # post)"
      by (auto simp: Cons_eq_append_conv in_set_conv_decomp)
    with None Cons.IH show ?thesis by simp
  next
    case (Some m)
    then obtain mid post where "c # r = 123 # mid @ 125 # post" by (auto simp: match_brace_iff)
    then have "\<exists>pre mid post. c # r = pre @ 123 # mid @ 125 # post"
      by (intro exI [of _ "[]"] exI [of _ mid] exI [of _ post]) simp
    with Some show ?thesis by simp
  qed
qed


lemma brace_span_decomp:
  assumes "brace_span s i j"
  shows "s = take i s @ 123 # take (j - Suc i) (drop (Suc i) s) @ 125 # drop (Suc j) s"
proof -
  from assms have ij: "i < j" "j < length s" "s ! i = 123" "s ! j = 125"
    by (simp_all add: brace_span_def)
  have s1: "s = take i s @ s ! i # drop (Suc i) s"
    using ij(1,2) by (intro id_take_nth_drop) simp
  let ?d = "drop (Suc i) s"
  have "j - Suc i < length ?d" using ij by simp
  then have s2: "?d = take (j - Suc i) ?d @ ?d ! (j - Suc i) # drop (Suc (j - Suc i)) ?d"
    by (rule id_take_nth_drop)
  have "?d ! (j - Suc i) = s ! j" using ij by simp
  moreover have "drop (Suc (j - Suc i)) ?d = drop (Suc j) s" using ij by simp
  ultimately have "?d = take (j - Suc i) ?d @ 125 # drop (Suc j) s" using s2 ij by simp
  with s1 ij show ?thesis by simp
qed

lemma decomp_brace_span:
  "brace_span (pre @ 123 # mid @ 125 # post) (length pre) (Suc (length pre + length mid))"
  by (simp add: brace_span_def nth_append)

lemma re_search_Some_leftmost_longest:
  assumes "re_search s = Some m"
  shows "\<exists>i j. leftmost_longest s i j \<and> m = take (Suc j - i) (drop i s)"
proof -
  from assms obtain pre mid post where d: "s = pre @ 123 # mid @ 125 # post" "123 \<notin> set pre" "125 \<notin> set post"
      "m = 123 # mid @ [125]"
    by (auto simp: re_search_split)
  let ?i = "length pre" and ?j = "Suc (length pre + length mid)"
  have sp: "brace_span s ?i ?j" using d(1) by (simp add: decomp_brace_span)
  have left: "?i \<le> i'" if "brace_span s i' j'" for i' j'
  proof (rule ccontr)
    assume "\<not> ?i \<le> i'"
    then have e: "s ! i' = pre ! i'" and l: "i' < length pre" using d(1) by (simp_all add: nth_append)
    have mem: "pre ! i' \<in> set pre" using l by (rule nth_mem)
    have "pre ! i' = 123" using that e by (simp add: brace_span_def)
    with mem d(2) show False by simp
  qed
  have long: "j' \<le> ?j" if "brace_span s ?i j'" for j'
  proof (rule ccontr)
    assume "\<not> j' \<le> ?j"
    then have ge: "Suc ?j \<le> j'" by simp
    have s': "s = (pre @ 123 # mid @ [125]) @ post" using d(1) by simp
    have len: "length (pre @ 123 # mid @ [125]) = Suc ?j" by simp
    obtain k where k: "j' = Suc ?j + k" using ge by (auto simp: le_iff_add)
    have e: "s ! j' = post ! k"
      by (simp only: s' k len [symmetric] nth_append_length_plus)
    have l: "k < length post"
      using k that d(1) by (simp add: brace_span_def)
    have mem: "post ! k \<in> set post" using l by (rule nth_mem)
    have "post ! k = 125" using that e by (simp add: brace_span_def)
    with mem d(3) show False by simp
  qed
  have "leftmost_longest s ?i ?j" using sp left long by (simp add: leftmost_longest_def)
  moreover have "m = take (Suc ?j - ?i) (drop ?i s)" using d(1,4) by simp
  ultimately show ?thesis by blast
qed

lemma leftmost_longest_re_search:
  assumes "\<exists>i j. leftmost_longest s i j \<and> m = take (Suc j - i) (drop i s)"
  shows "re_search s = Some m"
proof -
  from assms obtain i j where ll: "leftmost_longest s i j" and m: "m = take (Suc j - i) (drop i s)" by blast
  from ll have sp: "brace_span s i j" by (simp add: leftmost_longest_def)
  let ?pre = "take i s" and ?mid = "take (j - Suc i) (drop (Suc i) s)" and ?post = "drop (Suc j) s"
  have d: "s = ?pre @ 123 # ?mid @ 125 # ?post" using sp by (rule brace_span_decomp)
  have ij: "i < j" "j < length s" using sp by (simp_all add: brace_span_def)
  have "123 \<notin> set ?pre"
  proof
    assume "123 \<in> set ?pre"
    then obtain i' where "i' < i" "s ! i' = 123" using ij by (auto simp: in_set_conv_nth)
    with sp have "brace_span s i' j" by (simp add: brace_span_def)
    with ll \<open>i' < i\<close> show False by (auto simp: leftmost_longest_def)
  qed
  moreover have "125 \<notin> set ?post"
  proof
    assume "125 \<in> set ?post"
    then obtain k where "k < length s - Suc j" "s ! (Suc j + k) = 125" by (auto simp: in_set_conv_nth)
    with sp have "brace_span s i (Suc j + k)" by (simp add: brace_span_def)
    with ll show False by (auto simp: leftmost_longest_def)
  qed
  moreover have "m = 123 # ?mid @ [125]"
  proof -
    have "length ?mid = j - Suc i" using ij by simp
    then have "Suc j - i = Suc (Suc (length ?mid))" using ij by simp
    moreover have "drop i s = 123 # ?mid @ 125 # ?post" using d ij by (metis append_eq_conv_conj length_take min.absorb4 order.strict_trans)
    ultimately show ?thesis using m by simp
  qed
  ultimately show ?thesis using d re_search_split by blast
qed

text \<open>
  C5. The brace fallback's \<^verbatim>\<open>re.search(r"\{.*\}", text, re.DOTALL)\<close>
  returns exactly the span from the first \<^verbatim>\<open>{\<close> of the text to the last
  \<^verbatim>\<open>}\<close> after it: the leftmost start, and from it the longest match.
\<close>

theorem re_search_leftmost_longest:
  "re_search s = Some m \<longleftrightarrow> (\<exists>i j. leftmost_longest s i j \<and> m = take (Suc j - i) (drop i s))"
  using re_search_Some_leftmost_longest leftmost_longest_re_search by blast

theorem re_search_leftmost_longest_witness:
  "re_search (pystr ''a{b}c}'') = Some (pystr ''{b}c}'') \<and>
   leftmost_longest (pystr ''a{b}c}'') 1 5"
proof -
  have r: "re_search (pystr ''a{b}c}'') = Some (pystr ''{b}c}'')" by code_simp
  then obtain i j where ll: "leftmost_longest (pystr ''a{b}c}'') i j"
      and m: "pystr ''{b}c}'' = take (Suc j - i) (drop i (pystr ''a{b}c}''))"
    using re_search_leftmost_longest by blast
  have "i = 1" using ll by (auto simp: leftmost_longest_def brace_span_def nth_Cons' split: if_splits)
  moreover have "j = 5" using ll
    by (auto simp: leftmost_longest_def brace_span_def nth_Cons' split: if_splits)
  ultimately show ?thesis using r ll by simp
qed

text \<open>
  C20. The fallback finds no match exactly when no \<^verbatim>\<open>{\<close> of the text is
  followed, anywhere later, by a \<^verbatim>\<open>}\<close>; then \<^verbatim>\<open>generate_post\<close>
  re-raises the decoder's error.
\<close>

theorem re_search_None:
  "re_search s = None \<longleftrightarrow> (\<forall>i j. \<not> brace_span s i j)"
proof -
  have "(\<exists>pre mid post. s = pre @ 123 # mid @ 125 # post) \<longleftrightarrow> (\<exists>i j. brace_span s i j)"
    using brace_span_decomp decomp_brace_span by metis
  then show ?thesis by (simp add: re_search_None_split)
qed

theorem re_search_None_witness:
  "re_search (pystr ''}{'') = None \<and> (\<forall>i j. \<not> brace_span (pystr ''}{'') i j)"
proof -
  have "re_search (pystr ''}{'') = None" by code_simp
  then show ?thesis using re_search_None [of "pystr ''}{''"] by simp
qed

end
