(* ===== verification/Synthesizer.thy ===== *)
theory Synthesizer
  imports Json_Decode Json_Encode Regex
begin

text \<open>
  The post synthesizer, \<^verbatim>\<open>generate_post\<close> (\<^verbatim>\<open>src/news_bot.py\<close>, lines
  100--131): the prompt is the f-string of lines 102--115 with the article count and
  \<^verbatim>\<open>json.dumps(articles, indent=2)\<close> in it; the Gemini call is an oracle from the
  model name and the prompt to \<^verbatim>\<open>response.text\<close> (\<open>None\<close> for a blocked or empty
  answer) or to the exception the client raises.  The answer is parsed with
  \<^verbatim>\<open>json.loads\<close>; on \<^verbatim>\<open>JSONDecodeError\<close> the brace fallback of line 127 is
  tried and its result parsed, and with no match the original error is re-raised;
  the other errors of \<^verbatim>\<open>json.loads\<close> are not caught.
  Nothing checks the keys of the parsed value: whatever JSON value the model returns is
  the result.
\<close>

type_synonym gemini = "ustr \<Rightarrow> ustr \<Rightarrow> py_error + ustr option"

definition gemini_prompt :: "json list \<Rightarrow> ustr" where
  \<open>gemini_prompt articles =
     [10] @
     pystr ''    You are a news editor. Using the following '' @ decimal (length articles) @
     pystr '' articles:'' @ [10] @
     [10] @
     pystr ''    '' @ json_dumps 2 (JArray articles) @ [10] @
     [10] @
     pystr ''    Write a NEW detailed news post, with in-depth content and a catchy title, i want a click bait title.'' @ [10] @
     pystr ''    STRICTLY return valid JSON in this format:'' @ [10] @
     [10] @
     pystr ''    {'' @ [10] @
     pystr ''      "title": "Catchy blog title",'' @ [10] @
     pystr ''      "content": "<p>Full HTML formatted blog content...</p>",'' @ [10] @
     pystr ''      "labels": ["tag1", "tag2", "tag3"]'' @ [10] @
     pystr ''    }'' @ [10] @
     pystr ''    ''\<close>

text \<open>Lines 121--131: \<^verbatim>\<open>json.loads(response.text)\<close>, then the fallback, both
  with the recursion room \<open>d\<close> the interpreter leaves at that call.  Only
  \<^verbatim>\<open>JSONDecodeError\<close> is caught: \<^verbatim>\<open>json.loads(None)\<close> raises
  \<^verbatim>\<open>TypeError\<close>, and the \<^verbatim>\<open>ValueError\<close> of an over-long integer and the
  \<^verbatim>\<open>RecursionError\<close> of deep nesting propagate as well.\<close>

definition parse_model_output :: "nat \<Rightarrow> ustr option \<Rightarrow> py_error + json" where
  "parse_model_output d answer =
     (case answer of
        None \<Rightarrow> Inl TypeError
      | Some t \<Rightarrow>
          (case json_loads d t of
             Inr data \<Rightarrow> Inr data
           | Inl err \<Rightarrow>
               if err = JSONDecodeError then
                 (case re_search t of
                    Some m \<Rightarrow> json_loads d m
                  | None \<Rightarrow> Inl err)
               else Inl err))"

definition generate_post :: "gemini \<Rightarrow> nat \<Rightarrow> json list \<Rightarrow> py_error + json" where
  "generate_post llm d articles =
     (case llm (pystr ''gemini-2.5-flash'') (gemini_prompt articles) of
        Inl e \<Rightarrow> Inl e
      | Inr answer \<Rightarrow> parse_model_output d answer)"

section \<open>Lemmas\<close>

lemma json_loads_cases:
  "(\<exists>v. json_loads d s = Inr v) \<or> json_loads d s = Inl JSONDecodeError \<or>
   json_loads d s = Inl ValueError \<or> json_loads d s = Inl RecursionError"
  by (cases "json_loads d s") (auto dest: json_loads_errors)

text \<open>
  C2. \<^verbatim>\<open>generate_post\<close> parses the model's answer successfully exactly when the
  answer is a str that is JSON itself (then the brace fallback is not used), or that is
  not JSON (\<^verbatim>\<open>JSONDecodeError\<close>) but whose leftmost-longest \<^verbatim>\<open>{...}\<close> span
  is.
\<close>

theorem parse_model_output_ok:
  "parse_model_output d answer = Inr v \<longleftrightarrow>
   (\<exists>t. answer = Some t \<and>
        (json_loads d t = Inr v \<or>
         (json_loads d t = Inl JSONDecodeError \<and> (\<exists>m. re_search t = Some m \<and> json_loads d m = Inr v))))"
  by (auto simp: parse_model_output_def split: option.splits sum.splits if_splits)

theorem parse_model_output_ok_witness:
  \<open>parse_model_output 100 (Some (pystr ''{"a": 1}'')) = Inr (JObject [(pystr ''a'', JInt 1)])\<close>
proof -
  have \<open>json_loads 100 (pystr ''{"a": 1}'') = Inr (JObject [(pystr ''a'', JInt 1)])\<close>
    by code_simp
  then show ?thesis
    using parse_model_output_ok [of 100 \<open>Some (pystr ''{"a": 1}'')\<close> \<open>JObject [(pystr ''a'', JInt 1)]\<close>]
    by blast
qed

text \<open>
  C3. The errors of the parsing step: \<^verbatim>\<open>TypeError\<close> when the answer has no text;
  a \<^verbatim>\<open>ValueError\<close> or \<^verbatim>\<open>RecursionError\<close> of decoding the whole answer,
  which escapes the \<^verbatim>\<open>except json.JSONDecodeError\<close> clause, so the fallback is
  not tried; and after a \<^verbatim>\<open>JSONDecodeError\<close>, either \<^verbatim>\<open>JSONDecodeError\<close>
  again, exactly when no brace span exists or the span is not JSON either, or the
  \<^verbatim>\<open>ValueError\<close> or \<^verbatim>\<open>RecursionError\<close> of decoding the span.
\<close>

theorem parse_model_output_error:
  "parse_model_output d answer = Inl e \<longleftrightarrow>
   (answer = None \<and> e = TypeError) \<or>
   (\<exists>t. answer = Some t \<and>
      ((e \<in> {ValueError, RecursionError} \<and> json_loads d t = Inl e) \<or>
       (json_loads d t = Inl JSONDecodeError \<and>
        ((e = JSONDecodeError \<and> (\<forall>m. re_search t = Some m \<longrightarrow> json_loads d m = Inl JSONDecodeError)) \<or>
         (e \<in> {ValueError, RecursionError} \<and> (\<exists>m. re_search t = Some m \<and> json_loads d m = Inl e))))))"
proof (cases answer)
  case None
  then show ?thesis by (auto simp: parse_model_output_def)
next
  case (Some t)
  consider v where "json_loads d t = Inr v" | "json_loads d t = Inl JSONDecodeError"
    | "json_loads d t = Inl ValueError" | "json_loads d t = Inl RecursionError"
    using json_loads_cases by blast
  then show ?thesis
  proof cases
    case 2
    show ?thesis
    proof (cases "re_search t")
      case None
      with Some 2 show ?thesis by (auto simp: parse_model_output_def)
    next
      case (Some m)
      with \<open>answer = Some t\<close> 2 json_loads_cases [of d m] show ?thesis
        by (auto simp: parse_model_output_def)
    qed
  qed (use Some in \<open>auto simp: parse_model_output_def\<close>)
qed

theorem parse_model_output_error_witness:
  \<open>parse_model_output 100 (Some (pystr ''no JSON here'')) = Inl JSONDecodeError \<and>
   parse_model_output 100 (Some (91 # 49 # replicate 4300 49 @ pystr ''] {"title": "T"}'')) = Inl ValueError \<and>
   json_loads 100 (pystr ''{"title": "T"}'') = Inr (JObject [(pystr ''title'', JString (pystr ''T''))])\<close>
proof -
  have "json_loads 100 (pystr ''no JSON here'') = Inl JSONDecodeError" by code_simp
  moreover have "re_search (pystr ''no JSON here'') = None" by code_simp
  moreover have \<open>json_loads 100 (91 # 49 # replicate 4300 49 @ pystr ''] {"title": "T"}'') = Inl ValueError\<close>
    by (simp add: json_loads_def scan_numeral_simps scan_number_def scan_int_part_def scan_frac_def
        scan_exp_def digits_replicate is_digit_def is_ws_def starts_with_def del: replicate_numeral)
  moreover have \<open>json_loads 100 (pystr ''{"title": "T"}'') = Inr (JObject [(pystr ''title'', JString (pystr ''T''))])\<close>
    by code_simp
  ultimately show ?thesis
    using parse_model_output_error [of 100 "Some (pystr ''no JSON here'')" JSONDecodeError]
          parse_model_output_error [of 100 \<open>Some (91 # 49 # replicate 4300 49 @ pystr ''] {"title": "T"}'')\<close> ValueError]
    by auto
qed

text \<open>
  C4. An answer that is not JSON (its decoding raises \<^verbatim>\<open>JSONDecodeError\<close>) but
  holds one \<^verbatim>\<open>{...}\<close> object between prose without braces (no \<^verbatim>\<open>{\<close> before
  it, no \<^verbatim>\<open>}\<close> after it) is parsed as that object.
\<close>

theorem fallback_extracts_embedded_object:
  assumes "t = pre @ 123 # mid @ 125 # post"
    and "123 \<notin> set pre" and "125 \<notin> set post"
    and "json_loads d t = Inl JSONDecodeError"
  shows "parse_model_output d (Some t) = json_loads d (123 # mid @ [125])"
proof -
  have "re_search t = Some (123 # mid @ [125])"
    using assms(1-3) re_search_split by blast
  with assms(4) show ?thesis by (simp add: parse_model_output_def)
qed

theorem fallback_extracts_embedded_object_witness:
  \<open>parse_model_output 100 (Some (pystr ''Sure! {"title": "T"} Hope it helps.'')) =
   Inr (JObject [(pystr ''title'', JString (pystr ''T''))])\<close>
proof -
  have fail: \<open>json_loads 100 (pystr ''Sure! {"title": "T"} Hope it helps.'') = Inl JSONDecodeError\<close>
    by code_simp
  have obj: \<open>json_loads 100 (123 # pystr ''"title": "T"'' @ [125]) =
             Inr (JObject [(pystr ''title'', JString (pystr ''T''))])\<close>
    by code_simp
  have \<open>parse_model_output 100 (Some (pystr ''Sure! {"title": "T"} Hope it helps.'')) =
        json_loads 100 (123 # pystr ''"title": "T"'' @ [125])\<close>
    by (rule fallback_extracts_embedded_object
          [of _ "pystr ''Sure! ''" \<open>pystr ''"title": "T"''\<close> "pystr '' Hope it helps.''"])
       (use fail in simp_all)
  with obj show ?thesis by simp
qed

text \<open>
  C21. The prompt sent to Gemini is pure ASCII whatever the articles hold:
  \<^verbatim>\<open>json.dumps\<close> escapes every non-ASCII character of the article texts
  (\<^verbatim>\<open>ensure_ascii\<close>), so titles in any script reach the model as
  \<^verbatim>\<open>\uXXXX\<close> escapes.
\<close>

theorem gemini_prompt_ascii: "set (gemini_prompt articles) \<subseteq> {..<128}"
  using dumps_at_ascii [of 2 0 "JArray articles"] decimal_ascii [of "length articles"]
  by (auto simp: gemini_prompt_def json_dumps_def)

end
