(* ===== verification/Config.thy ===== *)
theory Config
  imports Prelude
begin

text \<open>
  The configuration block of \<^verbatim>\<open>src/news_bot.py\<close> (lines 18--23): six module
  globals read once, at import, from the process environment with
  \<^verbatim>\<open>os.environ.get(name, default)\<close>.  A variable that is set, even to the empty
  string, overrides its default.
\<close>

type_synonym environ = "ustr \<rightharpoonup> ustr"

record config =
  client_secret_file :: ustr
  storage_file :: ustr
  blog_url :: ustr
  scopes :: ustr
  worldnews_api_key :: ustr
  gemini_api_key :: ustr

definition env_get :: "environ \<Rightarrow> ustr \<Rightarrow> ustr \<Rightarrow> ustr" where
  "env_get env k dflt = (case env k of Some v \<Rightarrow> v | None \<Rightarrow> dflt)"

definition load_config :: "environ \<Rightarrow> config" where
  "load_config env =
     \<lparr>client_secret_file = env_get env (pystr ''CLIENT_SECRET_FILE'') (pystr ''client_secret.json''),
      storage_file = env_get env (pystr ''STORAGE_FILE'') (pystr ''credentials.storage''),
      blog_url = env_get env (pystr ''BLOG_URL'') (pystr ''https://chaibuzz.blogspot.com/''),
      scopes = env_get env (pystr ''BLOGGER_SCOPES'') (pystr ''https://www.googleapis.com/auth/blogger''),
      worldnews_api_key = env_get env (pystr ''WORLDNEWS_API_KEY'') (pystr ''YOUR_DEFAULT_KEY''),
      gemini_api_key = env_get env (pystr ''GEMINI_API_KEY'') (pystr ''YOUR_DEFAULT_KEY'')\<rparr>"

end
