(* ===== verification/Credentials.thy ===== *)
theory Credentials
  imports Config
begin

text \<open>
  The credential manager (\<^verbatim>\<open>authorize_credentials\<close> and
  \<^verbatim>\<open>get_blogger_service\<close>, \<^verbatim>\<open>src/news_bot.py\<close> lines 33--50).  The local
  files that \<^verbatim>\<open>oauth2client.file.Storage\<close> reads and writes are a map from a path
  to the credential stored there (\<open>None\<close> when the file is missing or unreadable:
  \<^verbatim>\<open>Storage.get\<close> then returns \<^verbatim>\<open>None\<close>).  The interactive consent of
  \<^verbatim>\<open>run_flow\<close> (reading the client-secret file, asking the operator for the
  verification code, exchanging it) is an oracle from the client-secret path and the scope
  to the credential obtained or to the error raised (\<open>SystemExit\<close> when the
  exchange of the verification code fails: \<^verbatim>\<open>run_flow\<close> calls
  \<^verbatim>\<open>sys.exit\<close> there); \<^verbatim>\<open>run_flow\<close> then
  stores the credential with \<^verbatim>\<open>storage.put\<close>.  \<^verbatim>\<open>discovery.build\<close>
  either succeeds or raises; \<^verbatim>\<open>credentials.authorize(http)\<close> cannot fail.
\<close>

record credential =
  access_token :: ustr
  refresh_token :: "ustr option"
  invalid :: bool

type_synonym files = "ustr \<rightharpoonup> credential"

type_synonym consent = "ustr \<Rightarrow> ustr \<Rightarrow> py_error + credential"

text \<open>The Blogger service object: the discovery document bound to an authorised
  \<^verbatim>\<open>Http\<close>, that is, to the credential.\<close>

record service =
  svc_credential :: credential

definition run_flow :: "consent \<Rightarrow> ustr \<Rightarrow> ustr \<Rightarrow> ustr \<Rightarrow> files \<Rightarrow> (py_error + credential) \<times> files" where
  "run_flow consent secret_file scope path fs =
     (case consent secret_file scope of
        Inl e \<Rightarrow> (Inl e, fs)
      | Inr c \<Rightarrow> (Inr c, fs(path \<mapsto> c)))"

definition authorize_credentials :: "config \<Rightarrow> consent \<Rightarrow> files \<Rightarrow> (py_error + credential) \<times> files" where
  "authorize_credentials cfg consent fs =
     (case fs (storage_file cfg) of
        Some c \<Rightarrow>
          if invalid c then run_flow consent (client_secret_file cfg) (scopes cfg) (storage_file cfg) fs
          else (Inr c, fs)
      | None \<Rightarrow> run_flow consent (client_secret_file cfg) (scopes cfg) (storage_file cfg) fs)"

definition get_blogger_service ::
  "config \<Rightarrow> consent \<Rightarrow> py_error option \<Rightarrow> files \<Rightarrow> (py_error + service) \<times> files" where
  "get_blogger_service cfg consent build_error fs =
     (case authorize_credentials cfg consent fs of
        (Inl e, fs') \<Rightarrow> (Inl e, fs')
      | (Inr c, fs') \<Rightarrow>
          (case build_error of
             Some e \<Rightarrow> (Inl e, fs')
           | None \<Rightarrow> (Inr \<lparr>svc_credential = c\<rparr>, fs')))"

definition valid_stored :: "config \<Rightarrow> files \<Rightarrow> credential \<Rightarrow> bool" where
  "valid_stored cfg fs c \<longleftrightarrow> fs (storage_file cfg) = Some c \<and> \<not> invalid c"

section \<open>Lemmas\<close>

lemma authorize_cached:
  "valid_stored cfg fs c \<Longrightarrow> authorize_credentials cfg consent fs = (Inr c, fs)"
  by (simp add: valid_stored_def authorize_credentials_def)

lemma authorize_flow:
  "(\<forall>c. \<not> valid_stored cfg fs c) \<Longrightarrow>
   authorize_credentials cfg consent fs =
     run_flow consent (client_secret_file cfg) (scopes cfg) (storage_file cfg) fs"
  by (auto simp: valid_stored_def authorize_credentials_def split: option.split)

lemma run_flow_Inr:
  "run_flow consent sf sc path fs = (Inr c, fs') \<longleftrightarrow> consent sf sc = Inr c \<and> fs' = fs(path \<mapsto> c)"
  by (auto simp: run_flow_def split: sum.splits)

lemma run_flow_Inl:
  "run_flow consent sf sc path fs = (Inl e, fs') \<longleftrightarrow> consent sf sc = Inl e \<and> fs' = fs"
  by (auto simp: run_flow_def split: sum.splits)

lemma valid_stored_upd: "valid_stored cfg fs c \<Longrightarrow> fs(storage_file cfg \<mapsto> c) = fs"
  by (auto simp: valid_stored_def)

lemma authorize_other_files:
  "path \<noteq> storage_file cfg \<Longrightarrow> snd (authorize_credentials cfg consent fs) path = fs path"
  by (simp add: authorize_credentials_def run_flow_def split: option.split sum.split)

lemmas authorize_simps = authorize_cached authorize_flow run_flow_Inr run_flow_Inl

text \<open>
  C10. When the credential store holds a valid credential, neither
  \<^verbatim>\<open>authorize_credentials\<close> nor \<^verbatim>\<open>get_blogger_service\<close> runs the consent
  flow, whatever it would do, and the files are left as they are.
\<close>

theorem cached_credential_no_consent:
  assumes "valid_stored cfg fs c"
  shows "authorize_credentials cfg consent fs = (Inr c, fs) \<and>
         get_blogger_service cfg consent None fs = (Inr \<lparr>svc_credential = c\<rparr>, fs)"
  using authorize_cached [OF assms] by (simp add: get_blogger_service_def)

lemma authorize_Inr_files:
  assumes "authorize_credentials cfg consent fs = (Inr c, fs')"
  shows "fs' = fs(storage_file cfg \<mapsto> c)"
proof (cases "\<exists>c0. valid_stored cfg fs c0")
  case True
  then obtain c0 where v: "valid_stored cfg fs c0" by blast
  with assms have "c = c0" "fs' = fs" by (simp_all add: authorize_cached)
  with v show ?thesis by (simp add: valid_stored_upd)
next
  case False
  with assms show ?thesis by (simp add: authorize_simps)
qed

text \<open>
  C11. When \<^verbatim>\<open>authorize_credentials\<close> returns a credential, it is the valid one
  that was stored or the one the consent flow just produced, the store file holds it
  afterwards, and no other file has changed.
\<close>

theorem authorize_success_stores:
  assumes "authorize_credentials cfg consent fs = (Inr c, fs')"
  shows "fs' = fs(storage_file cfg \<mapsto> c) \<and>
         (valid_stored cfg fs c \<or> consent (client_secret_file cfg) (scopes cfg) = Inr c)"
proof -
  have "valid_stored cfg fs c \<or> consent (client_secret_file cfg) (scopes cfg) = Inr c"
  proof (cases "\<exists>c0. valid_stored cfg fs c0")
    case True
    then obtain c0 where v: "valid_stored cfg fs c0" by blast
    with assms show ?thesis by (simp add: authorize_cached)
  next
    case False
    with assms show ?thesis by (simp add: authorize_simps)
  qed
  with authorize_Inr_files [OF assms] show ?thesis by blast
qed

text \<open>
  C12. \<^verbatim>\<open>authorize_credentials\<close> fails only when no valid credential is stored and
  the consent flow fails; the error is the flow's, and no file is written.
\<close>

theorem authorize_failure:
  assumes "authorize_credentials cfg consent fs = (Inl e, fs')"
  shows "fs' = fs \<and> (\<forall>c. \<not> valid_stored cfg fs c) \<and>
         consent (client_secret_file cfg) (scopes cfg) = Inl e"
proof (cases "\<exists>c0. valid_stored cfg fs c0")
  case True
  with assms show ?thesis by (auto simp: authorize_cached)
next
  case False
  with assms show ?thesis by (simp add: authorize_simps)
qed

text \<open>
  C13. The credential cache works: after a successful authorisation that yielded a valid
  credential, the next authorisation returns the same credential without consent, whatever
  the consent flow would do then, and writes nothing.
\<close>

theorem authorize_idempotent:
  assumes "authorize_credentials cfg consent fs = (Inr c, fs')" and "\<not> invalid c"
  shows "authorize_credentials cfg consent' fs' = (Inr c, fs')"
proof -
  have "fs' = fs(storage_file cfg \<mapsto> c)" using assms(1) by (rule authorize_Inr_files)
  with assms(2) have "valid_stored cfg fs' c" by (simp add: valid_stored_def)
  then show ?thesis by (rule authorize_cached)
qed

section \<open>Examples\<close>

theorem cached_credential_no_consent_witness:
  "authorize_credentials (load_config Map.empty) (\<lambda>_ _. Inl AuthFlowError)
     [pystr ''credentials.storage'' \<mapsto> \<lparr>access_token = pystr ''tok'', refresh_token = None, invalid = False\<rparr>] =
   (Inr \<lparr>access_token = pystr ''tok'', refresh_token = None, invalid = False\<rparr>,
    [pystr ''credentials.storage'' \<mapsto> \<lparr>access_token = pystr ''tok'', refresh_token = None, invalid = False\<rparr>])"
proof -
  have "valid_stored (load_config Map.empty)
          [pystr ''credentials.storage'' \<mapsto> \<lparr>access_token = pystr ''tok'', refresh_token = None, invalid = False\<rparr>]
          \<lparr>access_token = pystr ''tok'', refresh_token = None, invalid = False\<rparr>"
    by (simp add: valid_stored_def load_config_def env_get_def)
  from cached_credential_no_consent [OF this, of "\<lambda>_ _. Inl AuthFlowError"] show ?thesis by simp
qed

theorem authorize_success_stores_witness:
  "authorize_credentials (load_config Map.empty)
     (\<lambda>_ _. Inr \<lparr>access_token = pystr ''tok'', refresh_token = None, invalid = False\<rparr>) Map.empty =
   (Inr \<lparr>access_token = pystr ''tok'', refresh_token = None, invalid = False\<rparr>,
    [pystr ''credentials.storage'' \<mapsto> \<lparr>access_token = pystr ''tok'', refresh_token = None, invalid = False\<rparr>])"
proof -
  obtain fs' where a: "authorize_credentials (load_config Map.empty)
     (\<lambda>_ _. Inr \<lparr>access_token = pystr ''tok'', refresh_token = None, invalid = False\<rparr>) Map.empty =
     (Inr \<lparr>access_token = pystr ''tok'', refresh_token = None, invalid = False\<rparr>, fs')"
    by (simp add: authorize_credentials_def run_flow_def)
  from authorize_success_stores [OF a] a show ?thesis by (simp add: load_config_def env_get_def)
qed

theorem authorize_failure_witness:
  "authorize_credentials (load_config Map.empty) (\<lambda>_ _. Inl AuthFlowError) Map.empty =
   (Inl AuthFlowError, Map.empty)"
proof -
  obtain fs' where a: "authorize_credentials (load_config Map.empty) (\<lambda>_ _. Inl AuthFlowError) Map.empty =
      (Inl AuthFlowError, fs')"
    by (simp add: authorize_credentials_def run_flow_def)
  from authorize_failure [OF a] a show ?thesis by simp
qed

theorem authorize_idempotent_witness:
  "authorize_credentials (load_config Map.empty) (\<lambda>_ _. Inl AuthFlowError)
     [pystr ''credentials.storage'' \<mapsto> \<lparr>access_token = pystr ''tok'', refresh_token = None, invalid = False\<rparr>] =
   (Inr \<lparr>access_token = pystr ''tok'', refresh_token = None, invalid = False\<rparr>,
    [pystr ''credentials.storage'' \<mapsto> \<lparr>access_token = pystr ''tok'', refresh_token = None, invalid = False\<rparr>])"
proof -
  have a: "authorize_credentials (load_config Map.empty)
     (\<lambda>_ _. Inr \<lparr>access_token = pystr ''tok'', refresh_token = None, invalid = False\<rparr>) Map.empty =
     (Inr \<lparr>access_token = pystr ''tok'', refresh_token = None, invalid = False\<rparr>,
      [pystr ''credentials.storage'' \<mapsto> \<lparr>access_token = pystr ''tok'', refresh_token = None, invalid = False\<rparr>])"
    by (simp add: authorize_credentials_def run_flow_def load_config_def env_get_def)
  from authorize_idempotent [OF a, of "\<lambda>_ _. Inl AuthFlowError"] show ?thesis by simp
qed

end
