(* ===== verification/Publisher.thy ===== *)
theory Publisher
  imports Credentials Json
begin

text \<open>
  The publisher, \<^verbatim>\<open>get_blog_id\<close> and \<^verbatim>\<open>post_to_blogger\<close>
  (\<^verbatim>\<open>src/news_bot.py\<close> lines 52--57 and 134--150).  The Blogger v3 API is an
  interface over an abstract platform state \<open>'p\<close>: \<^verbatim>\<open>blogs().getByUrl\<close>
  returns the blog resource or raises, \<^verbatim>\<open>posts().insert\<close> returns the new state
  and the post resource or raises (without effect).  Both requests go through the
  \<^verbatim>\<open>Http\<close> that line 47 authorised with the credential: when the platform rejects
  the access token, oauth2client refreshes it, sets the new token (or, when the refresh
  is refused, \<^verbatim>\<open>invalid\<close>) on the credential object and writes it back to the store
  the credential came from, \<^verbatim>\<open>STORAGE_FILE\<close>; each API call therefore also returns
  the credential written during it, if any, and the next call uses it.  The world a
  run acts on is the local files (the credential store) and the platform.  Every step
  runs in the order of the source, and each error stops the run with the state reached
  so far: in particular the \<^verbatim>\<open>post['url']\<close> of line 149 is read after the post is
  inserted.
\<close>

record 'p blogger_api =
  get_by_url :: "'p \<Rightarrow> credential \<Rightarrow> ustr \<Rightarrow> (py_error + json) \<times> credential option"
  insert_post :: "'p \<Rightarrow> credential \<Rightarrow> json \<Rightarrow> json \<Rightarrow> (py_error + ('p \<times> json)) \<times> credential option"

text \<open>What the publisher is given: the consent flow, the outcome of
  \<^verbatim>\<open>discovery.build\<close> (\<open>None\<close> when it succeeds) and the API.\<close>

record 'p blogger_env =
  bl_consent :: consent
  bl_build_error :: "py_error option"
  bl_api :: "'p blogger_api"

record 'p world =
  files :: files
  platform :: 'p

text \<open>The write-back of a credential refreshed during a request (\<^verbatim>\<open>store.locked_put\<close>),
  and the credential object the next request uses.\<close>

definition store_refresh :: "config \<Rightarrow> credential option \<Rightarrow> files \<Rightarrow> files" where
  "store_refresh cfg u fs = (case u of None \<Rightarrow> fs | Some c \<Rightarrow> fs(storage_file cfg \<mapsto> c))"

definition cred_after :: "credential \<Rightarrow> credential option \<Rightarrow> credential" where
  "cred_after c u = (case u of None \<Rightarrow> c | Some c' \<Rightarrow> c')"

definition get_blog_id ::
  "'p blogger_api \<Rightarrow> 'p \<Rightarrow> service \<Rightarrow> ustr \<Rightarrow> (py_error + json) \<times> credential option" where
  "get_blog_id api p svc url =
     (case get_by_url api p (svc_credential svc) url of
        (Inl e, u) \<Rightarrow> (Inl e, u)
      | (Inr blog, u) \<Rightarrow> (py_getitem blog (pystr ''id''), u))"

text \<open>Lines 138--145: \<^verbatim>\<open>labels or []\<close>, and the \<^verbatim>\<open>images\<close> key added at the
  end only for a truthy \<^verbatim>\<open>image_url\<close>.\<close>

definition mk_payload :: "json \<Rightarrow> json \<Rightarrow> json \<Rightarrow> json \<Rightarrow> json" where
  "mk_payload title content labels image_url =
     JObject ([(pystr ''title'', title), (pystr ''content'', content),
               (pystr ''labels'', if truthy labels then labels else JArray [])] @
              (if truthy image_url
               then [(pystr ''images'', JArray [JObject [(pystr ''url'', image_url)]])]
               else []))"

definition post_to_blogger ::
  "config \<Rightarrow> 'p blogger_env \<Rightarrow> json \<Rightarrow> json \<Rightarrow> json \<Rightarrow> json \<Rightarrow> 'p world \<Rightarrow> (py_error + json) \<times> 'p world" where
  "post_to_blogger cfg env title content labels image_url w =
     (case get_blogger_service cfg (bl_consent env) (bl_build_error env) (files w) of
        (Inl e, fs) \<Rightarrow> (Inl e, w\<lparr>files := fs\<rparr>)
      | (Inr svc, fs) \<Rightarrow>
          (case get_blog_id (bl_api env) (platform w) svc (blog_url cfg) of
             (Inl e, u1) \<Rightarrow> (Inl e, w\<lparr>files := store_refresh cfg u1 fs\<rparr>)
           | (Inr blog_id, u1) \<Rightarrow>
               (case insert_post (bl_api env) (platform w) (cred_after (svc_credential svc) u1) blog_id
                       (mk_payload title content labels image_url) of
                  (Inl e, u2) \<Rightarrow> (Inl e, w\<lparr>files := store_refresh cfg u2 (store_refresh cfg u1 fs)\<rparr>)
                | (Inr (p', post), u2) \<Rightarrow>
                    (case py_getitem post (pystr ''url'') of
                       Inl e \<Rightarrow> (Inl e, \<lparr>files = store_refresh cfg u2 (store_refresh cfg u1 fs), platform = p'\<rparr>)
                     | Inr _ \<Rightarrow> (Inr post, \<lparr>files = store_refresh cfg u2 (store_refresh cfg u1 fs), platform = p'\<rparr>)))))"

section \<open>Lemmas\<close>

lemma store_refresh_other [simp]:
  "path \<noteq> storage_file cfg \<Longrightarrow> store_refresh cfg u fs path = fs path"
  by (simp add: store_refresh_def split: option.split)

lemma post_to_blogger_service_Inl:
  "get_blogger_service cfg (bl_consent env) (bl_build_error env) (files w) = (Inl e, fs) \<Longrightarrow>
   post_to_blogger cfg env t c l i w = (Inl e, w\<lparr>files := fs\<rparr>)"
  by (simp add: post_to_blogger_def)

lemma post_to_blogger_blog_id_Inl:
  "get_blogger_service cfg (bl_consent env) (bl_build_error env) (files w) = (Inr svc, fs) \<Longrightarrow>
   get_blog_id (bl_api env) (platform w) svc (blog_url cfg) = (Inl e, u1) \<Longrightarrow>
   post_to_blogger cfg env t c l i w = (Inl e, w\<lparr>files := store_refresh cfg u1 fs\<rparr>)"
  by (simp add: post_to_blogger_def)

lemma post_to_blogger_insert_Inl:
  "get_blogger_service cfg (bl_consent env) (bl_build_error env) (files w) = (Inr svc, fs) \<Longrightarrow>
   get_blog_id (bl_api env) (platform w) svc (blog_url cfg) = (Inr bid, u1) \<Longrightarrow>
   insert_post (bl_api env) (platform w) (cred_after (svc_credential svc) u1) bid (mk_payload t c l i) =
     (Inl e, u2) \<Longrightarrow>
   post_to_blogger cfg env t c l i w = (Inl e, w\<lparr>files := store_refresh cfg u2 (store_refresh cfg u1 fs)\<rparr>)"
  by (simp add: post_to_blogger_def)

lemma post_to_blogger_inserted:
  "get_blogger_service cfg (bl_consent env) (bl_build_error env) (files w) = (Inr svc, fs) \<Longrightarrow>
   get_blog_id (bl_api env) (platform w) svc (blog_url cfg) = (Inr bid, u1) \<Longrightarrow>
   insert_post (bl_api env) (platform w) (cred_after (svc_credential svc) u1) bid (mk_payload t c l i) =
     (Inr (p', post), u2) \<Longrightarrow>
   post_to_blogger cfg env t c l i w =
     ((case py_getitem post (pystr ''url'') of Inl e \<Rightarrow> Inl e | Inr _ \<Rightarrow> Inr post),
      \<lparr>files = store_refresh cfg u2 (store_refresh cfg u1 fs), platform = p'\<rparr>)"
  by (simp add: post_to_blogger_def split: sum.split)

lemmas post_to_blogger_steps =
  post_to_blogger_service_Inl post_to_blogger_blog_id_Inl post_to_blogger_insert_Inl
  post_to_blogger_inserted

text \<open>Every run of \<^verbatim>\<open>post_to_blogger\<close> ends in one of four ways, according to the
  first step that fails.\<close>

lemma post_to_blogger_cases:
  obtains (service) e fs where
    "get_blogger_service cfg (bl_consent env) (bl_build_error env) (files w) = (Inl e, fs)"
  | (blog_id) svc fs e u1 where
    "get_blogger_service cfg (bl_consent env) (bl_build_error env) (files w) = (Inr svc, fs)"
    "get_blog_id (bl_api env) (platform w) svc (blog_url cfg) = (Inl e, u1)"
  | (insert) svc fs bid u1 e u2 where
    "get_blogger_service cfg (bl_consent env) (bl_build_error env) (files w) = (Inr svc, fs)"
    "get_blog_id (bl_api env) (platform w) svc (blog_url cfg) = (Inr bid, u1)"
    "insert_post (bl_api env) (platform w) (cred_after (svc_credential svc) u1) bid (mk_payload t c l i) =
       (Inl e, u2)"
  | (inserted) svc fs bid u1 p' post u2 where
    "get_blogger_service cfg (bl_consent env) (bl_build_error env) (files w) = (Inr svc, fs)"
    "get_blog_id (bl_api env) (platform w) svc (blog_url cfg) = (Inr bid, u1)"
    "insert_post (bl_api env) (platform w) (cred_after (svc_credential svc) u1) bid (mk_payload t c l i) =
       (Inr (p', post), u2)"
proof -
  obtain r fs where g: "get_blogger_service cfg (bl_consent env) (bl_build_error env) (files w) = (r, fs)"
    by (cases "get_blogger_service cfg (bl_consent env) (bl_build_error env) (files w)")
  show thesis
  proof (cases r)
    case (Inl e)
    with g that(1) show thesis by blast
  next
    case (Inr svc)
    obtain rb u1 where b: "get_blog_id (bl_api env) (platform w) svc (blog_url cfg) = (rb, u1)"
      by fastforce
    show thesis
    proof (cases rb)
      case (Inl e)
      with g Inr b that(2) show thesis by blast
    next
      case (Inr bid)
      obtain ri u2 where i: "insert_post (bl_api env) (platform w) (cred_after (svc_credential svc) u1) bid
          (mk_payload t c l i) = (ri, u2)" by fastforce
      with g b \<open>r = Inr svc\<close> \<open>rb = Inr bid\<close> that(3,4) show thesis
        by (cases ri) auto
    qed
  qed
qed

lemma get_blogger_service_files:
  "get_blogger_service cfg consent b fs = (r, fs') \<Longrightarrow> fs' = snd (authorize_credentials cfg consent fs)"
  by (auto simp: get_blogger_service_def split: prod.splits sum.splits option.splits)

lemma files_after_post:
  "post_to_blogger cfg env t c l i w = (r, w') \<Longrightarrow> path \<noteq> storage_file cfg \<Longrightarrow>
   files w' path = files w path"
  by (cases rule: post_to_blogger_cases [where cfg=cfg and env=env and w=w and t=t and c=c and l=l and i=i])
     (auto simp: post_to_blogger_steps dest!: get_blogger_service_files simp: authorize_other_files)

text \<open>
  C7. \<^verbatim>\<open>post_to_blogger\<close> changes the platform at most once, by inserting the
  payload built from its arguments: after any run, successful or not, the platform is as
  before or is the state \<^verbatim>\<open>posts().insert\<close> returned for that payload.  The only
  file it writes is the credential store \<^verbatim>\<open>STORAGE_FILE\<close> (by the consent flow or
  by a token refresh).
\<close>

theorem post_to_blogger_effect:
  assumes "post_to_blogger cfg env t c l i w = (r, w')"
  shows "(platform w' = platform w \<or>
          (\<exists>cr bid post u. insert_post (bl_api env) (platform w) cr bid (mk_payload t c l i) =
                            (Inr (platform w', post), u))) \<and>
         (\<forall>path. path \<noteq> storage_file cfg \<longrightarrow> files w' path = files w path)"
proof -
  have "platform w' = platform w \<or>
        (\<exists>cr bid post u. insert_post (bl_api env) (platform w) cr bid (mk_payload t c l i) =
                          (Inr (platform w', post), u))"
    using assms
    by (cases rule: post_to_blogger_cases [where cfg=cfg and env=env and w=w and t=t and c=c and l=l and i=i])
       (auto simp: post_to_blogger_steps)
  with files_after_post [OF assms] show ?thesis by blast
qed

text \<open>
  C8. When \<^verbatim>\<open>post_to_blogger\<close> returns a post, the service was built, the blog id
  was resolved from the configured blog URL, the payload built from the arguments was
  inserted into that blog with the credential as the blog request left it, the platform
  is the state after that insert, and the post returned has a \<^verbatim>\<open>url\<close>.
\<close>

theorem post_to_blogger_success:
  assumes "post_to_blogger cfg env t c l i w = (Inr post, w')"
  shows "\<exists>svc fs bid u1 u2. get_blogger_service cfg (bl_consent env) (bl_build_error env) (files w) = (Inr svc, fs) \<and>
           get_blog_id (bl_api env) (platform w) svc (blog_url cfg) = (Inr bid, u1) \<and>
           insert_post (bl_api env) (platform w) (cred_after (svc_credential svc) u1) bid (mk_payload t c l i) =
             (Inr (platform w', post), u2) \<and>
           (\<exists>u. py_getitem post (pystr ''url'') = Inr u)"
  using assms
  by (cases rule: post_to_blogger_cases [where cfg=cfg and env=env and w=w and t=t and c=c and l=l and i=i])
     (auto simp: post_to_blogger_steps split: sum.splits)

text \<open>
  C19. The payload of lines 138--145: \<^verbatim>\<open>title\<close> and \<^verbatim>\<open>content\<close> as given,
  \<^verbatim>\<open>labels\<close> replaced by \<^verbatim>\<open>[]\<close> when falsy, and an \<^verbatim>\<open>images\<close> entry
  exactly when the image URL is truthy.
\<close>

theorem mk_payload_fields:
  "py_getitem (mk_payload t c l i) (pystr ''title'') = Inr t \<and>
   py_getitem (mk_payload t c l i) (pystr ''content'') = Inr c \<and>
   py_getitem (mk_payload t c l i) (pystr ''labels'') = Inr (if truthy l then l else JArray []) \<and>
   py_get (mk_payload t c l i) (pystr ''images'') JNull =
     Inr (if truthy i then JArray [JObject [(pystr ''url'', i)]] else JNull)"
  by (simp add: mk_payload_def)

section \<open>Examples\<close>

theorem post_to_blogger_effect_witness:
  "\<exists>w'. snd (post_to_blogger (load_config Map.empty) \<lparr>bl_consent = \<lambda>_ _. Inr \<lparr>access_token = pystr ''tok'', refresh_token = None, invalid = False\<rparr>, bl_build_error = None, bl_api = \<lparr>get_by_url = \<lambda>p cr u. (Inr (JObject [(pystr ''id'', JString (pystr ''42''))]), None),
                insert_post = \<lambda>p cr b pl. (Inr (Suc p, JObject [(pystr ''url'', JString (pystr ''u''))]), None)\<rparr>\<rparr>
     (JString (pystr ''T'')) (JString (pystr ''C'')) JNull JNull
     \<lparr>files = Map.empty, platform = 0::nat\<rparr>) = w' \<and> platform w' = 1 \<and>
     (\<forall>path. path \<noteq> pystr ''credentials.storage'' \<longrightarrow> files w' path = None)"
proof -
  have a: "post_to_blogger (load_config Map.empty) \<lparr>bl_consent = \<lambda>_ _. Inr \<lparr>access_token = pystr ''tok'', refresh_token = None, invalid = False\<rparr>, bl_build_error = None, bl_api = \<lparr>get_by_url = \<lambda>p cr u. (Inr (JObject [(pystr ''id'', JString (pystr ''42''))]), None),
                insert_post = \<lambda>p cr b pl. (Inr (Suc p, JObject [(pystr ''url'', JString (pystr ''u''))]), None)\<rparr>\<rparr>
     (JString (pystr ''T'')) (JString (pystr ''C'')) JNull JNull
     \<lparr>files = Map.empty, platform = 0::nat\<rparr> = (Inr (JObject [(pystr ''url'', JString (pystr ''u''))]),
     \<lparr>files = [pystr ''credentials.storage'' \<mapsto> \<lparr>access_token = pystr ''tok'', refresh_token = None, invalid = False\<rparr>], platform = 1::nat\<rparr>)"
    by (simp add: post_to_blogger_def get_blogger_service_def authorize_credentials_def run_flow_def
        get_blog_id_def store_refresh_def cred_after_def load_config_def env_get_def)
  from post_to_blogger_effect [OF a] a show ?thesis
    by (simp add: load_config_def env_get_def)
qed

theorem post_to_blogger_success_witness:
  "\<exists>svc bid u1. get_blog_id \<lparr>get_by_url = \<lambda>p cr u. (Inr (JObject [(pystr ''id'', JString (pystr ''42''))]), None),
                insert_post = \<lambda>p cr b pl. (Inr (Suc p, JObject [(pystr ''url'', JString (pystr ''u''))]), None)\<rparr> (0::nat) svc (pystr ''https://chaibuzz.blogspot.com/'') = (Inr bid, u1) \<and>
     (\<exists>u2. insert_post \<lparr>get_by_url = \<lambda>p cr u. (Inr (JObject [(pystr ''id'', JString (pystr ''42''))]), None),
                insert_post = \<lambda>p cr b pl. (Inr (Suc p, JObject [(pystr ''url'', JString (pystr ''u''))]), None)\<rparr> 0 (cred_after (svc_credential svc) u1) bid
       (mk_payload (JString (pystr ''T'')) (JString (pystr ''C'')) JNull JNull) =
     (Inr (1, JObject [(pystr ''url'', JString (pystr ''u''))]), u2))"
proof -
  have a: "post_to_blogger (load_config Map.empty) \<lparr>bl_consent = \<lambda>_ _. Inr \<lparr>access_token = pystr ''tok'', refresh_token = None, invalid = False\<rparr>, bl_build_error = None, bl_api = \<lparr>get_by_url = \<lambda>p cr u. (Inr (JObject [(pystr ''id'', JString (pystr ''42''))]), None),
                insert_post = \<lambda>p cr b pl. (Inr (Suc p, JObject [(pystr ''url'', JString (pystr ''u''))]), None)\<rparr>\<rparr>
     (JString (pystr ''T'')) (JString (pystr ''C'')) JNull JNull
     \<lparr>files = Map.empty, platform = 0::nat\<rparr> = (Inr (JObject [(pystr ''url'', JString (pystr ''u''))]),
     \<lparr>files = [pystr ''credentials.storage'' \<mapsto> \<lparr>access_token = pystr ''tok'', refresh_token = None, invalid = False\<rparr>], platform = 1::nat\<rparr>)"
    by (simp add: post_to_blogger_def get_blogger_service_def authorize_credentials_def run_flow_def
        get_blog_id_def store_refresh_def cred_after_def load_config_def env_get_def)
  from post_to_blogger_success [OF a] show ?thesis
    by (simp add: load_config_def env_get_def) blast
qed

end
