(* ===== verification/Blogger_Mem.thy ===== *)
theory Blogger_Mem
  imports Publisher
begin

text \<open>
  An in-memory Blogger platform implementing the \<open>blogger_api\<close> interface, after
  the documented behaviour of the Blogger v3 API that the code calls
  (\<^verbatim>\<open>blogs.getByUrl\<close>, \<^verbatim>\<open>posts.insert\<close>): the platform knows its blogs by
  URL, accepts a set of access tokens, and keeps the published posts in order.  A
  request with a token the platform does not accept gets HTTP 401; oauth2client, which
  wraps the \<^verbatim>\<open>Http\<close> the service uses, then refreshes the credential at the
  token endpoint (\<open>mem_refresh\<close>: a refresh token the endpoint knows gives a new
  access token) and writes the refreshed credential to its store, or, when the endpoint
  refuses, marks the credential \<^verbatim>\<open>invalid\<close>, writes that to its store and raises
  \<^verbatim>\<open>HttpAccessTokenRefreshError\<close>; after a refresh the request is sent once
  more, and a second rejection is an \<^verbatim>\<open>HttpError\<close> (\<open>mem_authorized\<close>).
  A post is only inserted into a known blog, and the post resource returned carries its \<^verbatim>\<open>id\<close> and \<^verbatim>\<open>url\<close>.
\<close>

record blogger_db =
  db_blogs :: "(ustr \<times> ustr) list"
  db_tokens :: "ustr list"
  db_refresh :: "(ustr \<times> ustr) list"
  db_posts :: "(ustr \<times> json) list"

definition mem_refresh :: "blogger_db \<Rightarrow> credential \<Rightarrow> (py_error + credential) \<times> credential option" where
  "mem_refresh db c =
     (case refresh_token c of
        Some rt \<Rightarrow>
          (case map_of (db_refresh db) rt of
             Some at \<Rightarrow> (Inr (c\<lparr>access_token := at\<rparr>), Some (c\<lparr>access_token := at\<rparr>))
           | None \<Rightarrow> (Inl TokenRefreshError, Some (c\<lparr>invalid := True\<rparr>)))
      | None \<Rightarrow> (Inl TokenRefreshError, Some (c\<lparr>invalid := True\<rparr>)))"

definition mem_authorized ::
  "blogger_db \<Rightarrow> credential \<Rightarrow> py_error + 'a \<Rightarrow> (py_error + 'a) \<times> credential option" where
  "mem_authorized db c res =
     (if access_token c \<in> set (db_tokens db) then (res, None)
      else case mem_refresh db c of
        (Inl e, u) \<Rightarrow> (Inl e, u)
      | (Inr c', u) \<Rightarrow> (if access_token c' \<in> set (db_tokens db) then res else Inl HttpError, u))"

definition mem_get_by_url :: "blogger_db \<Rightarrow> credential \<Rightarrow> ustr \<Rightarrow> (py_error + json) \<times> credential option" where
  "mem_get_by_url db cr url =
     mem_authorized db cr
       (case map_of (db_blogs db) url of
          None \<Rightarrow> Inl HttpError
        | Some bid \<Rightarrow> Inr (JObject [(pystr ''kind'', JString (pystr ''blogger#blog'')),
                                   (pystr ''id'', JString bid), (pystr ''url'', JString url)]))"

definition post_resource :: "nat \<Rightarrow> json" where
  "post_resource n =
     JObject [(pystr ''kind'', JString (pystr ''blogger#post'')), (pystr ''id'', JString (decimal n)),
              (pystr ''url'', JString (pystr ''https://www.blogger.com/p/'' @ decimal n))]"

definition mem_insert ::
  "blogger_db \<Rightarrow> credential \<Rightarrow> json \<Rightarrow> json \<Rightarrow> (py_error + (blogger_db \<times> json)) \<times> credential option" where
  "mem_insert db cr blog_id body =
     mem_authorized db cr
       (case blog_id of
          JString bid \<Rightarrow>
            if bid \<in> set (map snd (db_blogs db))
            then Inr (db\<lparr>db_posts := db_posts db @ [(bid, body)]\<rparr>, post_resource (length (db_posts db)))
            else Inl HttpError
        | _ \<Rightarrow> Inl HttpError)"

definition mem_api :: "blogger_db blogger_api" where
  "mem_api = \<lparr>get_by_url = mem_get_by_url, insert_post = mem_insert\<rparr>"

section \<open>Lemmas\<close>

lemma mem_api_ops [simp]:
  "get_by_url mem_api = mem_get_by_url" "insert_post mem_api = mem_insert"
  by (simp_all add: mem_api_def)

lemma mem_authorized_Inr:
  "mem_authorized db c res = (Inr x, u) \<Longrightarrow> res = Inr x"
  by (auto simp: mem_authorized_def split: if_splits prod.splits sum.splits)

lemma mem_authorized_refused:
  "access_token c \<notin> set (db_tokens db) \<Longrightarrow>
   (\<forall>rt. refresh_token c = Some rt \<longrightarrow> map_of (db_refresh db) rt = None) \<Longrightarrow>
   mem_authorized db c res = (Inl TokenRefreshError, Some (c\<lparr>invalid := True\<rparr>))"
  by (cases "refresh_token c") (simp_all add: mem_authorized_def mem_refresh_def)

lemma mem_insert_Inr:
  "mem_insert db cr b body = (Inr (db', post), u) \<Longrightarrow>
   \<exists>bid. b = JString bid \<and> bid \<in> set (map snd (db_blogs db)) \<and>
          db' = db\<lparr>db_posts := db_posts db @ [(bid, body)]\<rparr> \<and>
          post = post_resource (length (db_posts db))"
  unfolding mem_insert_def
  by (drule mem_authorized_Inr) (auto split: json.splits if_splits)

lemma post_resource_url [simp]:
  "py_getitem (post_resource n) (pystr ''url'') = Inr (JString (pystr ''https://www.blogger.com/p/'' @ decimal n))"
  by (simp add: post_resource_def)

lemma mem_get_by_url_id:
  "mem_get_by_url db cr url = (Inr blog, u) \<Longrightarrow>
   \<exists>bid. map_of (db_blogs db) url = Some bid \<and> py_getitem blog (pystr ''id'') = Inr (JString bid)"
  unfolding mem_get_by_url_def
  by (drule mem_authorized_Inr) (auto split: option.splits)

text \<open>Against the in-memory platform, \<^verbatim>\<open>post_to_blogger\<close> publishes exactly one
  post when it succeeds, the payload built from its arguments in the blog the configured
  URL names, and nothing when it fails; blogs and accepted tokens never change.\<close>

lemma mem_post_to_blogger:
  assumes "bl_api env = mem_api" and "post_to_blogger cfg env t c l i w = (r, w')"
  shows "case r of
           Inl _ \<Rightarrow> platform w' = platform w
         | Inr _ \<Rightarrow> (\<exists>bid. map_of (db_blogs (platform w)) (blog_url cfg) = Some bid \<and>
                       platform w' = (platform w)\<lparr>db_posts := db_posts (platform w) @ [(bid, mk_payload t c l i)]\<rparr>)"
  using assms(2)
proof (cases rule: post_to_blogger_cases [where cfg=cfg and env=env and w=w and t=t and c=c and l=l and i=i])
  case (inserted svc fs bid u1 p' post u2)
  from inserted(2) assms(1) obtain blog where
    g: "mem_get_by_url (platform w) (svc_credential svc) (blog_url cfg) = (Inr blog, u1)" and
    b: "py_getitem blog (pystr ''id'') = Inr bid"
    by (auto simp: get_blog_id_def split: prod.splits sum.splits)
  from mem_get_by_url_id [OF g] b obtain bs where
    m: "map_of (db_blogs (platform w)) (blog_url cfg) = Some bs" and bid: "bid = JString bs" by auto
  from inserted(3) assms(1) bid mem_insert_Inr have
    p': "p' = (platform w)\<lparr>db_posts := db_posts (platform w) @ [(bs, mk_payload t c l i)]\<rparr>" and
    post: "post = post_resource (length (db_posts (platform w)))"
    by fastforce+
  from post_to_blogger_inserted [OF inserted] assms(2) post have "r = Inr post" "platform w' = p'"
    by (auto simp: post_resource_def)
  with m p' show ?thesis by auto
qed (use assms(2) in \<open>auto simp: post_to_blogger_steps\<close>)

text \<open>
  C9. A stored credential that is not flagged invalid but whose access token the platform
  no longer accepts and cannot be refreshed (no refresh token, or one the token endpoint
  does not know) makes \<^verbatim>\<open>post_to_blogger\<close> fail with
  \<^verbatim>\<open>HttpAccessTokenRefreshError\<close> when it resolves the blog id, before anything
  is published; the credential is written back flagged invalid, so the next
  \<^verbatim>\<open>authorize_credentials\<close> runs the interactive consent flow whatever the
  stored credential was.
\<close>

theorem expired_token_forces_consent:
  assumes "bl_api env = mem_api" and "bl_build_error env = None"
    and "files w (storage_file cfg) = Some c" and "\<not> invalid c"
    and "access_token c \<notin> set (db_tokens (platform w))"
    and "\<forall>rt. refresh_token c = Some rt \<longrightarrow> map_of (db_refresh (platform w)) rt = None"
  shows "\<exists>w'. post_to_blogger cfg env t co l i w = (Inl TokenRefreshError, w') \<and>
           platform w' = platform w \<and> files w' (storage_file cfg) = Some (c\<lparr>invalid := True\<rparr>) \<and>
           (\<forall>consent. authorize_credentials cfg consent (files w') =
              run_flow consent (client_secret_file cfg) (scopes cfg) (storage_file cfg) (files w'))"
proof -
  have "valid_stored cfg (files w) c" using assms(3,4) by (simp add: valid_stored_def)
  then have s: "get_blogger_service cfg (bl_consent env) (bl_build_error env) (files w) =
                (Inr \<lparr>svc_credential = c\<rparr>, files w)"
    using assms(2) by (simp add: get_blogger_service_def authorize_cached)
  have "get_blog_id (bl_api env) (platform w) \<lparr>svc_credential = c\<rparr> (blog_url cfg) =
        (Inl TokenRefreshError, Some (c\<lparr>invalid := True\<rparr>))"
    using assms(1,5,6) by (simp add: get_blog_id_def mem_get_by_url_def mem_authorized_refused)
  from post_to_blogger_blog_id_Inl [OF s this] show ?thesis
    by (auto simp: store_refresh_def valid_stored_def intro!: authorize_flow)
qed

theorem expired_token_forces_consent_witness:
  "\<exists>w'. post_to_blogger (load_config Map.empty) \<lparr>bl_consent = \<lambda>_ _. Inl SystemExit, bl_build_error = None, bl_api = mem_api\<rparr> (JString []) (JString []) JNull JNull
          \<lparr>files = [pystr ''credentials.storage'' \<mapsto> \<lparr>access_token = pystr ''old'', refresh_token = None, invalid = False\<rparr>], platform = \<lparr>db_blogs = [(pystr ''https://chaibuzz.blogspot.com/'', pystr ''42'')],
             db_tokens = [pystr ''new''], db_refresh = [], db_posts = []\<rparr>\<rparr> = (Inl TokenRefreshError, w') \<and>
        platform w' = \<lparr>db_blogs = [(pystr ''https://chaibuzz.blogspot.com/'', pystr ''42'')],
             db_tokens = [pystr ''new''], db_refresh = [], db_posts = []\<rparr> \<and>
        files w' (storage_file (load_config Map.empty)) = Some (\<lparr>access_token = pystr ''old'', refresh_token = None, invalid = False\<rparr>\<lparr>invalid := True\<rparr>) \<and>
        (\<forall>consent. authorize_credentials (load_config Map.empty) consent (files w') =
           run_flow consent (client_secret_file (load_config Map.empty)) (scopes (load_config Map.empty))
             (storage_file (load_config Map.empty)) (files w'))"
proof -
  have "\<exists>w'. post_to_blogger (load_config Map.empty) \<lparr>bl_consent = \<lambda>_ _. Inl SystemExit, bl_build_error = None, bl_api = mem_api\<rparr> (JString []) (JString []) JNull JNull
            \<lparr>files = [pystr ''credentials.storage'' \<mapsto> \<lparr>access_token = pystr ''old'', refresh_token = None, invalid = False\<rparr>], platform = \<lparr>db_blogs = [(pystr ''https://chaibuzz.blogspot.com/'', pystr ''42'')],
               db_tokens = [pystr ''new''], db_refresh = [], db_posts = []\<rparr>\<rparr> = (Inl TokenRefreshError, w') \<and>
          platform w' = platform \<lparr>files = [pystr ''credentials.storage'' \<mapsto> \<lparr>access_token = pystr ''old'', refresh_token = None, invalid = False\<rparr>], platform = \<lparr>db_blogs = [(pystr ''https://chaibuzz.blogspot.com/'', pystr ''42'')],
               db_tokens = [pystr ''new''], db_refresh = [], db_posts = []\<rparr>\<rparr> \<and>
          files w' (storage_file (load_config Map.empty)) = Some (\<lparr>access_token = pystr ''old'', refresh_token = None, invalid = False\<rparr>\<lparr>invalid := True\<rparr>) \<and>
          (\<forall>consent. authorize_credentials (load_config Map.empty) consent (files w') =
             run_flow consent (client_secret_file (load_config Map.empty)) (scopes (load_config Map.empty))
               (storage_file (load_config Map.empty)) (files w'))"
    by (rule expired_token_forces_consent) (simp_all add: load_config_def env_get_def)
  then show ?thesis by simp
qed

end
