(* ===== verification/Bot.thy ===== *)
theory Bot
  imports News Synthesizer Blogger_Mem
begin

text \<open>
  The bot driver and its HTTP route (\<^verbatim>\<open>run_bot\<close> and \<^verbatim>\<open>run_endpoint\<close>,
  \<^verbatim>\<open>src/news_bot.py\<close> lines 153--178).  One run fetches 30 articles from India,
  asks Gemini for a post, looks for the image of the article the model names, evaluates
  the arguments of \<^verbatim>\<open>post_to_blogger\<close> left to right and publishes.  Every
  exception propagates; Flask turns it into an HTTP 500 response, except
  \<^verbatim>\<open>SystemExit\<close>, which drops the connection.  The run's effects are
  those of \<^verbatim>\<open>post_to_blogger\<close>: the steps before it only read.
\<close>

record 'p bot_env =
  news :: "search_request \<Rightarrow> news_outcome"
  draw :: nat
  llm :: gemini
  json_room :: nat
  blogger :: "'p blogger_env"

text \<open>Lines 160--164: the first article whose \<^verbatim>\<open>str(art.get("id"))\<close> equals
  \<^verbatim>\<open>str(gemini_output["image_source_id"])\<close> ends the loop, with its image if it
  has a truthy one and with none otherwise.\<close>

fun find_image :: "json list \<Rightarrow> json \<Rightarrow> py_error + json" where
  "find_image [] aid = Inr JNull"
| "find_image (art # arts) aid =
     (case py_get art (pystr ''id'') JNull of
        Inl e \<Rightarrow> Inl e
      | Inr i \<Rightarrow>
          if str_eq aid i then
            (case py_get art (pystr ''image'') JNull of
               Inl e \<Rightarrow> Inl e
             | Inr img \<Rightarrow> if truthy img then py_getitem art (pystr ''image'') else Inr JNull)
          else find_image arts aid)"

text \<open>Lines 158--164: \<^verbatim>\<open>image_url\<close> stays \<^verbatim>\<open>None\<close> unless the output has a
  truthy \<^verbatim>\<open>image_source_id\<close>; \<^verbatim>\<open>.get\<close> raises \<^verbatim>\<open>AttributeError\<close>
  when the model's JSON is not an object.\<close>

definition select_image :: "json \<Rightarrow> json list \<Rightarrow> py_error + json" where
  "select_image out articles =
     (case py_get out (pystr ''image_source_id'') JNull of
        Inl e \<Rightarrow> Inl e
      | Inr aid \<Rightarrow> if truthy aid then find_image articles aid else Inr JNull)"

definition run_bot :: "config \<Rightarrow> 'p bot_env \<Rightarrow> 'p world \<Rightarrow> (py_error + unit) \<times> 'p world" where
  "run_bot cfg env w =
     (case fetch_random_news (news env) (draw env) 30 (pystr ''in'') of
        Inl e \<Rightarrow> (Inl e, w)
      | Inr articles \<Rightarrow>
     (case generate_post (llm env) (json_room env) articles of
        Inl e \<Rightarrow> (Inl e, w)
      | Inr out \<Rightarrow>
     (case select_image out articles of
        Inl e \<Rightarrow> (Inl e, w)
      | Inr image_url \<Rightarrow>
     (case py_getitem out (pystr ''title'') of
        Inl e \<Rightarrow> (Inl e, w)
      | Inr title \<Rightarrow>
     (case py_getitem out (pystr ''content'') of
        Inl e \<Rightarrow> (Inl e, w)
      | Inr content \<Rightarrow>
     (case py_get out (pystr ''labels'') (JArray []) of
        Inl e \<Rightarrow> (Inl e, w)
      | Inr labels \<Rightarrow>
     (case post_to_blogger cfg (blogger env) title content labels image_url w of
        (Inl e, w') \<Rightarrow> (Inl e, w')
      | (Inr _, w') \<Rightarrow> (Inr (), w'))))))))"

text \<open>What the client of \<^verbatim>\<open>/run\<close> receives.  Flask turns an \<^verbatim>\<open>Exception\<close>
  into a 500 response; \<^verbatim>\<open>SystemExit\<close> is not an \<^verbatim>\<open>Exception\<close>, so it escapes
  Flask and the server's request handler, which closes the connection without an
  answer.\<close>

datatype http_response = Http_OK ustr | Http_Internal_Server_Error py_error | Connection_Dropped

text \<open>The string returned on line 178: U+2705 (code point 9989), then the ASCII text
  \<^verbatim>\<open>" Bot run completed!"\<close>.\<close>

definition completed_msg :: ustr where
  "completed_msg = 9989 # pystr '' Bot run completed!''"

definition run_endpoint :: "config \<Rightarrow> 'p bot_env \<Rightarrow> 'p world \<Rightarrow> http_response \<times> 'p world" where
  "run_endpoint cfg env w =
     (case run_bot cfg env w of
        (Inl e, w') \<Rightarrow> (if e = SystemExit then Connection_Dropped else Http_Internal_Server_Error e, w')
      | (Inr _, w') \<Rightarrow> (Http_OK completed_msg, w'))"

text \<open>The arguments \<^verbatim>\<open>run_bot\<close> hands to \<^verbatim>\<open>post_to_blogger\<close> (lines
  155--170), or the exception raised while computing them.\<close>

definition bot_inputs :: "'p bot_env \<Rightarrow> py_error + (json \<times> json \<times> json \<times> json)" where
  "bot_inputs env =
     (case fetch_random_news (news env) (draw env) 30 (pystr ''in'') of
        Inl e \<Rightarrow> Inl e
      | Inr articles \<Rightarrow>
     (case generate_post (llm env) (json_room env) articles of
        Inl e \<Rightarrow> Inl e
      | Inr out \<Rightarrow>
     (case select_image out articles of
        Inl e \<Rightarrow> Inl e
      | Inr image_url \<Rightarrow>
     (case py_getitem out (pystr ''title'') of
        Inl e \<Rightarrow> Inl e
      | Inr title \<Rightarrow>
     (case py_getitem out (pystr ''content'') of
        Inl e \<Rightarrow> Inl e
      | Inr content \<Rightarrow>
     (case py_get out (pystr ''labels'') (JArray []) of
        Inl e \<Rightarrow> Inl e
      | Inr labels \<Rightarrow> Inr (title, content, labels, image_url)))))))"

section \<open>Lemmas\<close>

lemma run_bot_inputs:
  "run_bot cfg env w =
     (case bot_inputs env of
        Inl e \<Rightarrow> (Inl e, w)
      | Inr (title, content, labels, image_url) \<Rightarrow>
          (case post_to_blogger cfg (blogger env) title content labels image_url w of
             (Inl e, w') \<Rightarrow> (Inl e, w')
           | (Inr _, w') \<Rightarrow> (Inr (), w')))"
  unfolding run_bot_def bot_inputs_def
  by (simp split: sum.split)

lemma find_image_skip:
  "\<forall>a\<in>set pre. \<exists>i. py_get a (pystr ''id'') JNull = Inr i \<and> \<not> str_eq aid i \<Longrightarrow>
   find_image (pre @ arts) aid = find_image arts aid"
  by (induction pre) auto

lemma bot_inputs_Inr:
  "bot_inputs env = Inr (title, content, labels, image_url) \<longleftrightarrow>
   (\<exists>articles out.
      fetch_random_news (news env) (draw env) 30 (pystr ''in'') = Inr articles \<and>
      generate_post (llm env) (json_room env) articles = Inr out \<and>
      select_image out articles = Inr image_url \<and>
      py_getitem out (pystr ''title'') = Inr title \<and>
      py_getitem out (pystr ''content'') = Inr content \<and>
      py_get out (pystr ''labels'') (JArray []) = Inr labels)"
  unfolding bot_inputs_def by (auto split: sum.splits)

text \<open>
  C14. When the model names an image source that no fetched article's id matches (as
  \<^verbatim>\<open>str\<close>), no image is selected: \<^verbatim>\<open>post_to_blogger\<close> gets
  \<^verbatim>\<open>image_url=None\<close>.
\<close>

theorem select_image_no_match:
  assumes "\<forall>art\<in>set articles. \<exists>i. py_get art (pystr ''id'') JNull = Inr i \<and> \<not> str_eq aid i"
    and "map_of ps (pystr ''image_source_id'') = Some aid"
  shows "select_image (JObject ps) articles = Inr JNull"
  using find_image_skip [OF assms(1), of "[]"] assms(2) by (simp add: select_image_def)

text \<open>
  C15. The image loop stops at the first article whose id matches: the image is that
  article's when it is truthy, and none otherwise, even when a later article with the
  same id has one.
\<close>

theorem find_image_first_match:
  assumes "\<forall>a\<in>set pre. \<exists>i. py_get a (pystr ''id'') JNull = Inr i \<and> \<not> str_eq aid i"
    and "py_get (JObject qs) (pystr ''id'') JNull = Inr i" and "str_eq aid i"
  shows "find_image (pre @ JObject qs # post) aid =
           Inr (case map_of qs (pystr ''image'') of
                  Some img \<Rightarrow> if truthy img then img else JNull
                | None \<Rightarrow> JNull)"
  using find_image_skip [OF assms(1)] assms(2,3) by (simp split: option.split)


text \<open>
  C16. A model answer that is a JSON object without \<^verbatim>\<open>title\<close> makes the run fail
  with \<^verbatim>\<open>KeyError('title')\<close>, and nothing is published.
\<close>

theorem run_bot_missing_title:
  assumes "fetch_random_news (news env) (draw env) 30 (pystr ''in'') = Inr articles"
    and "generate_post (llm env) (json_room env) articles = Inr (JObject ps)"
    and "select_image (JObject ps) articles = Inr image_url"
    and "map_of ps (pystr ''title'') = None"
  shows "run_bot cfg env w = (Inl (KeyError (pystr ''title'')), w)"
  using assms by (simp add: run_bot_def)

text \<open>
  C1. Against the in-memory Blogger, one run of the bot publishes at most one post:
  a failed run publishes nothing, and a successful one exactly the payload built from the
  model's \<^verbatim>\<open>title\<close>, \<^verbatim>\<open>content\<close>, \<^verbatim>\<open>labels\<close> and the selected image,
  in the blog of the configured URL.
\<close>

theorem run_bot_publishes_at_most_once:
  assumes "bl_api (blogger env) = mem_api" and "run_bot cfg env w = (r, w')"
  shows "case r of
           Inl _ \<Rightarrow> platform w' = platform w
         | Inr _ \<Rightarrow>
             (\<exists>title content labels img bid.
                bot_inputs env = Inr (title, content, labels, img) \<and>
                map_of (db_blogs (platform w)) (blog_url cfg) = Some bid \<and>
                platform w' = (platform w)\<lparr>db_posts :=
                  db_posts (platform w) @ [(bid, mk_payload title content labels img)]\<rparr>)"
proof (cases "bot_inputs env")
  case (Inl e)
  with assms(2) show ?thesis by (auto simp: run_bot_inputs)
next
  case (Inr args)
  then obtain title content labels img where
    args: "bot_inputs env = Inr (title, content, labels, img)" by (cases args) auto
  obtain r0 where p: "post_to_blogger cfg (blogger env) title content labels img w = (r0, w')"
    using assms(2) args by (simp add: run_bot_inputs split: prod.splits sum.splits)
  have r: "r = (case r0 of Inl e \<Rightarrow> Inl e | Inr _ \<Rightarrow> Inr ())"
    using assms(2) args p by (simp add: run_bot_inputs split: sum.splits)
  from mem_post_to_blogger [OF assms(1) p] args r show ?thesis
    by (auto split: sum.splits)
qed

text \<open>
  C17. When the run reaches \<^verbatim>\<open>post_to_blogger\<close> with no valid stored credential
  and the exchange of the verification code fails (\<^verbatim>\<open>run_flow\<close> calls
  \<^verbatim>\<open>sys.exit\<close>), the route gives no HTTP response at all: the connection is
  dropped, and neither the credential store nor the platform changes.
\<close>

theorem run_endpoint_flow_exit:
  assumes "bot_inputs env = Inr args" and "\<forall>c. \<not> valid_stored cfg (files w) c"
    and "bl_consent (blogger env) (client_secret_file cfg) (scopes cfg) = Inl SystemExit"
  shows "run_endpoint cfg env w = (Connection_Dropped, w)"
proof -
  obtain t co l i where a: "args = (t, co, l, i)" by (cases args) auto
  have "get_blogger_service cfg (bl_consent (blogger env)) (bl_build_error (blogger env)) (files w) =
        (Inl SystemExit, files w)"
    using assms(2,3) by (simp add: get_blogger_service_def authorize_flow run_flow_def)
  from post_to_blogger_service_Inl [OF this] assms(1) a show ?thesis
    by (simp add: run_endpoint_def run_bot_inputs)
qed

section \<open>Examples\<close>

theorem select_image_no_match_witness:
  "select_image (JObject [(pystr ''image_source_id'', JInt 2)])
     [JObject [(pystr ''id'', JInt 1), (pystr ''image'', JString (pystr ''img''))]] = Inr JNull"
  by (rule select_image_no_match) simp_all

theorem find_image_first_match_witness:
  "find_image [JObject [(pystr ''id'', JInt 7)],
               JObject [(pystr ''id'', JInt 7), (pystr ''image'', JString (pystr ''x''))]] (JInt 7) = Inr JNull"
  using find_image_first_match [of "[]" "JInt 7" "[(pystr ''id'', JInt 7)]" "JInt 7"
      "[JObject [(pystr ''id'', JInt 7), (pystr ''image'', JString (pystr ''x''))]]"]
  by simp


theorem run_bot_missing_title_witness:
  \<open>run_bot (load_config Map.empty)
     \<lparr>news = \<lambda>_. NewsApiException, draw = 0, llm = \<lambda>_ _. Inr (Some (pystr ''{"content": "c"}'')), json_room = 100,
      blogger = \<lparr>bl_consent = \<lambda>_ _. Inl AuthFlowError, bl_build_error = None,
                 bl_api = \<lparr>get_by_url = \<lambda>_ _ _. (Inl HttpError, None), insert_post = \<lambda>_ _ _ _. (Inl HttpError, None)\<rparr>\<rparr>\<rparr>
     \<lparr>files = Map.empty, platform = ()\<rparr> = (Inl (KeyError (pystr ''title'')), \<lparr>files = Map.empty, platform = ()\<rparr>)\<close>
proof -
  have l: \<open>json_loads 100 (pystr ''{"content": "c"}'') = Inr (JObject [(pystr ''content'', JString (pystr ''c''))])\<close>
    by code_simp
  show ?thesis
    by (rule run_bot_missing_title [where articles = "[]" and ps = "[(pystr ''content'', JString (pystr ''c''))]"])
       (simp_all add: fetch_random_news_def generate_post_def parse_model_output_def l [simplified]
         select_image_def)
qed

lemma empty_answer_inputs:
  \<open>bot_inputs \<lparr>news = \<lambda>_. NewsApiException, draw = 0,
      llm = \<lambda>_ _. Inr (Some (pystr ''{"title": "", "content": ""}'')), json_room = 100,
      blogger = \<lparr>bl_consent = \<lambda>_ _. Inr \<lparr>access_token = pystr ''tok'', refresh_token = None, invalid = False\<rparr>,
                 bl_build_error = None, bl_api = mem_api\<rparr>\<rparr> = Inr (JString [], JString [], JArray [], JNull)\<close>
proof -
  have l: \<open>json_loads 100 (pystr ''{"title": "", "content": ""}'') =
           Inr (JObject [(pystr ''title'', JString []), (pystr ''content'', JString [])])\<close>
    by code_simp
  show ?thesis
    by (simp add: bot_inputs_def fetch_random_news_def generate_post_def parse_model_output_def
        l [simplified] select_image_def)
qed

theorem run_bot_publishes_at_most_once_witness:
  \<open>db_posts (platform (snd (run_bot (load_config Map.empty) \<lparr>news = \<lambda>_. NewsApiException, draw = 0,
      llm = \<lambda>_ _. Inr (Some (pystr ''{"title": "", "content": ""}'')), json_room = 100,
      blogger = \<lparr>bl_consent = \<lambda>_ _. Inr \<lparr>access_token = pystr ''tok'', refresh_token = None, invalid = False\<rparr>,
                 bl_build_error = None, bl_api = mem_api\<rparr>\<rparr> \<lparr>files = Map.empty,
      platform = \<lparr>db_blogs = [(pystr ''https://chaibuzz.blogspot.com/'', pystr ''42'')],
                  db_tokens = [pystr ''tok''], db_refresh = [], db_posts = []\<rparr>\<rparr>))) =
     [(pystr ''42'', mk_payload (JString []) (JString []) (JArray []) JNull)]\<close>
proof -
  obtain r w' where a: \<open>run_bot (load_config Map.empty) \<lparr>news = \<lambda>_. NewsApiException, draw = 0,
      llm = \<lambda>_ _. Inr (Some (pystr ''{"title": "", "content": ""}'')), json_room = 100,
      blogger = \<lparr>bl_consent = \<lambda>_ _. Inr \<lparr>access_token = pystr ''tok'', refresh_token = None, invalid = False\<rparr>,
                 bl_build_error = None, bl_api = mem_api\<rparr>\<rparr> \<lparr>files = Map.empty,
      platform = \<lparr>db_blogs = [(pystr ''https://chaibuzz.blogspot.com/'', pystr ''42'')],
                  db_tokens = [pystr ''tok''], db_refresh = [], db_posts = []\<rparr>\<rparr> = (r, w')\<close> by fastforce
  have "r = Inr ()"
    using a empty_answer_inputs
    by (simp add: run_bot_inputs post_to_blogger_def get_blogger_service_def authorize_credentials_def
        run_flow_def get_blog_id_def store_refresh_def cred_after_def load_config_def env_get_def mem_get_by_url_def mem_authorized_def
        mem_insert_def post_resource_def)
  with run_bot_publishes_at_most_once [OF _ a] a empty_answer_inputs show ?thesis
    by (auto simp: load_config_def env_get_def)
qed

theorem run_endpoint_flow_exit_witness:
  \<open>run_endpoint (load_config Map.empty)
     \<lparr>news = \<lambda>_. NewsApiException, draw = 0,
      llm = \<lambda>_ _. Inr (Some (pystr ''{"title": "", "content": ""}'')), json_room = 100,
      blogger = \<lparr>bl_consent = \<lambda>_ _. Inl SystemExit, bl_build_error = None, bl_api = mem_api\<rparr>\<rparr>
     \<lparr>files = Map.empty, platform = \<lparr>db_blogs = [], db_tokens = [], db_refresh = [], db_posts = []\<rparr>\<rparr> =
   (Connection_Dropped, \<lparr>files = Map.empty, platform = \<lparr>db_blogs = [], db_tokens = [], db_refresh = [], db_posts = []\<rparr>\<rparr>)\<close>
proof -
  have l: \<open>json_loads 100 (pystr ''{"title": "", "content": ""}'') =
           Inr (JObject [(pystr ''title'', JString []), (pystr ''content'', JString [])])\<close>
    by code_simp
  show ?thesis
    by (rule run_endpoint_flow_exit [where args = "(JString [], JString [], JArray [], JNull)"])
       (simp_all add: bot_inputs_def fetch_random_news_def generate_post_def parse_model_output_def
         l [simplified] select_image_def valid_stored_def)
qed

end
