(* ===== verification/Concurrency.thy ===== *)
theory Concurrency
  imports Bot
begin

text \<open>
  Overlapping requests to \<^verbatim>\<open>/run\<close>.  The Flask server may run several requests at
  once, and nothing in \<^verbatim>\<open>src/news_bot.py\<close> coordinates them: the only shared state
  is the credential store file and the Blogger platform.  One request is cut into the
  atomic steps that touch that state, in source order: computing the inputs (fetch,
  generate, image, \<^verbatim>\<open>title\<close>/\<^verbatim>\<open>content\<close>/\<^verbatim>\<open>labels\<close>, lines 155--170,
  which read no shared state), \<^verbatim>\<open>storage.get()\<close> (line 36), the consent flow and its
  \<^verbatim>\<open>storage.put\<close> (lines 39--40), \<^verbatim>\<open>discovery.build\<close> and
  \<^verbatim>\<open>getByUrl\<close> (lines 48 and 54), and \<^verbatim>\<open>posts().insert\<close> with the read of
  \<^verbatim>\<open>post['url']\<close> (lines 148--149); the last two also write the credential
  oauth2client refreshes during the request back to the store, and the request goes on
  with the refreshed credential.  A configuration is the list of the requests' local
  states with the shared world; a step of the system is a step of any one request
  (the interleaving rule of \<open>conc_step\<close> updates the stepping request's slot with
  \<open>ls[i := l']\<close>, as the parallel rule of the Owicki-Gries transition semantics
  does).  One behaviour of oauth2client is not modelled: before refreshing, it re-reads
  the store and adopts a valid credential with a different token that another request
  stored there; in a single run the store holds the credential being refreshed, so
  this changes nothing for \<^verbatim>\<open>post_to_blogger\<close> itself.
\<close>

type_synonym post_args = "json \<times> json \<times> json \<times> json"

datatype req_state =
    Start
  | Ready post_args
  | NeedFlow post_args
  | Authorized post_args credential
  | HaveBlog post_args credential json
  | Done
  | Failed py_error

fun req_step :: "config \<Rightarrow> 'p bot_env \<Rightarrow> req_state \<Rightarrow> 'p world \<Rightarrow> (req_state \<times> 'p world) option" where
  "req_step cfg env Start w =
     Some (case bot_inputs env of Inl e \<Rightarrow> Failed e | Inr a \<Rightarrow> Ready a, w)"
| "req_step cfg env (Ready a) w =
     Some (case files w (storage_file cfg) of
             Some c \<Rightarrow> if invalid c then NeedFlow a else Authorized a c
           | None \<Rightarrow> NeedFlow a, w)"
| "req_step cfg env (NeedFlow a) w =
     Some (case bl_consent (blogger env) (client_secret_file cfg) (scopes cfg) of
             Inl e \<Rightarrow> (Failed e, w)
           | Inr c \<Rightarrow> (Authorized a c, w\<lparr>files := (files w)(storage_file cfg \<mapsto> c)\<rparr>))"
| "req_step cfg env (Authorized a c) w =
     (case bl_build_error (blogger env) of
        Some e \<Rightarrow> Some (Failed e, w)
      | None \<Rightarrow>
          (case get_blog_id (bl_api (blogger env)) (platform w) \<lparr>svc_credential = c\<rparr> (blog_url cfg) of
             (Inl e, u) \<Rightarrow> Some (Failed e, w\<lparr>files := store_refresh cfg u (files w)\<rparr>)
           | (Inr bid, u) \<Rightarrow> Some (HaveBlog a (cred_after c u) bid, w\<lparr>files := store_refresh cfg u (files w)\<rparr>)))"
| "req_step cfg env (HaveBlog (t, co, l, i) c bid) w =
     (case insert_post (bl_api (blogger env)) (platform w) c bid (mk_payload t co l i) of
        (Inl e, u) \<Rightarrow> Some (Failed e, w\<lparr>files := store_refresh cfg u (files w)\<rparr>)
      | (Inr (p', post), u) \<Rightarrow>
          Some ((case py_getitem post (pystr ''url'') of Inl e \<Rightarrow> Failed e | Inr _ \<Rightarrow> Done),
                \<lparr>files = store_refresh cfg u (files w), platform = p'\<rparr>))"
| "req_step cfg env Done w = None"
| "req_step cfg env (Failed e) w = None"

text \<open>Request \<open>i\<close> runs with its own oracles \<open>envs i\<close> (each request draws its own
  category and gets its own model answer).\<close>

inductive conc_step :: "config \<Rightarrow> (nat \<Rightarrow> 'p bot_env) \<Rightarrow> req_state list \<times> 'p world \<Rightarrow> req_state list \<times> 'p world \<Rightarrow> bool"
  for cfg envs where
  step: "i < length ls \<Longrightarrow> req_step cfg (envs i) (ls ! i) w = Some (l', w') \<Longrightarrow>
         conc_step cfg envs (ls, w) (ls[i := l'], w')"

text \<open>An explicit interleaving: the indices of the requests that step, in order.\<close>

fun sched_exec ::
  "config \<Rightarrow> (nat \<Rightarrow> 'p bot_env) \<Rightarrow> nat list \<Rightarrow> req_state list \<times> 'p world \<Rightarrow> (req_state list \<times> 'p world) option" where
  "sched_exec cfg envs [] c = Some c"
| "sched_exec cfg envs (i # is) (ls, w) =
     (if i < length ls then
        (case req_step cfg (envs i) (ls ! i) w of
           None \<Rightarrow> None
         | Some (l', w') \<Rightarrow> sched_exec cfg envs is (ls[i := l'], w'))
      else None)"

text \<open>One request run alone, step after step, with fuel.\<close>

fun req_exec :: "nat \<Rightarrow> config \<Rightarrow> 'p bot_env \<Rightarrow> req_state \<Rightarrow> 'p world \<Rightarrow> req_state \<times> 'p world" where
  "req_exec 0 cfg env l w = (l, w)"
| "req_exec (Suc n) cfg env l w =
     (case req_step cfg env l w of None \<Rightarrow> (l, w) | Some (l', w') \<Rightarrow> req_exec n cfg env l' w')"

section \<open>Lemmas\<close>

lemma req_exec_Some:
  "req_step cfg env l w = Some (l', w') \<Longrightarrow> req_exec (Suc n) cfg env l w = req_exec n cfg env l' w'"
  by simp

lemma req_exec_final [simp]:
  "req_exec n cfg env Done w = (Done, w)" "req_exec n cfg env (Failed e) w = (Failed e, w)"
  by (cases n; simp)+

text \<open>From an authorised request, two steps finish the run as the tail of
  \<^verbatim>\<open>post_to_blogger\<close> after the service is built.\<close>

lemma req_exec_Authorized:
  "req_exec (Suc (Suc n)) cfg env (Authorized (t, co, l, i) c) w =
     (case bl_build_error (blogger env) of
        Some e \<Rightarrow> (Failed e, w)
      | None \<Rightarrow>
          (case get_blog_id (bl_api (blogger env)) (platform w) \<lparr>svc_credential = c\<rparr> (blog_url cfg) of
             (Inl e, u1) \<Rightarrow> (Failed e, w\<lparr>files := store_refresh cfg u1 (files w)\<rparr>)
           | (Inr bid, u1) \<Rightarrow>
               (case insert_post (bl_api (blogger env)) (platform w) (cred_after c u1) bid (mk_payload t co l i) of
                  (Inl e, u2) \<Rightarrow> (Failed e, w\<lparr>files := store_refresh cfg u2 (store_refresh cfg u1 (files w))\<rparr>)
                | (Inr (p', post), u2) \<Rightarrow>
                    ((case py_getitem post (pystr ''url'') of Inl e \<Rightarrow> Failed e | Inr _ \<Rightarrow> Done),
                     \<lparr>files = store_refresh cfg u2 (store_refresh cfg u1 (files w)), platform = p'\<rparr>))))"
proof (cases "bl_build_error (blogger env)")
  case None
  obtain rb u1 where b: "get_blog_id (bl_api (blogger env)) (platform w) \<lparr>svc_credential = c\<rparr> (blog_url cfg) = (rb, u1)"
    by fastforce
  show ?thesis
  proof (cases rb)
    case (Inr bid)
    obtain ri u2 where "insert_post (bl_api (blogger env)) (platform w) (cred_after c u1) bid (mk_payload t co l i) = (ri, u2)"
      by fastforce
    with None b Inr show ?thesis by (simp split: sum.split)
  qed (use None b in simp)
qed simp

lemma req_exec_Ready:
  "req_exec 4 cfg env (Ready (t, co, l, i)) w =
     (case post_to_blogger cfg (blogger env) t co l i w of
        (Inl e, w') \<Rightarrow> (Failed e, w')
      | (Inr _, w') \<Rightarrow> (Done, w'))"
proof (cases "\<exists>c. valid_stored cfg (files w) c")
  case True
  then obtain c where v: "valid_stored cfg (files w) c" by blast
  then have "req_step cfg env (Ready (t, co, l, i)) w = Some (Authorized (t, co, l, i) c, w)"
    by (simp add: valid_stored_def)
  then have "req_exec 4 cfg env (Ready (t, co, l, i)) w = req_exec 3 cfg env (Authorized (t, co, l, i) c) w"
    by (simp add: numeral_eq_Suc req_exec_Some del: req_exec.simps)
  also have "\<dots> = req_exec (Suc (Suc (Suc 0))) cfg env (Authorized (t, co, l, i) c) w"
    by (simp add: numeral_eq_Suc del: req_exec.simps)
  also note req_exec_Authorized
  finally show ?thesis using v
    by (simp add: post_to_blogger_def get_blogger_service_def authorize_cached
        split: option.split prod.split sum.split del: req_exec.simps)
next
  case False
  then have r: "req_step cfg env (Ready (t, co, l, i)) w = Some (NeedFlow (t, co, l, i), w)"
    by (cases "files w (storage_file cfg)") (auto simp: valid_stored_def)
  show ?thesis
  proof (cases "bl_consent (blogger env) (client_secret_file cfg) (scopes cfg)")
    case (Inl e)
    with r False show ?thesis
      by (simp add: numeral_eq_Suc post_to_blogger_def get_blogger_service_def authorize_flow run_flow_def)
  next
    case (Inr c)
    with r have "req_exec 4 cfg env (Ready (t, co, l, i)) w =
                 req_exec 2 cfg env (Authorized (t, co, l, i) c) (w\<lparr>files := (files w)(storage_file cfg \<mapsto> c)\<rparr>)"
      by (simp add: numeral_eq_Suc req_exec_Some del: req_exec.simps)
    also have "\<dots> = req_exec (Suc (Suc 0)) cfg env (Authorized (t, co, l, i) c) (w\<lparr>files := (files w)(storage_file cfg \<mapsto> c)\<rparr>)"
      by (simp add: numeral_eq_Suc del: req_exec.simps)
    also note req_exec_Authorized
    finally show ?thesis using Inr False
      by (simp add: post_to_blogger_def get_blogger_service_def authorize_flow run_flow_def
          split: option.split prod.split sum.split del: req_exec.simps)
  qed
qed

lemma sched_exec_append:
  "sched_exec cfg envs (is @ js) c =
     (case sched_exec cfg envs is c of None \<Rightarrow> None | Some c' \<Rightarrow> sched_exec cfg envs js c')"
  by (induction cfg envs "is" c rule: sched_exec.induct) (auto split: option.split)

lemma sched_exec_single_step:
  "sched_exec cfg envs [i] c = Some c' \<Longrightarrow> conc_step cfg envs c c'"
  by (cases c) (auto simp: conc_step.simps split: if_splits option.splits)

lemma conc_step_sched:
  "conc_step cfg envs c c' \<Longrightarrow> \<exists>i. sched_exec cfg envs [i] c = Some c'"
proof (induction rule: conc_step.induct)
  case (step i ls w l' w')
  then have "sched_exec cfg envs [i] (ls, w) = Some (ls[i := l'], w')" by simp
  then show ?case by blast
qed

lemma length_conc_step: "conc_step cfg envs c c' \<Longrightarrow> length (fst c') = length (fst c)"
  by (induction rule: conc_step.induct) simp

lemma length_filter_update:
  "i < length ls \<Longrightarrow>
   length (filter P (ls[i := x])) + (if P (ls ! i) then 1 else 0) =
   length (filter P ls) + (if P x then 1 else 0)"
proof (induction ls arbitrary: i)
  case Nil
  then show ?case by simp
next
  case (Cons y ys)
  show ?case
  proof (cases i)
    case 0
    then show ?thesis by simp
  next
    case (Suc j)
    with Cons.prems have "j < length ys" by simp
    with Cons.IH [of j] Suc show ?thesis by simp
  qed
qed

lemma sched_exec_reach:
  "sched_exec cfg envs is c = Some c' \<Longrightarrow> (conc_step cfg envs)\<^sup>*\<^sup>* c c'"
proof (induction "is" arbitrary: c)
  case Nil
  then show ?case by simp
next
  case (Cons i "is")
  then obtain c1 where c1: "sched_exec cfg envs [i] c = Some c1" and r: "sched_exec cfg envs is c1 = Some c'"
    using sched_exec_append [of cfg envs "[i]" "is" c] by (auto split: option.splits)
  from sched_exec_single_step [OF c1] Cons.IH [OF r] show ?case
    by (rule converse_rtranclp_into_rtranclp)
qed

lemma reach_sched_exec:
  "(conc_step cfg envs)\<^sup>*\<^sup>* c c' \<Longrightarrow> \<exists>is. sched_exec cfg envs is c = Some c'"
proof (induction rule: rtranclp_induct)
  case base
  have "sched_exec cfg envs [] c = Some c" by simp
  then show ?case by blast
next
  case (step c1 c2)
  then obtain "is" i where "sched_exec cfg envs is c = Some c1" "sched_exec cfg envs [i] c1 = Some c2"
    using conc_step_sched by blast
  then have "sched_exec cfg envs (is @ [i]) c = Some c2" by (simp add: sched_exec_append)
  then show ?case by blast
qed

text \<open>What one step of a request does to the posts of the in-memory platform: only the
  insert step changes them, by one post, and it ends the request with \<open>Done\<close>.\<close>

lemma req_step_mem_posts:
  assumes "bl_api (blogger env) = mem_api" and "req_step cfg env l w = Some (l', w')"
  shows "l \<noteq> Done \<and>
         ((\<exists>x. db_posts (platform w') = db_posts (platform w) @ [x] \<and> l' = Done) \<or>
          (db_posts (platform w') = db_posts (platform w) \<and> l' \<noteq> Done))"
proof (cases l)
  case (HaveBlog a c bid)
  obtain t co li i where "a = (t, co, li, i)" by (cases a) auto
  with HaveBlog assms show ?thesis
    by (auto simp: mem_insert_def mem_authorized_def post_resource_def
        split: if_splits json.splits prod.splits sum.splits)
qed (use assms in \<open>auto split: sum.splits option.splits if_splits prod.splits\<close>)

lemma conc_step_mem_posts:
  assumes "\<forall>i. bl_api (blogger (envs i)) = mem_api" and "conc_step cfg envs (ls, w) (ls', w')"
    and "db_posts (platform w) = P0 @ new" and "length new = length (filter (\<lambda>l. l = Done) ls)"
  shows "\<exists>new'. db_posts (platform w') = P0 @ new' \<and> length new' = length (filter (\<lambda>l. l = Done) ls') \<and>
           length ls' = length ls"
proof -
  from assms(2) obtain i l' where i: "i < length ls" and r: "req_step cfg (envs i) (ls ! i) w = Some (l', w')"
    and ls': "ls' = ls[i := l']"
    by (auto elim: conc_step.cases)
  have f: "length (filter (\<lambda>l. l = Done) (ls[i := l'])) + (if ls ! i = Done then 1 else 0) =
           length (filter (\<lambda>l. l = Done) ls) + (if l' = Done then 1 else 0)"
    using i by (rule length_filter_update)
  from req_step_mem_posts [OF assms(1) [rule_format] r]
  consider (ins) x where "db_posts (platform w') = db_posts (platform w) @ [x]" "l' = Done" "ls ! i \<noteq> Done"
         | (same) "db_posts (platform w') = db_posts (platform w)" "l' \<noteq> Done" "ls ! i \<noteq> Done"
    by blast
  then show ?thesis
  proof cases
    case ins
    with f ls' assms(3,4) show ?thesis by (intro exI [of _ "new @ [x]"]) simp
  next
    case same
    with f ls' assms(3,4) show ?thesis by (intro exI [of _ new]) simp
  qed
qed

text \<open>One request run alone through the step semantics ends exactly as
  \<^verbatim>\<open>run_bot\<close> does: \<open>Done\<close> with the run's final state when it succeeds, and
  \<open>Failed e\<close> with the state it left when it raises \<open>e\<close>; five steps are enough.\<close>

theorem run_bot_as_steps:
  "req_exec 5 cfg env Start w =
     (case run_bot cfg env w of
        (Inl e, w') \<Rightarrow> (Failed e, w')
      | (Inr _, w') \<Rightarrow> (Done, w'))"
proof (cases "bot_inputs env")
  case (Inl e)
  then show ?thesis by (simp add: eval_nat_numeral run_bot_inputs)
next
  case (Inr a)
  then obtain t co l i where a: "bot_inputs env = Inr (t, co, l, i)" by (cases a) auto
  have "req_exec 5 cfg env Start w = req_exec 4 cfg env (Ready (t, co, l, i)) w"
    using a by (simp add: eval_nat_numeral del: req_exec.simps(2)) (simp add: numeral_eq_Suc)
  also have "\<dots> = (case run_bot cfg env w of (Inl e, w') \<Rightarrow> (Failed e, w') | (Inr _, w') \<Rightarrow> (Done, w'))"
    using a by (simp add: req_exec_Ready run_bot_inputs split: prod.split sum.split)
  finally show ?thesis .
qed

text \<open>A configuration of overlapping requests is reachable exactly when some explicit
  interleaving (the sequence of the indices of the requests that step) leads to it.\<close>

theorem reachable_iff_schedule:
  "(conc_step cfg envs)\<^sup>*\<^sup>* c c' \<longleftrightarrow> (\<exists>is. sched_exec cfg envs is c = Some c')"
  using sched_exec_reach reach_sched_exec by blast

text \<open>
  C23. However the requests interleave, against the in-memory Blogger each request
  publishes at most one post: the posts added are as many as the requests that have
  completed, and never more than the requests started.
\<close>

theorem concurrent_posts_per_request:
  assumes "\<forall>i. bl_api (blogger (envs i)) = mem_api"
    and "(conc_step cfg envs)\<^sup>*\<^sup>* (replicate n Start, w) (ls, w')"
  shows "\<exists>new. db_posts (platform w') = db_posts (platform w) @ new \<and>
           length new = length (filter (\<lambda>l. l = Done) ls) \<and> length new \<le> n"
proof -
  have "\<exists>new. db_posts (platform w') = db_posts (platform w) @ new \<and>
          length new = length (filter (\<lambda>l. l = Done) ls) \<and> length ls = n"
    using assms(2)
  proof (induction rule: rtranclp_induct2)
    case refl
    show ?case by (intro exI [of _ "[]"]) simp
  next
    case (step ls1 w1 ls2 w2)
    then obtain new where "db_posts (platform w1) = db_posts (platform w) @ new"
        "length new = length (filter (\<lambda>l. l = Done) ls1)" "length ls1 = n" by blast
    with conc_step_mem_posts [OF assms(1) step(2)] show ?case by fastforce
  qed
  then show ?thesis using length_filter_le [of "\<lambda>l. l = Done" ls] by fastforce
qed

theorem concurrent_posts_per_request_witness:
  \<open>\<exists>new. db_posts (platform \<lparr>files = [pystr ''credentials.storage'' \<mapsto> \<lparr>access_token = pystr ''tok'', refresh_token = None, invalid = False\<rparr>], platform = \<lparr>db_blogs = [(pystr ''https://chaibuzz.blogspot.com/'', pystr ''42'')],
                  db_tokens = [pystr ''tok''], db_refresh = [],
                  db_posts = [(pystr ''42'', mk_payload (JString []) (JString []) (JArray []) JNull),
                              (pystr ''42'', mk_payload (JString []) (JString []) (JArray []) JNull)]\<rparr>\<rparr>) = db_posts (platform \<lparr>files = Map.empty, platform = \<lparr>db_blogs = [(pystr ''https://chaibuzz.blogspot.com/'', pystr ''42'')],
                  db_tokens = [pystr ''tok''], db_refresh = [], db_posts = []\<rparr>\<rparr>) @ new \<and>
          length new = length (filter (\<lambda>l. l = Done) [Done, Done]) \<and> length new \<le> 2\<close>
proof -
  have s: \<open>sched_exec (load_config Map.empty) (\<lambda>_. \<lparr>news = \<lambda>_. NewsApiException, draw = 0,
        llm = \<lambda>_ _. Inr (Some (pystr ''{"title": "", "content": ""}'')), json_room = 100,
        blogger = \<lparr>bl_consent = \<lambda>_ _. Inr \<lparr>access_token = pystr ''tok'', refresh_token = None, invalid = False\<rparr>,
                   bl_build_error = None, bl_api = mem_api\<rparr>\<rparr>) [0, 1, 0, 1, 0, 1, 0, 1, 0, 1]
             ([Start, Start], \<lparr>files = Map.empty, platform = \<lparr>db_blogs = [(pystr ''https://chaibuzz.blogspot.com/'', pystr ''42'')],
                  db_tokens = [pystr ''tok''], db_refresh = [], db_posts = []\<rparr>\<rparr>) = Some ([Done, Done], \<lparr>files = [pystr ''credentials.storage'' \<mapsto> \<lparr>access_token = pystr ''tok'', refresh_token = None, invalid = False\<rparr>], platform = \<lparr>db_blogs = [(pystr ''https://chaibuzz.blogspot.com/'', pystr ''42'')],
                  db_tokens = [pystr ''tok''], db_refresh = [],
                  db_posts = [(pystr ''42'', mk_payload (JString []) (JString []) (JArray []) JNull),
                              (pystr ''42'', mk_payload (JString []) (JString []) (JArray []) JNull)]\<rparr>\<rparr>)\<close>
    by (simp add: empty_answer_inputs [simplified] load_config_def env_get_def get_blog_id_def
          mem_get_by_url_def mem_insert_def mem_authorized_def post_resource_def store_refresh_def
          cred_after_def)
  have rep: "replicate 2 Start = [Start, Start]" by (simp add: numeral_2_eq_2)
  from sched_exec_reach [OF s]
  have r: \<open>(conc_step (load_config Map.empty) (\<lambda>_. \<lparr>news = \<lambda>_. NewsApiException, draw = 0,
        llm = \<lambda>_ _. Inr (Some (pystr ''{"title": "", "content": ""}'')), json_room = 100,
        blogger = \<lparr>bl_consent = \<lambda>_ _. Inr \<lparr>access_token = pystr ''tok'', refresh_token = None, invalid = False\<rparr>,
                   bl_build_error = None, bl_api = mem_api\<rparr>\<rparr>))\<^sup>*\<^sup>* (replicate 2 Start, \<lparr>files = Map.empty, platform = \<lparr>db_blogs = [(pystr ''https://chaibuzz.blogspot.com/'', pystr ''42'')],
                  db_tokens = [pystr ''tok''], db_refresh = [], db_posts = []\<rparr>\<rparr>) ([Done, Done], \<lparr>files = [pystr ''credentials.storage'' \<mapsto> \<lparr>access_token = pystr ''tok'', refresh_token = None, invalid = False\<rparr>], platform = \<lparr>db_blogs = [(pystr ''https://chaibuzz.blogspot.com/'', pystr ''42'')],
                  db_tokens = [pystr ''tok''], db_refresh = [],
                  db_posts = [(pystr ''42'', mk_payload (JString []) (JString []) (JArray []) JNull),
                              (pystr ''42'', mk_payload (JString []) (JString []) (JArray []) JNull)]\<rparr>\<rparr>)\<close>
    unfolding rep .
  have \<open>\<forall>i. bl_api (blogger ((\<lambda>_. \<lparr>news = \<lambda>_. NewsApiException, draw = 0,
        llm = \<lambda>_ _. Inr (Some (pystr ''{"title": "", "content": ""}'')), json_room = 100,
        blogger = \<lparr>bl_consent = \<lambda>_ _. Inr \<lparr>access_token = pystr ''tok'', refresh_token = None, invalid = False\<rparr>,
                   bl_build_error = None, bl_api = mem_api\<rparr>\<rparr>) i)) = mem_api\<close> by simp
  from concurrent_posts_per_request [OF this r] show ?thesis .
qed

text \<open>
  C24. The credential store is read and written without a lock: when two requests that
  find no valid credential overlap, both read the store before either has run the
  consent flow, so both go on to the interactive flow; whereas run one after the other,
  the second reads the credential the first stored and skips the flow.
\<close>

theorem concurrent_consent_race:
  assumes "bot_inputs (envs 0) = Inr a0" and "bot_inputs (envs 1) = Inr a1"
    and "\<forall>c. \<not> valid_stored cfg (files w) c"
    and "bl_consent (blogger (envs 0)) (client_secret_file cfg) (scopes cfg) = Inr c0" and "\<not> invalid c0"
  shows "(conc_step cfg envs)\<^sup>*\<^sup>* ([Start, Start], w) ([NeedFlow a0, NeedFlow a1], w) \<and>
         (conc_step cfg envs)\<^sup>*\<^sup>* ([Start, Start], w)
           ([Authorized a0 c0, Authorized a1 c0], w\<lparr>files := (files w)(storage_file cfg \<mapsto> c0)\<rparr>)"
proof -
  have nf: "(case files w (storage_file cfg) of
               None \<Rightarrow> NeedFlow a | Some c \<Rightarrow> if invalid c then NeedFlow a else Authorized a c) = NeedFlow a" for a
    using assms(3) by (cases "files w (storage_file cfg)") (auto simp: valid_stored_def)
  have "sched_exec cfg envs [0, 1, 0, 1] ([Start, Start], w) = Some ([NeedFlow a0, NeedFlow a1], w)"
    using assms(1,2) by (simp add: nf)
  moreover have "sched_exec cfg envs [0, 0, 0, 1, 1] ([Start, Start], w) =
    Some ([Authorized a0 c0, Authorized a1 c0], w\<lparr>files := (files w)(storage_file cfg \<mapsto> c0)\<rparr>)"
    using assms(1,2,4,5) by (simp add: nf)
  ultimately show ?thesis using sched_exec_reach by blast
qed

theorem concurrent_consent_race_witness:
  \<open>(conc_step (load_config Map.empty) (\<lambda>_. \<lparr>news = \<lambda>_. NewsApiException, draw = 0,
        llm = \<lambda>_ _. Inr (Some (pystr ''{"title": "", "content": ""}'')), json_room = 100,
        blogger = \<lparr>bl_consent = \<lambda>_ _. Inr \<lparr>access_token = pystr ''tok'', refresh_token = None, invalid = False\<rparr>,
                   bl_build_error = None, bl_api = mem_api\<rparr>\<rparr>))\<^sup>*\<^sup>* ([Start, Start], \<lparr>files = Map.empty, platform = \<lparr>db_blogs = [(pystr ''https://chaibuzz.blogspot.com/'', pystr ''42'')],
                  db_tokens = [pystr ''tok''], db_refresh = [], db_posts = []\<rparr>\<rparr>)
     ([NeedFlow (JString [], JString [], JArray [], JNull), NeedFlow (JString [], JString [], JArray [], JNull)], \<lparr>files = Map.empty, platform = \<lparr>db_blogs = [(pystr ''https://chaibuzz.blogspot.com/'', pystr ''42'')],
                  db_tokens = [pystr ''tok''], db_refresh = [], db_posts = []\<rparr>\<rparr>) \<and>
   (conc_step (load_config Map.empty) (\<lambda>_. \<lparr>news = \<lambda>_. NewsApiException, draw = 0,
        llm = \<lambda>_ _. Inr (Some (pystr ''{"title": "", "content": ""}'')), json_room = 100,
        blogger = \<lparr>bl_consent = \<lambda>_ _. Inr \<lparr>access_token = pystr ''tok'', refresh_token = None, invalid = False\<rparr>,
                   bl_build_error = None, bl_api = mem_api\<rparr>\<rparr>))\<^sup>*\<^sup>* ([Start, Start], \<lparr>files = Map.empty, platform = \<lparr>db_blogs = [(pystr ''https://chaibuzz.blogspot.com/'', pystr ''42'')],
                  db_tokens = [pystr ''tok''], db_refresh = [], db_posts = []\<rparr>\<rparr>)
     ([Authorized (JString [], JString [], JArray [], JNull) \<lparr>access_token = pystr ''tok'', refresh_token = None, invalid = False\<rparr>, Authorized (JString [], JString [], JArray [], JNull) \<lparr>access_token = pystr ''tok'', refresh_token = None, invalid = False\<rparr>],
      \<lparr>files = Map.empty, platform = \<lparr>db_blogs = [(pystr ''https://chaibuzz.blogspot.com/'', pystr ''42'')],
                  db_tokens = [pystr ''tok''], db_refresh = [], db_posts = []\<rparr>\<rparr>\<lparr>files := (files \<lparr>files = Map.empty, platform = \<lparr>db_blogs = [(pystr ''https://chaibuzz.blogspot.com/'', pystr ''42'')],
                  db_tokens = [pystr ''tok''], db_refresh = [], db_posts = []\<rparr>\<rparr>)(storage_file (load_config Map.empty) \<mapsto> \<lparr>access_token = pystr ''tok'', refresh_token = None, invalid = False\<rparr>)\<rparr>)\<close>
  by (rule concurrent_consent_race) (simp_all add: empty_answer_inputs [simplified] valid_stored_def)

end
