(* ===== verification/Spec2Isabelle.thy ===== *)
theory Spec2Isabelle
  imports Concurrency
begin

text \<open>
  A verification development of the news bot \<^verbatim>\<open>src/news_bot.py\<close>.  A Flask route
  \<^verbatim>\<open>/run\<close> (\<^verbatim>\<open>run_endpoint\<close>) calls \<^verbatim>\<open>run_bot\<close>, which fetches
  articles (\<^verbatim>\<open>fetch_random_news\<close>), asks Gemini for a post
  (\<^verbatim>\<open>generate_post\<close>), picks an image among the articles and publishes the post on
  Blogger (\<^verbatim>\<open>post_to_blogger\<close>, which calls \<^verbatim>\<open>get_blogger_service\<close>,
  \<^verbatim>\<open>authorize_credentials\<close> and \<^verbatim>\<open>get_blog_id\<close>).  Each step is a definition of
  the same name; each external service is an oracle the step receives; each exception is
  a value \<open>Inl e\<close> of \<open>py_error\<close>; the state a run changes is a record
  \<open>'p world\<close> of the local credential files and the Blogger platform.

  \<^descr>[Prelude] Python text as lists of code points (\<open>ustr\<close>),
    \<^verbatim>\<open>str(int)\<close>, \<^verbatim>\<open>sep.join\<close>, JSON whitespace, and the exceptions
    (\<open>py_error\<close>), among them \<^verbatim>\<open>SystemExit\<close>, which is not an
    \<^verbatim>\<open>Exception\<close>.
  \<^descr>[Config] lines 18--23: \<open>load_config\<close> reads the six globals with their
    defaults.
  \<^descr>[Json] JSON values as \<^verbatim>\<open>json.loads\<close> returns them (dicts as association
    lists, floats as exact decimals), \<^verbatim>\<open>dict.get\<close> (\<open>py_get\<close>),
    \<^verbatim>\<open>d[k]\<close> (\<open>py_getitem\<close>), \<^verbatim>\<open>str()\<close> of scalars and truthiness.
  \<^descr>[Json_Decode] CPython's JSON scanner (\<open>scan_once\<close> and the mutually recursive
    object and array parsers).  Integers are unbounded, but a literal of more than 4300
    digits raises \<^verbatim>\<open>ValueError\<close> (the int/str conversion limit); each nested
    object or array takes one level of a recursion room \<open>d\<close>, and exhausting it
    raises \<^verbatim>\<open>RecursionError\<close>.  \<open>json_loads d\<close> gives the scanner one unit of
    fuel per character and one more, which is enough: it never runs out
    (\<open>json_loads_fuel_sufficient\<close>), so the only errors are
    \<^verbatim>\<open>JSONDecodeError\<close>, \<^verbatim>\<open>ValueError\<close> and \<^verbatim>\<open>RecursionError\<close>.
  \<^descr>[Json_Encode] \<^verbatim>\<open>json.dumps(obj, indent=2)\<close> as used in the prompt, with
    \<^verbatim>\<open>ensure_ascii\<close>; its output is ASCII.
  \<^descr>[Regex] \<^verbatim>\<open>re.search(r"\{.*\}", s, re.DOTALL)\<close> as the backtracking
    search of the regex engine, proved equal to the leftmost-longest brace span.
  \<^descr>[News] \<^verbatim>\<open>fetch_random_news\<close>: the WorldNews client as an oracle from the
    request to its outcome and \<^verbatim>\<open>random.choice\<close> as a draw among 12 indices;
    only \<^verbatim>\<open>ApiException\<close> is swallowed, and each category is requested for
    exactly one draw.
  \<^descr>[Synthesizer] \<^verbatim>\<open>generate_post\<close>: the exact prompt, Gemini as an oracle,
    and the parse-then-fallback logic with the recursion room the interpreter leaves;
    its lemmas characterise success and each error, including the
    \<^verbatim>\<open>ValueError\<close> and \<^verbatim>\<open>RecursionError\<close> that escape the
    \<^verbatim>\<open>except json.JSONDecodeError\<close> clause.
  \<^descr>[Credentials] \<^verbatim>\<open>authorize_credentials\<close> and
    \<^verbatim>\<open>get_blogger_service\<close> over the credential files, with the consent flow as an
    oracle (which may raise \<^verbatim>\<open>SystemExit\<close>); a valid stored credential is used
    without consent, success stores the credential, failure writes nothing, and the
    cache makes a second call consent-free.
  \<^descr>[Publisher] \<^verbatim>\<open>get_blog_id\<close>, the payload and \<^verbatim>\<open>post_to_blogger\<close>
    over an interface \<open>'p blogger_api\<close> to the platform whose calls also return the
    credential oauth2client refreshed during them, which the run writes back to
    \<^verbatim>\<open>STORAGE_FILE\<close> and uses for the next call: the platform changes only by the
    one insert of the payload, the only file written is \<^verbatim>\<open>STORAGE_FILE\<close>, and
    \<^verbatim>\<open>post['url']\<close> is read after the insert.
  \<^descr>[Blogger_Mem] an in-memory Blogger platform implementing the interface, after the
    documented API: blogs by URL, accepted tokens, a token endpoint for refreshes, posts
    in order.  A stored credential whose token is rejected and cannot be refreshed makes
    the run fail and is stored flagged invalid, which sends the next run to the consent
    flow.
  \<^descr>[Bot] \<^verbatim>\<open>run_bot\<close> with the image loop (\<open>find_image\<close>,
    \<open>select_image\<close>) and \<^verbatim>\<open>run_endpoint\<close>, which answers 200, 500 for an
    \<^verbatim>\<open>Exception\<close>, or drops the connection on \<^verbatim>\<open>SystemExit\<close>; a run
    publishes at most one post and the steps before publishing only read.
  \<^descr>[Concurrency] overlapping requests to \<^verbatim>\<open>/run\<close>: one request as the atomic
    steps that touch the shared credential file and platform (\<open>req_step\<close>,
    including the write-back of refreshed credentials), the system as an interleaving
    relation (\<open>conc_step\<close>) and explicit schedules (\<open>sched_exec\<close>).  A
    request run alone ends as \<^verbatim>\<open>run_bot\<close> does within five steps (the number of
    its steps that touch shared state, and one more); reachability is the same as
    running some schedule; under any interleaving each request publishes at most one
    post; and two overlapping first requests both go to the consent flow.

  Not modelled: console output (\<^verbatim>\<open>print\<close>); the Flask server start-up under
  \<^verbatim>\<open>__main__\<close>; the internals of the client libraries (oracles), in particular the
  local expiry check of oauth2client and its re-reading of the store before a refresh,
  which in a single run finds the credential being refreshed; binary rounding of floats
  (JSON numbers are exact decimals); \<^verbatim>\<open>str()\<close> of lists and dicts (never equal
  to the int or \<^verbatim>\<open>None\<close> ids the fetcher produces).
\<close>

end
